theory Spec2Isabelle
  imports Main "HOL-Library.Word"
begin

unbundle bit_operations_syntax

section \<open>Field codec (ublox.c, lines 108-151)\<close>

text \<open>
  A byte buffer (\<^verbatim>\<open>unsigned char *\<close>) is a list of 8-bit words, a pointer into it is
  the list together with an offset.  The multi-byte accessors copy the bytes with
  \<^verbatim>\<open>memcpy\<close> on a little-endian host, so the byte at the lowest address is the least
  significant one.
\<close>

type_synonym byte = "8 word"

definition U1 :: "byte list \<Rightarrow> nat \<Rightarrow> int" where
  "U1 buff p = uint (buff ! p)"

definition I1 :: "byte list \<Rightarrow> nat \<Rightarrow> int" where
  "I1 buff p = sint (buff ! p)"

definition U2 :: "byte list \<Rightarrow> nat \<Rightarrow> int" where
  "U2 buff p = uint (buff ! p) + 256 * uint (buff ! (p + 1))"

text \<open>
  The four bytes that \<^verbatim>\<open>memcpy(&u,p,4)\<close> copies, as one 32-bit word.
\<close>

definition memcpy4 :: "byte list \<Rightarrow> nat \<Rightarrow> 32 word" where
  "memcpy4 buff p = word_cat (buff ! (p + 3)) (word_cat (buff ! (p + 2))
                      (word_cat (buff ! (p + 1)) (buff ! p) :: 16 word) :: 24 word)"

text \<open>
  \<^verbatim>\<open>U4\<close> declares \<^verbatim>\<open>unsigned long u\<close>, copies four bytes into it and returns it.
  Where \<^verbatim>\<open>long\<close> has 32 bits that is the whole object.  Where it has 64 bits the
  upper four bytes of \<open>u\<close> are never written and the value returned carries whatever
  they held; \<open>hi\<close> stands for them (0 for a 32-bit \<^verbatim>\<open>long\<close>), and the result is the
  value of the \<^verbatim>\<open>unsigned long\<close>.  The callers pass the same \<open>hi\<close> at every call;
  no property proved here depends on its value.

  \<^verbatim>\<open>I4\<close> does the same with a \<^verbatim>\<open>signed long\<close> and returns it as \<^verbatim>\<open>int\<close>: the
  conversion keeps the low 32 bits, so the bytes not written do not reach the result.
\<close>

definition U4 :: "32 word \<Rightarrow> byte list \<Rightarrow> nat \<Rightarrow> 64 word" where
  "U4 hi buff p = word_cat hi (memcpy4 buff p)"

definition I4 :: "byte list \<Rightarrow> nat \<Rightarrow> int" where
  "I4 buff p = sint (memcpy4 buff p)"

definition R4 :: "byte list \<Rightarrow> nat \<Rightarrow> 32 word" where
  "R4 buff p = memcpy4 buff p"

definition R8 :: "byte list \<Rightarrow> nat \<Rightarrow> 64 word" where
  "R8 buff p = word_cat (memcpy4 buff (p + 4)) (memcpy4 buff p)"

text \<open>
  The setters copy the first four bytes of their argument, its low 32 bits;
  \<^verbatim>\<open>setU4\<close> and \<^verbatim>\<open>setI4\<close> take those of the \<^verbatim>\<open>long\<close> they are given.
\<close>

definition setU1 :: "byte \<Rightarrow> byte list" where
  "setU1 u = [u]"

definition setU2 :: "16 word \<Rightarrow> byte list" where
  "setU2 u = [ucast u, ucast (drop_bit 8 u)]"

definition setU4 :: "32 word \<Rightarrow> byte list" where
  "setU4 u = [ucast u, ucast (drop_bit 8 u), ucast (drop_bit 16 u), ucast (drop_bit 24 u)]"

definition setI1 :: "byte \<Rightarrow> byte list" where
  "setI1 i = [i]"

definition setI2 :: "16 word \<Rightarrow> byte list" where
  "setI2 i = setU2 i"

definition setI4 :: "32 word \<Rightarrow> byte list" where
  "setI4 i = setU4 i"

definition setR4 :: "32 word \<Rightarrow> byte list" where
  "setR4 r = setU4 r"

definition setR8 :: "64 word \<Rightarrow> byte list" where
  "setR8 r = setU4 (ucast r) @ setU4 (ucast (drop_bit 32 r))"

subsection \<open>Checksum\<close>

text \<open>
  The loop \<^verbatim>\<open>for (i=2;i<len-2;i++) {cka+=buff[i]; ckb+=cka;}\<close> shared by
  \<^verbatim>\<open>checksum\<close> and \<^verbatim>\<open>setcs\<close>; \<^verbatim>\<open>cka\<close> and \<^verbatim>\<open>ckb\<close> are
  \<^verbatim>\<open>unsigned char\<close>, so the additions wrap modulo 256.
\<close>

definition cs_step :: "byte list \<Rightarrow> nat \<Rightarrow> byte \<times> byte \<Rightarrow> byte \<times> byte" where
  "cs_step buff i ck = (fst ck + buff ! i, snd ck + (fst ck + buff ! i))"

definition cs_loop :: "byte list \<Rightarrow> int \<Rightarrow> byte \<times> byte" where
  "cs_loop buff len = fold (cs_step buff) [2 ..< nat (len - 2)] (0, 0)"

definition checksum :: "byte list \<Rightarrow> int \<Rightarrow> bool" where
  "checksum buff len =
     (fst (cs_loop buff len) = buff ! nat (len - 2) \<and>
      snd (cs_loop buff len) = buff ! nat (len - 1))"

definition setcs :: "byte list \<Rightarrow> int \<Rightarrow> byte list" where
  "setcs buff len =
     (buff[nat (len - 2) := fst (cs_loop buff len)])[nat (len - 1) := snd (cs_loop buff len)]"

section \<open>Data model\<close>

text \<open>
  The structures are declared in the header \<^verbatim>\<open>rtklib.h\<close>; the records below hold the fields
  that \<^verbatim>\<open>ublox.c\<close> reads or writes, under the names used there (prefixed by the
  structure).  A \<^verbatim>\<open>double\<close> is kept as its IEEE-754
  bit pattern (a 64-bit word), a \<^verbatim>\<open>float\<close> as a 32-bit word: the accessors
  \<^verbatim>\<open>R8\<close> and \<^verbatim>\<open>R4\<close> only copy bytes.
\<close>

type_synonym dbl = "64 word"
type_synonym flt = "32 word"

datatype sys = SYS_NONE | SYS_GPS | SYS_SBS | SYS_GLO | SYS_GAL | SYS_QZS | SYS_CMP

datatype code = CODE_NONE | CODE_L1C | CODE_L1B | CODE_L1X | CODE_L1I
  | CODE_L2C | CODE_L2L | CODE_L2S | CODE_L2I | CODE_L7I | CODE_L7Q

record gtime_t =
  gt_time :: int
  gt_sec :: dbl

record obsd_t =
  obsd_time :: gtime_t
  obsd_sat :: int
  obsd_rcv :: int
  obsd_SNR :: "byte list"
  obsd_LLI :: "byte list"
  obsd_code :: "code list"
  obsd_qualL :: "byte list"
  obsd_qualP :: "byte list"
  obsd_L :: "dbl list"
  obsd_P :: "dbl list"
  obsd_D :: "flt list"

record obs_t =
  obs_n :: int
  obs_data :: "obsd_t list"

record eph_t =
  eph_sat :: int
  eph_iode :: int
  eph_iodc :: int
  eph_toe :: gtime_t
  eph_toc :: gtime_t
  eph_data :: "dbl list"

record geph_t =
  geph_sat :: int
  geph_iode :: int
  geph_frq :: int
  geph_tof :: gtime_t
  geph_data :: "dbl list"

record nav_t =
  nav_eph :: "nat \<Rightarrow> eph_t"
  nav_geph :: "nat \<Rightarrow> geph_t"

text \<open>
  The text that \<^verbatim>\<open>sprintf\<close> writes into \<^verbatim>\<open>raw->msgtype\<close> is represented by the
  message it names and the arguments it formats.
\<close>

datatype msgtype = MSG_EMPTY
  | MSG_RXMRAW int int
  | MSG_RXMRAWX int gtime_t int int
  | MSG_TRKMEAS int
  | MSG_TRKD5 int
  | MSG_UBX int int int

record raw_t =
  raw_time :: gtime_t
  raw_obs :: obs_t
  raw_nav :: nav_t
  raw_ephsat :: int
  raw_subfrm :: "nat \<Rightarrow> byte list"
  raw_lockt :: "nat \<Rightarrow> nat \<Rightarrow> dbl"
  raw_lockflag :: "nat \<Rightarrow> nat \<Rightarrow> int"
  raw_halfc :: "nat \<Rightarrow> nat \<Rightarrow> int"
  raw_nbyte :: int
  raw_len :: int
  raw_buff :: "byte list"
  raw_opt :: string
  raw_outtype :: int
  raw_msgtype :: msgtype

section \<open>A zeroed receiver state\<close>

text \<open>
  The state right after allocation: every field zero, the frame buffer \<open>M\<close> bytes
  long, per-satellite subframe buffers of \<open>S\<close> bytes, \<open>K\<close> observation records with
  \<open>F\<close> signal slots each.
\<close>

definition gtime_zero :: gtime_t where
  "gtime_zero = \<lparr>gt_time = 0, gt_sec = 0\<rparr>"

definition obsd_zero :: "nat \<Rightarrow> obsd_t" where
  "obsd_zero F = \<lparr>obsd_time = gtime_zero, obsd_sat = 0, obsd_rcv = 0,
     obsd_SNR = replicate F 0, obsd_LLI = replicate F 0, obsd_code = replicate F CODE_NONE,
     obsd_qualL = replicate F 0, obsd_qualP = replicate F 0,
     obsd_L = replicate F 0, obsd_P = replicate F 0, obsd_D = replicate F 0\<rparr>"

definition eph_zero :: eph_t where
  "eph_zero = \<lparr>eph_sat = 0, eph_iode = 0, eph_iodc = 0, eph_toe = gtime_zero,
     eph_toc = gtime_zero, eph_data = []\<rparr>"

definition geph_zero :: geph_t where
  "geph_zero = \<lparr>geph_sat = 0, geph_iode = 0, geph_frq = 0, geph_tof = gtime_zero,
     geph_data = []\<rparr>"

definition raw_zero :: "nat \<Rightarrow> nat \<Rightarrow> nat \<Rightarrow> nat \<Rightarrow> raw_t" where
  "raw_zero M S K F = \<lparr>raw_time = gtime_zero,
     raw_obs = \<lparr>obs_n = 0, obs_data = replicate K (obsd_zero F)\<rparr>,
     raw_nav = \<lparr>nav_eph = (\<lambda>_. eph_zero), nav_geph = (\<lambda>_. geph_zero)\<rparr>,
     raw_ephsat = 0, raw_subfrm = (\<lambda>_. replicate S 0),
     raw_lockt = (\<lambda>_ _. 0), raw_lockflag = (\<lambda>_ _. 0), raw_halfc = (\<lambda>_ _. 0),
     raw_nbyte = 0, raw_len = 0, raw_buff = replicate M 0,
     raw_opt = [], raw_outtype = 0, raw_msgtype = MSG_EMPTY\<rparr>"

section \<open>Library functions and constants used by the decoders\<close>

text \<open>
  Floating-point arithmetic is not interpreted: the operations on \<^verbatim>\<open>double\<close> are
  parameters acting on bit patterns.  Only what IEEE-754 fixes bit by bit is defined
  here: the constants, the sign change, and the comparisons with zero and \<open>-0.5\<close>
  (\<open>x == 0.0\<close> holds for the two zeros only, \<open>x == -0.5\<close> for one pattern only).
\<close>

record fpu =
  dlt :: "dbl \<Rightarrow> dbl \<Rightarrow> bool"
  dadd :: "dbl \<Rightarrow> dbl \<Rightarrow> dbl"
  dsub :: "dbl \<Rightarrow> dbl \<Rightarrow> dbl"
  dmul :: "dbl \<Rightarrow> dbl \<Rightarrow> dbl"
  ddiv :: "dbl \<Rightarrow> dbl \<Rightarrow> dbl"
  dfloor :: "dbl \<Rightarrow> dbl"
  dle :: "dbl \<Rightarrow> dbl \<Rightarrow> bool"
  d_of_int :: "int \<Rightarrow> dbl"
  d2int :: "dbl \<Rightarrow> int"
  d2uchar :: "dbl \<Rightarrow> byte"
  d2flt :: "dbl \<Rightarrow> flt"

definition d_half :: dbl where "d_half = 0x3FE0000000000000"
definition d_mhalf :: dbl where "d_mhalf = 0xBFE0000000000000"
definition d_one :: dbl where "d_one = 0x3FF0000000000000"
definition d_four :: dbl where "d_four = 0x4010000000000000"
definition d_ten :: dbl where "d_ten = 0x4024000000000000"
definition d_milli :: dbl where "d_milli = 0x3F50624DD2F1A9FC"
definition d_0_08 :: dbl where "d_0_08 = 0x3FB47AE147AE147B"
definition d_0_1 :: dbl where "d_0_1 = 0x3FB999999999999A"
definition d_14 :: dbl where "d_14 = 0x402C000000000000"
definition d_256 :: dbl where "d_256 = 0x4070000000000000"
definition d_1000 :: dbl where "d_1000 = 0x408F400000000000"
definition d_10800 :: dbl where "d_10800 = 0x40C5180000000000"
definition d_302400 :: dbl where "d_302400 = 0x4112750000000000"
definition d_604800 :: dbl where "d_604800 = 0x4122750000000000"
definition d_2p32 :: dbl where "d_2p32 = 0x41F0000000000000"
definition P2_10 :: dbl where "P2_10 = 0x3F50000000000000"

definition d_is0 :: "dbl \<Rightarrow> bool" where
  "d_is0 x \<longleftrightarrow> x = 0 \<or> x = 0x8000000000000000"

definition dneg :: "dbl \<Rightarrow> dbl" where
  "dneg x = x XOR 0x8000000000000000"

text \<open>
  The functions of the RTKLIB library and of the C library that the decoders call, and
  the constants of \<^verbatim>\<open>rtklib.h\<close>, are parameters.  An output argument becomes a
  component of the result: \<^verbatim>\<open>satsys(sat,&prn)\<close> yields the system and \<open>prn\<close>,
  \<^verbatim>\<open>time2gpst(t,&week)\<close> the time of week and the week; the frame decoders take the
  ephemeris they fill in and return it with their status.  \<open>sscanf_d\<close> and
  \<open>sscanf_lf\<close> are the conversions \<^verbatim>\<open>%d\<close> and \<^verbatim>\<open>%lf\<close> of \<^verbatim>\<open>sscanf\<close> on the text
  after the option name, \<open>None\<close> when nothing is converted; \<open>uninit\<close> is the value
  then found in the variable that was never assigned.  \<open>ulong_hi\<close> is the upper half
  of the \<^verbatim>\<open>unsigned long\<close> that \<^verbatim>\<open>U4\<close> returns, which \<^verbatim>\<open>U4\<close> does not assign.
\<close>

record rtklib =
  fp :: fpu
  MAXOBS :: int
  NFREQ :: int
  NEXOBS :: int
  MINPRNSBS :: int
  MINPRNQZS :: int
  CLIGHT :: dbl
  FREQL1 :: dbl
  FREQ1_GLO :: dbl
  FREQ2_GLO :: dbl
  FREQ3_GLO :: dbl
  DFRQ1_GLO :: dbl
  DFRQ2_GLO :: dbl
  FREQ1_CMP :: dbl
  FREQ2_CMP :: dbl
  FREQ3_CMP :: dbl
  P2_32 :: dbl
  lam_carr :: "nat \<Rightarrow> dbl"
  satno :: "sys \<Rightarrow> int \<Rightarrow> int"
  satsys :: "int \<Rightarrow> sys \<times> int"
  gpst2time :: "int \<Rightarrow> dbl \<Rightarrow> gtime_t"
  time2gpst :: "gtime_t \<Rightarrow> dbl \<times> int"
  timeadd :: "gtime_t \<Rightarrow> dbl \<Rightarrow> gtime_t"
  timediff :: "gtime_t \<Rightarrow> gtime_t \<Rightarrow> dbl"
  gpst2utc :: "gtime_t \<Rightarrow> gtime_t"
  sscanf_d :: "string \<Rightarrow> int option"
  sscanf_lf :: "string \<Rightarrow> dbl option"
  uninit :: int
  ulong_hi :: "32 word"
  getbitu :: "byte list \<Rightarrow> int \<Rightarrow> int \<Rightarrow> 32 word"
  setbitu :: "byte list \<Rightarrow> int \<Rightarrow> int \<Rightarrow> 32 word \<Rightarrow> byte list"
  rtk_crc24q :: "byte list \<Rightarrow> int \<Rightarrow> 32 word"
  test_glostr :: "byte list \<Rightarrow> int"
  decode_glostr :: "byte list \<Rightarrow> geph_t \<Rightarrow> int \<times> geph_t"
  decode_gal_inav :: "byte list \<Rightarrow> eph_t \<Rightarrow> int \<times> eph_t"
  decode_frame :: "byte list \<Rightarrow> eph_t \<Rightarrow> int \<times> eph_t"

text \<open>
  The loss-of-lock bits, following the comment \<^verbatim>\<open>LLI: bit1=slip,bit2=half-cycle-invalid\<close>
  of \<^verbatim>\<open>decode_rxmrawx\<close> and the literals \<open>1\<close> and \<open>2\<close> that \<^verbatim>\<open>decode_trkmeas\<close>
  writes for the same two bits.
\<close>

definition LLI_SLIP :: int where "LLI_SLIP = 1"
definition LLI_HALFC :: int where "LLI_HALFC = 2"

definition MAX_CPSTD_VALID :: int where "MAX_CPSTD_VALID = 5"
definition CPSTD_SLIP :: int where "CPSTD_SLIP = 15"

text \<open>
  \<^verbatim>\<open>strstr(s,pat)\<close>: the rest of \<open>s\<close> from the first occurrence of \<open>pat\<close>, or
  \<open>None\<close> for \<^verbatim>\<open>NULL\<close>.
\<close>

fun strstr :: "string \<Rightarrow> string \<Rightarrow> string option" where
  "strstr [] pat = (if pat = [] then Some [] else None)"
| "strstr (c # cs) pat =
     (if take (length pat) (c # cs) = pat then Some (c # cs) else strstr cs pat)"

section \<open>Signal tables (ublox.c, lines 152-243)\<close>

definition ubx_sys :: "int \<Rightarrow> sys" where
  "ubx_sys gnssid =
     (if gnssid = 0 then SYS_GPS else if gnssid = 1 then SYS_SBS
      else if gnssid = 2 then SYS_GAL else if gnssid = 3 then SYS_CMP
      else if gnssid = 5 then SYS_QZS else if gnssid = 6 then SYS_GLO
      else SYS_NONE)"

definition ubx_sig :: "sys \<Rightarrow> int \<Rightarrow> code" where
  "ubx_sig sys sigid =
     (if sys = SYS_GPS then
        (if sigid = 0 then CODE_L1C else if sigid = 3 then CODE_L2L
         else if sigid = 4 then CODE_L2S else CODE_NONE)
      else if sys = SYS_GLO then
        (if sigid = 0 then CODE_L1C else if sigid = 2 then CODE_L2C else CODE_NONE)
      else if sys = SYS_GAL then
        (if sigid = 0 then CODE_L1C else if sigid = 1 then CODE_L1B
         else if sigid = 5 then CODE_L7I else if sigid = 6 then CODE_L7Q else CODE_NONE)
      else if sys = SYS_QZS then
        (if sigid = 0 then CODE_L1C else if sigid = 5 then CODE_L2L else CODE_NONE)
      else if sys = SYS_CMP then
        (if sigid = 0 then CODE_L2I else if sigid = 1 then CODE_L2I
         else if sigid = 2 then CODE_L7I else if sigid = 3 then CODE_L7I else CODE_NONE)
      else if sys = SYS_SBS then CODE_L1C
      else CODE_NONE)"

definition sig_idx :: "sys \<Rightarrow> code \<Rightarrow> int" where
  "sig_idx sys code =
     (if sys = SYS_GPS then
        (if code = CODE_L1C then 1 else if code = CODE_L2L then 2
         else if code = CODE_L2S then 2 else 0)
      else if sys = SYS_GLO then
        (if code = CODE_L1C then 1 else if code = CODE_L2C then 2 else 0)
      else if sys = SYS_GAL then
        (if code = CODE_L1C then 1 else if code = CODE_L1B then 1
         else if code = CODE_L7I then 2 else if code = CODE_L7Q then 2 else 0)
      else if sys = SYS_QZS then
        (if code = CODE_L1C then 1 else if code = CODE_L2L then 2 else 0)
      else if sys = SYS_CMP then
        (if code = CODE_L1I \<or> code = CODE_L2I then 1 else if code = CODE_L7I then 2 else 0)
      else if sys = SYS_SBS then
        (if code = CODE_L1C then 1 else 0)
      else 0)"

text \<open>
  \<^verbatim>\<open>sig_freq\<close>; the three tables have 8 entries, the initialiser followed by zeros.
\<close>

definition sig_freq :: "rtklib \<Rightarrow> sys \<Rightarrow> int \<Rightarrow> int \<Rightarrow> dbl" where
  "sig_freq E sys f fcn =
     (let freq_glo = [FREQ1_GLO E, FREQ2_GLO E, FREQ3_GLO E, 0, 0, 0, 0, 0];
          dfrq_glo = [DFRQ1_GLO E, DFRQ2_GLO E, 0, 0, 0, 0, 0, 0];
          freq_bds = [FREQ1_CMP E, FREQ2_CMP E, FREQ3_CMP E, 0, 0, 0, 0, 0]
      in if sys = SYS_GLO then
           dadd (fp E) (freq_glo ! nat (f - 1))
             (dmul (fp E) (dfrq_glo ! nat (f - 1)) (d_of_int (fp E) fcn))
         else if sys = SYS_CMP then freq_bds ! nat (f - 1)
         else ddiv (fp E) (CLIGHT E) (lam_carr E (nat (f - 1))))"

section \<open>Observation decoders (ublox.c, lines 255-480)\<close>

text \<open>An assignment \<^verbatim>\<open>a[i][j]=v\<close> to one of the per-satellite, per-slot arrays.\<close>

definition upd2 :: "(nat \<Rightarrow> nat \<Rightarrow> 'a) \<Rightarrow> nat \<Rightarrow> nat \<Rightarrow> 'a \<Rightarrow> nat \<Rightarrow> nat \<Rightarrow> 'a" where
  "upd2 m i j v = m(i := (m i)(j := v))"

text \<open>
  The option \<^verbatim>\<open>-TADJ=\<close> (\<^verbatim>\<open>tadj\<close> starts as \<open>0.0\<close>) and the time-tag adjustment
  \<^verbatim>\<open>if (tadj>0.0) {...}\<close>, which yields \<^verbatim>\<open>toff\<close> and the adjusted time.
\<close>

definition opt_tadj :: "rtklib \<Rightarrow> string \<Rightarrow> dbl" where
  "opt_tadj E opt =
     (case strstr opt ''-TADJ='' of
        None \<Rightarrow> 0
      | Some q \<Rightarrow> (case sscanf_lf E (drop 6 q) of None \<Rightarrow> 0 | Some v \<Rightarrow> v))"

definition time_adjust :: "rtklib \<Rightarrow> dbl \<Rightarrow> gtime_t \<Rightarrow> dbl \<times> gtime_t" where
  "time_adjust E tadj t =
     (if dlt (fp E) 0 tadj then
        let tn = ddiv (fp E) (fst (time2gpst E t)) tadj;
            toff = dmul (fp E) (dsub (fp E) tn (dfloor (fp E) (dadd (fp E) tn d_half))) tadj
        in (toff, timeadd E t (dneg toff))
      else (0, t))"

subsection \<open>\<^verbatim>\<open>decode_rxmraw\<close>\<close>

text \<open>
  The slots \<open>1 .. NFREQ+NEXOBS-1\<close> of an observation record are cleared
  (\<^verbatim>\<open>for (j=1;j<NFREQ+NEXOBS;j++)\<close>).
\<close>

definition clear_from1 :: "'a \<Rightarrow> 'a list \<Rightarrow> 'a list" where
  "clear_from1 z xs = take 1 xs @ replicate (length xs - 1) z"

text \<open>One pass through the body of the loop over the satellites; \<open>n\<close> counts the records kept.\<close>

definition rxmraw_meas ::
  "rtklib \<Rightarrow> gtime_t \<Rightarrow> dbl \<Rightarrow> dbl \<Rightarrow> raw_t \<Rightarrow> nat \<Rightarrow> nat \<Rightarrow> raw_t \<times> nat" where
  "rxmraw_meas E t toff tt raw n p =
     (let b = raw_buff raw;
          d0 = obs_data (raw_obs raw) ! n;
          L0 = dsub (fp E) (R8 b p) (dmul (fp E) toff (FREQL1 E));
          P0 = dsub (fp E) (R8 b (p + 8)) (dmul (fp E) toff (CLIGHT E));
          prn = U1 b (p + 20);
          snr = d2uchar (fp E)
                  (dadd (fp E) (dmul (fp E) (d_of_int (fp E) (I1 b (p + 22))) d_four) d_half);
          lli = b ! (p + 23);
          L1 = (if strstr (raw_opt raw) ''-INVCP'' \<noteq> None then dneg L0 else L0);
          d1 = d0\<lparr>obsd_time := t,
                  obsd_L := (obsd_L d0)[0 := L1],
                  obsd_P := (obsd_P d0)[0 := P0],
                  obsd_D := (obsd_D d0)[0 := R4 b (p + 16)],
                  obsd_SNR := (obsd_SNR d0)[0 := snr],
                  obsd_LLI := (obsd_LLI d0)[0 := lli],
                  obsd_code := (obsd_code d0)[0 := CODE_L1C]\<rparr>;
          sat = satno E (if MINPRNSBS E \<le> prn then SYS_SBS else SYS_GPS) prn
      in if sat = 0
         then (raw\<lparr>raw_obs := (raw_obs raw)\<lparr>obs_data := (obs_data (raw_obs raw))[n := d1]\<rparr>\<rparr>, n)
         else
           let s = nat (sat - 1);
               lk = (if uint lli AND 1 \<noteq> 0 then 0
                     else if dlt (fp E) tt d_one \<or> dlt (fp E) d_ten tt then 0
                     else dadd (fp E) (raw_lockt raw s 0) tt);
               d2 = d1\<lparr>obsd_sat := sat,
                       obsd_L := clear_from1 0 (obsd_L d1),
                       obsd_P := clear_from1 0 (obsd_P d1),
                       obsd_D := clear_from1 0 (obsd_D d1),
                       obsd_SNR := clear_from1 0 (obsd_SNR d1),
                       obsd_LLI := clear_from1 0 (obsd_LLI d1),
                       obsd_qualL := clear_from1 0 (obsd_qualL d1),
                       obsd_qualP := clear_from1 0 (obsd_qualP d1),
                       obsd_code := clear_from1 CODE_NONE (obsd_code d1)\<rparr>
           in (raw\<lparr>raw_obs := (raw_obs raw)\<lparr>obs_data := (obs_data (raw_obs raw))[n := d2]\<rparr>,
                    raw_lockt := upd2 (raw_lockt raw) s 0 lk\<rparr>, n + 1))"

text \<open>
  The loop \<^verbatim>\<open>for (i=0,p+=8;i<nsat&&i<MAXOBS;i++,p+=24)\<close>; \<open>k\<close> is the number of
  satellites still to read.
\<close>

fun rxmraw_loop ::
  "rtklib \<Rightarrow> gtime_t \<Rightarrow> dbl \<Rightarrow> dbl \<Rightarrow> raw_t \<Rightarrow> nat \<Rightarrow> nat \<Rightarrow> nat \<Rightarrow> nat \<Rightarrow> raw_t \<times> nat" where
  "rxmraw_loop E t toff tt raw n i p 0 = (raw, n)"
| "rxmraw_loop E t toff tt raw n i p (Suc k) =
     (if int i < MAXOBS E then
        (case rxmraw_meas E t toff tt raw n p of
           (raw', n') \<Rightarrow> rxmraw_loop E t toff tt raw' n' (i + 1) (p + 24) k)
      else (raw, n))"

definition decode_rxmraw :: "rtklib \<Rightarrow> raw_t \<Rightarrow> int \<times> raw_t" where
  "decode_rxmraw E raw0 =
     (let b = raw_buff raw0; p = 6;
          raw = (if raw_outtype raw0 \<noteq> 0
                 then raw0\<lparr>raw_msgtype := MSG_RXMRAW (raw_len raw0) (U1 b (p + 6))\<rparr> else raw0);
          tadj = opt_tadj E (raw_opt raw);
          nsat = U1 b (p + 6)
      in if raw_len raw < 12 + 24 * nsat then (-1, raw)
         else
           let tow = d_of_int (fp E) (uint (U4 (ulong_hi E) b p));
               week = U2 b (p + 4);
               t0 = gpst2time E week (dmul (fp E) tow d_milli)
           in if week = 0 then (0, raw)
              else
                (case time_adjust E tadj t0 of
                   (toff, t) \<Rightarrow>
                     let tt = timediff E t (raw_time raw) in
                     (case rxmraw_loop E t toff tt raw 0 0 (p + 8) (nat nsat) of
                        (raw', n) \<Rightarrow>
                          (1, raw'\<lparr>raw_time := t,
                                   raw_obs := (raw_obs raw')\<lparr>obs_n := int n\<rparr>\<rparr>))))"

subsection \<open>\<^verbatim>\<open>decode_rxmrawx\<close>\<close>

text \<open>
  The options \<^verbatim>\<open>-MAX_STD_CP=\<close> and \<^verbatim>\<open>-STD_SLIP=\<close>: the default when the option is
  absent, the converted number when it is present.
\<close>

definition opt_cpstd_valid :: "rtklib \<Rightarrow> string \<Rightarrow> int" where
  "opt_cpstd_valid E opt =
     (case strstr opt ''-MAX_STD_CP='' of
        None \<Rightarrow> MAX_CPSTD_VALID
      | Some q \<Rightarrow> (case sscanf_d E (drop 12 q) of None \<Rightarrow> uninit E | Some v \<Rightarrow> v))"

definition opt_cpstd_slip :: "rtklib \<Rightarrow> string \<Rightarrow> int" where
  "opt_cpstd_slip E opt =
     (case strstr opt ''-STD_SLIP='' of
        None \<Rightarrow> CPSTD_SLIP
      | Some q \<Rightarrow> (case sscanf_d E (drop 10 q) of None \<Rightarrow> uninit E | Some v \<Rightarrow> v))"

text \<open>
  The fields of one measurement block at \<open>p\<close> (lines 387-401), after the two validity
  tests: \<^verbatim>\<open>if (!(tstat&1)) P=0.0\<close> and
  \<^verbatim>\<open>if (!(tstat&2)||L==-0.5||cpstd>cpstd_valid) L=0.0\<close>.  \<^verbatim>\<open>D\<close> is read as a
  \<^verbatim>\<open>float\<close> and stored as a \<^verbatim>\<open>float\<close>; its bit pattern is kept.
\<close>

record rawx_blk =
  bl_P :: dbl
  bl_L :: dbl
  bl_D :: flt
  bl_gnss :: int
  bl_svid :: int
  bl_sigid :: int
  bl_frqid :: int
  bl_lockt :: int
  bl_cn0 :: int
  bl_prstd :: int
  bl_cpstd :: int
  bl_tstat :: int

definition rawx_block :: "int \<Rightarrow> byte list \<Rightarrow> nat \<Rightarrow> rawx_blk" where
  "rawx_block cpstd_valid b p =
     (let prstd = U1 b (p + 27) AND 15;
          cpstd = U1 b (p + 28) AND 15;
          tstat = U1 b (p + 30)
      in \<lparr>bl_P = (if tstat AND 1 = 0 then 0 else R8 b p),
          bl_L = (if tstat AND 2 = 0 \<or> R8 b (p + 8) = d_mhalf \<or> cpstd > cpstd_valid
                  then 0 else R8 b (p + 8)),
          bl_D = R4 b (p + 16),
          bl_gnss = U1 b (p + 20),
          bl_svid = U1 b (p + 21),
          bl_sigid = U1 b (p + 22),
          bl_frqid = U1 b (p + 23),
          bl_lockt = U2 b (p + 24),
          bl_cn0 = U1 b (p + 26),
          bl_prstd = 2 ^ nat (if prstd \<ge> 5 then prstd - 5 else 0),
          bl_cpstd = cpstd,
          bl_tstat = tstat\<rparr>)"

text \<open>
  System, satellite, code and slot of the block (lines 403-427); \<open>None\<close> where the
  source says \<^verbatim>\<open>continue\<close>.
\<close>

definition rawx_signal :: "rtklib \<Rightarrow> int \<Rightarrow> rawx_blk \<Rightarrow> (sys \<times> int \<times> code \<times> int) option" where
  "rawx_signal E ver bl =
     (let sys = ubx_sys (bl_gnss bl) in
      if sys = SYS_NONE then None
      else
        let prn = bl_svid bl + (if sys = SYS_QZS then MINPRNQZS E - 1 else 0);
            sat = satno E sys prn
        in if sat = 0 then None
           else
             let code = (if ver \<ge> 1 then ubx_sig sys (bl_sigid bl)
                         else if sys = SYS_CMP then CODE_L2I
                         else if sys = SYS_GAL then CODE_L1X else CODE_L1C);
                 f = sig_idx sys code
             in if f = 0 \<or> f > NFREQ E + NEXOBS E then None
                else Some (sys, sat, code, f))"

text \<open>The offset by the time-tag adjustment (lines 429-432).\<close>

definition rawx_offset :: "rtklib \<Rightarrow> dbl \<Rightarrow> sys \<Rightarrow> int \<Rightarrow> rawx_blk \<Rightarrow> dbl \<times> dbl" where
  "rawx_offset E toff sys f bl =
     (if \<not> d_is0 toff \<and> \<not> d_is0 (bl_L bl) then
        (dsub (fp E) (bl_P bl) (dmul (fp E) toff (CLIGHT E)),
         dsub (fp E) (bl_L bl) (dmul (fp E) toff (sig_freq E sys f (bl_frqid bl - 7))))
      else (bl_P bl, bl_L bl))"

text \<open>
  Half-cycle flags, slip detection and the loss-of-lock indicator (lines 433-447), in
  the order of the source: \<^verbatim>\<open>raw->halfc\<close> is assigned before \<^verbatim>\<open>LLI\<close> is composed.
  \<open>L\<close> is the phase after the offset.
\<close>

definition rawx_track ::
  "rtklib \<Rightarrow> int \<Rightarrow> raw_t \<Rightarrow> sys \<Rightarrow> int \<Rightarrow> int \<Rightarrow> rawx_blk \<Rightarrow> dbl \<Rightarrow> raw_t \<times> int" where
  "rawx_track E cpstd_slip raw sys sat f bl L =
     (let s = nat (sat - 1); k = nat (f - 1);
          lockt = bl_lockt bl; tstat = bl_tstat bl;
          halfv = (if sys = SYS_SBS then (if lockt > 8000 then 1 else 0)
                   else (if tstat AND 4 \<noteq> 0 then 1 else (0::int)));
          halfc = (if tstat AND 8 \<noteq> 0 then 1 else (0::int));
          lockt_s = dmul (fp E) (d_of_int (fp E) lockt) d_milli;
          slip0 = (if lockt = 0 \<or> dlt (fp E) lockt_s (raw_lockt raw s k) \<or>
                      halfc \<noteq> raw_halfc raw s k then 1 else 0);
          slip = (if bl_cpstd bl \<ge> cpstd_slip then LLI_SLIP else slip0);
          raw1 = (if slip \<noteq> 0 then raw\<lparr>raw_lockflag := upd2 (raw_lockflag raw) s k slip\<rparr>
                  else raw);
          raw2 = raw1\<lparr>raw_lockt := upd2 (raw_lockt raw1) s k lockt_s,
                      raw_halfc := upd2 (raw_halfc raw1) s k halfc\<rparr>;
          LLI0 = (if halfv = 0 \<and> \<not> d_is0 L then LLI_HALFC else 0);
          LLI1 = LLI0 OR (if halfc \<noteq> raw_halfc raw2 s k then 1 else 0);
          LLI = (if \<not> d_is0 L
                 then LLI1 OR (if raw_lockflag raw2 s k > 0 then LLI_SLIP else 0)
                 else LLI1)
      in (raw2, LLI))"

text \<open>
  The search \<^verbatim>\<open>for (j=0;j<n;j++) if (raw->obs.data[j].sat==sat) break;\<close>: the first
  of the \<open>n\<close> records of the epoch that holds \<open>sat\<close>, or \<open>n\<close>.
\<close>

definition obs_find :: "obsd_t list \<Rightarrow> nat \<Rightarrow> int \<Rightarrow> nat" where
  "obs_find data n sat = length (takeWhile (\<lambda>d. obsd_sat d \<noteq> sat) (take n data))"

text \<open>
  Merging the block into the epoch (lines 449-475): a record that is new in the epoch
  is initialised first (\<open>obsd_init\<close>), then the slot \<open>f-1\<close> of the record is filled
  (\<open>obsd_put\<close>).
\<close>

definition obsd_init :: "rtklib \<Rightarrow> gtime_t \<Rightarrow> int \<Rightarrow> obsd_t \<Rightarrow> obsd_t" where
  "obsd_init E t sat d =
     (let nf = nat (NFREQ E + NEXOBS E) in
      d\<lparr>obsd_time := t, obsd_sat := sat, obsd_rcv := 0,
        obsd_L := replicate nf 0, obsd_P := replicate nf 0,
        obsd_qualL := replicate nf 0, obsd_qualP := replicate nf 0,
        obsd_D := replicate nf 0,
        obsd_SNR := replicate nf 0, obsd_LLI := replicate nf 0,
        obsd_code := replicate nf CODE_NONE\<rparr>)"

definition obsd_put ::
  "nat \<Rightarrow> dbl \<Rightarrow> dbl \<Rightarrow> int \<Rightarrow> int \<Rightarrow> flt \<Rightarrow> int \<Rightarrow> int \<Rightarrow> code \<Rightarrow> obsd_t \<Rightarrow> obsd_t" where
  "obsd_put k L P cpstd prstd D snr LLI code d =
     d\<lparr>obsd_L := (obsd_L d)[k := L],
       obsd_P := (obsd_P d)[k := P],
       obsd_qualL := (obsd_qualL d)[k := word_of_int cpstd],
       obsd_qualP := (obsd_qualP d)[k := word_of_int prstd],
       obsd_D := (obsd_D d)[k := D],
       obsd_SNR := (obsd_SNR d)[k := word_of_int snr],
       obsd_LLI := (obsd_LLI d)[k := word_of_int LLI],
       obsd_code := (obsd_code d)[k := code]\<rparr>"

definition rawx_store ::
  "rtklib \<Rightarrow> gtime_t \<Rightarrow> raw_t \<Rightarrow> nat \<Rightarrow> int \<Rightarrow> code \<Rightarrow> int \<Rightarrow> rawx_blk \<Rightarrow> dbl \<Rightarrow> dbl \<Rightarrow> int
     \<Rightarrow> raw_t \<times> nat" where
  "rawx_store E t raw n sat code f bl P L LLI =
     (let data = obs_data (raw_obs raw);
          k = nat (f - 1);
          j = obs_find data n sat;
          data1 = (if j \<ge> n then data[n := obsd_init E t sat (data ! n)] else data);
          n1 = (if j \<ge> n then n + 1 else n);
          prstd = (if bl_prstd bl \<le> 9 then bl_prstd bl else 9);
          cpstd = (if bl_cpstd bl \<le> 9 then bl_cpstd bl else 9);
          d' = obsd_put k L P cpstd prstd (bl_D bl) (bl_cn0 bl * 4) LLI code (data1 ! j);
          raw1 = raw\<lparr>raw_obs := (raw_obs raw)\<lparr>obs_data := data1[j := d']\<rparr>\<rparr>;
          raw2 = (if \<not> d_is0 L
                  then raw1\<lparr>raw_lockflag := upd2 (raw_lockflag raw1) (nat (sat - 1)) k 0\<rparr>
                  else raw1)
      in (raw2, n1))"

text \<open>The context of the loop: epoch, time offset, version and the two thresholds.\<close>

record rawx_ctx =
  cx_time :: gtime_t
  cx_toff :: dbl
  cx_ver :: int
  cx_cpstd_valid :: int
  cx_cpstd_slip :: int

text \<open>One pass through the body of the loop over the measurement blocks.\<close>

definition rawx_meas :: "rtklib \<Rightarrow> rawx_ctx \<Rightarrow> raw_t \<Rightarrow> nat \<Rightarrow> nat \<Rightarrow> raw_t \<times> nat" where
  "rawx_meas E cx raw n p =
     (let bl = rawx_block (cx_cpstd_valid cx) (raw_buff raw) p in
      case rawx_signal E (cx_ver cx) bl of
        None \<Rightarrow> (raw, n)
      | Some (sys, sat, code, f) \<Rightarrow>
          (case rawx_offset E (cx_toff cx) sys f bl of
             (P, L) \<Rightarrow>
               (case rawx_track E (cx_cpstd_slip cx) raw sys sat f bl L of
                  (raw1, LLI) \<Rightarrow> rawx_store E (cx_time cx) raw1 n sat code f bl P L LLI)))"

text \<open>
  The loop \<^verbatim>\<open>for (i=0,p+=16;i<nmeas&&n<MAXOBS;i++,p+=32)\<close>; \<open>k\<close> is the number of
  blocks still to read.
\<close>

fun rawx_loop :: "rtklib \<Rightarrow> rawx_ctx \<Rightarrow> raw_t \<Rightarrow> nat \<Rightarrow> nat \<Rightarrow> nat \<Rightarrow> raw_t \<times> nat" where
  "rawx_loop E cx raw n p 0 = (raw, n)"
| "rawx_loop E cx raw n p (Suc k) =
     (if int n < MAXOBS E then
        (case rawx_meas E cx raw n p of (raw', n') \<Rightarrow> rawx_loop E cx raw' n' (p + 32) k)
      else (raw, n))"

definition decode_rxmrawx :: "rtklib \<Rightarrow> raw_t \<Rightarrow> int \<times> raw_t" where
  "decode_rxmrawx E raw0 =
     (let b = raw_buff raw0; p = 6 in
      if raw_len raw0 < 24 then (-1, raw0)
      else
        let tow = R8 b p;
            week = U2 b (p + 8);
            nmeas = U1 b (p + 11);
            ver = U1 b (p + 13)
        in if raw_len raw0 < 24 + 32 * nmeas then (-1, raw0)
           else if week = 0 then (0, raw0)
           else
             let t0 = gpst2time E week tow;
                 raw = (if raw_outtype raw0 \<noteq> 0
                        then raw0\<lparr>raw_msgtype := MSG_RXMRAWX (raw_len raw0) t0 nmeas ver\<rparr>
                        else raw0);
                 tadj = opt_tadj E (raw_opt raw);
                 cpstd_valid = opt_cpstd_valid E (raw_opt raw);
                 cpstd_slip = opt_cpstd_slip E (raw_opt raw)
             in (case time_adjust E tadj t0 of
                   (toff, t) \<Rightarrow>
                     (case rawx_loop E
                             \<lparr>cx_time = t, cx_toff = toff, cx_ver = ver,
                              cx_cpstd_valid = cpstd_valid, cx_cpstd_slip = cpstd_slip\<rparr>
                             raw 0 (p + 16) (nat nmeas) of
                        (raw', n) \<Rightarrow>
                          (1, raw'\<lparr>raw_time := t,
                                   raw_obs := (raw_obs raw')\<lparr>obs_n := int n\<rparr>\<rparr>))))"

text \<open>
  The shape of the observation arrays: \<^verbatim>\<open>obs.data\<close> has \<open>MAXOBS\<close> records, each
  per-slot array \<open>NFREQ+NEXOBS\<close> entries.
\<close>

definition obsd_wf :: "rtklib \<Rightarrow> obsd_t \<Rightarrow> bool" where
  "obsd_wf E d \<longleftrightarrow>
     int (length (obsd_L d)) = NFREQ E + NEXOBS E \<and>
     int (length (obsd_P d)) = NFREQ E + NEXOBS E \<and>
     int (length (obsd_D d)) = NFREQ E + NEXOBS E \<and>
     int (length (obsd_SNR d)) = NFREQ E + NEXOBS E \<and>
     int (length (obsd_LLI d)) = NFREQ E + NEXOBS E \<and>
     int (length (obsd_code d)) = NFREQ E + NEXOBS E \<and>
     int (length (obsd_qualL d)) = NFREQ E + NEXOBS E \<and>
     int (length (obsd_qualP d)) = NFREQ E + NEXOBS E"

definition obs_wf :: "rtklib \<Rightarrow> raw_t \<Rightarrow> bool" where
  "obs_wf E raw \<longleftrightarrow>
     int (length (obs_data (raw_obs raw))) = MAXOBS E \<and>
     (\<forall>d \<in> set (obs_data (raw_obs raw)). obsd_wf E d)"

section \<open>Navigation decoders (ublox.c, lines 500-519 and 912-1089)\<close>

text \<open>
  \<^verbatim>\<open>memset(dst+off,v,n)\<close> and \<^verbatim>\<open>memcpy(dst+off,src,n)\<close> on byte lists.
\<close>

definition memset_at :: "byte list \<Rightarrow> nat \<Rightarrow> byte \<Rightarrow> nat \<Rightarrow> byte list" where
  "memset_at dst off v n = take off dst @ replicate n v @ drop (off + n) dst"

definition memcpy_at :: "byte list \<Rightarrow> nat \<Rightarrow> byte list \<Rightarrow> nat \<Rightarrow> byte list" where
  "memcpy_at dst off src n = take off dst @ take n src @ drop (off + n) dst"

text \<open>
  The byte swap \<^verbatim>\<open>for (i=k=0;i<w;i++,p+=4) for (j=0;j<4;j++) buff[k++]=p[3-j]\<close>
  of \<open>w\<close> words starting at offset \<open>p\<close>.
\<close>

definition swap_words :: "byte list \<Rightarrow> nat \<Rightarrow> nat \<Rightarrow> byte list" where
  "swap_words b p w =
     concat (map (\<lambda>i. [b ! (p + 4 * i + 3), b ! (p + 4 * i + 2),
                         b ! (p + 4 * i + 1), b ! (p + 4 * i)]) [0 ..< w])"

subsection \<open>\<^verbatim>\<open>decode_ephem\<close>\<close>

definition decode_ephem :: "rtklib \<Rightarrow> int \<Rightarrow> raw_t \<Rightarrow> int \<times> raw_t" where
  "decode_ephem E sat raw =
     (let sf = raw_subfrm raw (nat (sat - 1)) in
      case decode_frame E sf eph_zero of
        (r1, e1) \<Rightarrow>
          if r1 \<noteq> 1 then (0, raw)
          else
            (case decode_frame E (drop 30 sf) e1 of
               (r2, e2) \<Rightarrow>
                 if r2 \<noteq> 2 then (0, raw)
                 else
                   (case decode_frame E (drop 60 sf) e2 of
                      (r3, eph) \<Rightarrow>
                        if r3 \<noteq> 3 then (0, raw)
                        else if strstr (raw_opt raw) ''-EPHALL'' = None \<and>
                                eph_iode eph = eph_iode (nav_eph (raw_nav raw) (nat (sat - 1))) \<and>
                                eph_iodc eph = eph_iodc (nav_eph (raw_nav raw) (nat (sat - 1)))
                        then (0, raw)
                        else
                          (2, raw\<lparr>raw_nav := (raw_nav raw)\<lparr>nav_eph :=
                                      (nav_eph (raw_nav raw))(nat (sat - 1) := eph\<lparr>eph_sat := sat\<rparr>)\<rparr>,
                                    raw_ephsat := sat\<rparr>))))"

subsection \<open>\<^verbatim>\<open>decode_enav\<close>\<close>

text \<open>
  The buffer for the CRC test (line 940-941): 4 pad bits, then 15 bytes of the even
  half and 11 bytes of the odd half, written into \<^verbatim>\<open>crc_buff[26]={0}\<close>.
\<close>

definition enav_crc_buff :: "rtklib \<Rightarrow> byte list \<Rightarrow> byte list" where
  "enav_crc_buff E buff =
     (let c1 = fold (\<lambda>i c. setbitu E c (4 + 8 * int i) 8 (getbitu E buff (int i * 8) 8))
                 [0 ..< 15] (replicate 26 0)
      in fold (\<lambda>i c. setbitu E c (118 + 8 * int i) 8 (getbitu E (drop 16 buff) (int i * 8) 8))
           [0 ..< 11] c1)"

text \<open>
  Saving a word of type \<open>type\<close> to the frame buffer of the satellite (lines 951-960):
  the flags byte at offset 112 is cleared by word 2, 14 + 2 bytes go to offset
  \<open>type*16\<close>, and the bit of the word is set in the flags.
\<close>

definition enav_save :: "rtklib \<Rightarrow> byte list \<Rightarrow> int \<Rightarrow> byte list \<Rightarrow> byte list" where
  "enav_save E sf type buff =
     (let sf0 = (if type = 2 then sf[112 := 0] else sf);
          k = nat (type * 16);
          sf1 = fold (\<lambda>i x. x[k + i := ucast (getbitu E buff (2 + 8 * int i) 8)]) [0 ..< 14] sf0;
          sf2 = fold (\<lambda>i x. x[k + 14 + i := ucast (getbitu E (drop 16 buff) (2 + 8 * int i) 8)])
                  [0 ..< 2] sf1
      in sf2[112 := sf2 ! 112 OR push_bit (nat type) 1])"

text \<open>
  The end of \<^verbatim>\<open>decode_enav\<close> (lines 963-983), once the seven words are present:
  the I/NAV ephemeris is decoded and stored unless it is the one already stored.
\<close>

definition enav_eph :: "rtklib \<Rightarrow> raw_t \<Rightarrow> int \<Rightarrow> int \<times> raw_t" where
  "enav_eph E raw sat =
     (if strstr (raw_opt raw) ''-GALFNAV'' \<noteq> None then (0, raw)
      else
        (case decode_gal_inav E (raw_subfrm raw (nat (sat - 1))) eph_zero of
           (r, eph) \<Rightarrow>
             if r = 0 then (0, raw)
             else if eph_sat eph \<noteq> sat then (-1, raw)
             else if strstr (raw_opt raw) ''-EPHALL'' = None \<and>
                     eph_iode eph = eph_iode (nav_eph (raw_nav raw) (nat (sat - 1))) \<and>
                     d_is0 (timediff E (eph_toe eph) (eph_toe (nav_eph (raw_nav raw) (nat (sat - 1))))) \<and>
                     d_is0 (timediff E (eph_toc eph) (eph_toc (nav_eph (raw_nav raw) (nat (sat - 1)))))
             then (0, raw)
             else
               (2, raw\<lparr>raw_nav := (raw_nav raw)\<lparr>nav_eph :=
                           (nav_eph (raw_nav raw))(nat (sat - 1) := eph\<lparr>eph_sat := sat\<rparr>)\<rparr>,
                         raw_ephsat := sat\<rparr>)))"

definition decode_enav :: "rtklib \<Rightarrow> raw_t \<Rightarrow> int \<Rightarrow> int \<Rightarrow> int \<times> raw_t" where
  "decode_enav E raw sat off =
     (if raw_len raw < 44 + off then (-1, raw)
      else
        let buff = swap_words (raw_buff raw) (nat (6 + off)) 8;
            part1 = getbitu E buff 0 1;
            page1 = getbitu E buff 1 1;
            part2 = getbitu E (drop 16 buff) 0 1;
            page2 = getbitu E (drop 16 buff) 1 1
        in if page1 = 1 \<or> page2 = 1 then (0, raw)
           else if part1 \<noteq> 0 \<or> part2 \<noteq> 1 then (-1, raw)
           else if rtk_crc24q E (enav_crc_buff E buff) 25 \<noteq> getbitu E (drop 16 buff) 82 24
           then (-1, raw)
           else
             let type = sint (getbitu E buff 2 6) in
             if type > 6 then (0, raw)
             else
               let s = nat (sat - 1);
                   sf = enav_save E (raw_subfrm raw s) type buff;
                   raw1 = raw\<lparr>raw_subfrm := (raw_subfrm raw)(s := sf)\<rparr>
               in if sf ! 112 \<noteq> 0x7F then (0, raw1)
                  else enav_eph E raw1 sat)"

subsection \<open>\<^verbatim>\<open>decode_gnav\<close>\<close>

text \<open>
  The frame buffer after a string is accepted (lines 1068-1074): if the frame id at
  offset 150 differs from bytes 12-13 of the string, the four string buffers are
  cleared and the id saved; then the string is copied to its slot.
\<close>

definition gnav_save :: "byte list \<Rightarrow> int \<Rightarrow> byte list \<Rightarrow> byte list" where
  "gnav_save sf m buff =
     (let sf1 = (if sf ! 150 \<noteq> buff ! 12 \<or> sf ! 151 \<noteq> buff ! 13
                 then memcpy_at (memset_at sf 0 0 40) 150 (drop 12 buff) 2
                 else sf)
      in memcpy_at sf1 (nat ((m - 1) * 10)) buff 10)"

definition decode_gnav :: "rtklib \<Rightarrow> raw_t \<Rightarrow> int \<Rightarrow> int \<Rightarrow> int \<Rightarrow> int \<times> raw_t" where
  "decode_gnav E raw sat off frq =
     (let prn = snd (satsys E sat) in
      if raw_len raw < 24 + off then (-1, raw)
      else
        let buff = swap_words (raw_buff raw) (nat (6 + off)) 4 in
        if test_glostr E buff = 0 then (-1, raw)
        else
          let m = sint (getbitu E buff 1 4) in
          if m < 1 \<or> 15 < m then (-1, raw)
          else
            let s = nat (sat - 1);
                sf = gnav_save (raw_subfrm raw s) m buff;
                raw1 = raw\<lparr>raw_subfrm := (raw_subfrm raw)(s := sf)\<rparr>
            in if m \<noteq> 4 then (0, raw1)
               else
                 (case decode_glostr E sf (geph_zero\<lparr>geph_tof := raw_time raw\<rparr>) of
                    (r, g) \<Rightarrow>
                      if r = 0 \<or> geph_sat g \<noteq> sat then (0, raw1)
                      else
                        let geph = g\<lparr>geph_frq := frq - 7\<rparr> in
                        if strstr (raw_opt raw) ''-EPHALL'' = None \<and>
                           geph_iode geph = geph_iode (nav_geph (raw_nav raw) (nat (prn - 1)))
                        then (0, raw1)
                        else
                          (2, raw1\<lparr>raw_nav := (raw_nav raw1)\<lparr>nav_geph :=
                                       (nav_geph (raw_nav raw1))(nat (prn - 1) := geph)\<rparr>,
                                     raw_ephsat := sat\<rparr>)))"

section \<open>Tracking decoders (ublox.c, lines 630-879)\<close>

text \<open>
  \<^verbatim>\<open>I8\<close>: \<^verbatim>\<open>I4(p+4)*4294967296.0+U4(p)\<close>.  The static array \<^verbatim>\<open>adrs\<close> of the two
  decoders is written and never read (its only reads are under \<^verbatim>\<open>#if 0\<close>); it is not
  part of the state here.
\<close>

definition I8 :: "rtklib \<Rightarrow> byte list \<Rightarrow> nat \<Rightarrow> dbl" where
  "I8 E b p =
     dadd (fp E) (dmul (fp E) (d_of_int (fp E) (I4 b (p + 4))) d_2p32)
       (d_of_int (fp E) (uint (U4 (ulong_hi E) b p)))"

text \<open>
  Steps shared by the two decoders: a transmission time in seconds
  (\<^verbatim>\<open>I8(p)*P2_32/1000.0\<close>), the rounding \<^verbatim>\<open>tr=ROUND((tr+0.08)/0.1)*0.1\<close>, the week
  handover against \<^verbatim>\<open>raw->time\<close>, the travel time with its half-week wrap, and the
  clearing of the slots from 1 on.
\<close>

definition trk_ts :: "rtklib \<Rightarrow> byte list \<Rightarrow> nat \<Rightarrow> dbl" where
  "trk_ts E b p = ddiv (fp E) (dmul (fp E) (I8 E b p) (P2_32 E)) d_1000"

definition trk_round :: "rtklib \<Rightarrow> dbl \<Rightarrow> dbl" where
  "trk_round E tr =
     dmul (fp E)
       (d_of_int (fp E)
          (d2int (fp E)
             (dfloor (fp E) (dadd (fp E) (ddiv (fp E) (dadd (fp E) tr d_0_08) d_0_1) d_half))))
       d_0_1"

definition trk_time :: "rtklib \<Rightarrow> raw_t \<Rightarrow> dbl \<Rightarrow> gtime_t" where
  "trk_time E raw tr =
     (case time2gpst E (raw_time raw) of
        (t, week) \<Rightarrow>
          gpst2time E
            (if dlt (fp E) tr (dsub (fp E) t d_302400) then week + 1
             else if dlt (fp E) (dadd (fp E) t d_302400) tr then week - 1
             else week) tr)"

definition trk_tau :: "rtklib \<Rightarrow> dbl \<Rightarrow> dbl \<Rightarrow> dbl" where
  "trk_tau E tr ts =
     (let tau = dsub (fp E) tr ts in
      if dlt (fp E) tau (dneg d_302400) then dadd (fp E) tau d_604800
      else if dlt (fp E) d_302400 tau then dsub (fp E) tau d_604800
      else tau)"

subsection \<open>\<^verbatim>\<open>decode_trkmeas\<close>\<close>

definition P_adj_fw2 :: "int list" where
  "P_adj_fw2 = [0, 0, 0, 0, 1, 3, 2, 0, -4, -3, -9, -8, -7, -4, 0]"

definition P_adj_fw3 :: "int list" where
  "P_adj_fw3 = [11, 13, 13, 14, 14, 13, 12, 10, 8, 6, 5, 5, 5, 7, 0]"

text \<open>The option \<^verbatim>\<open>-TRKM_ADJ=\<close>; \<^verbatim>\<open>fw\<close> starts as 0.\<close>

definition opt_trkm_adj :: "rtklib \<Rightarrow> string \<Rightarrow> int" where
  "opt_trkm_adj E opt =
     (case strstr opt ''-TRKM_ADJ='' of
        None \<Rightarrow> 0
      | Some q \<Rightarrow> (case sscanf_d E (drop 10 q) of None \<Rightarrow> 0 | Some v \<Rightarrow> v))"

text \<open>
  The first loop over the channels: the largest transmission time of a GPS channel
  with quality indicator at least 4, starting from \<open>-1.0\<close>.
\<close>

definition trkmeas_tr :: "rtklib \<Rightarrow> byte list \<Rightarrow> nat \<Rightarrow> dbl" where
  "trkmeas_tr E b nch =
     fold (\<lambda>i tr.
             let p = 110 + 56 * i in
             if U1 b (p + 1) < 4 \<or> ubx_sys (U1 b (p + 4)) \<noteq> SYS_GPS then tr
             else if dlt (fp E) tr (trk_ts E b (p + 24)) then trk_ts E b (p + 24) else tr)
       [0 ..< nch] (dneg d_one)"

text \<open>
  One pass through the body of the second loop, for the channel at \<open>p\<close>.  The loop
  has no test of \<open>n\<close> against \<open>MAXOBS\<close>; the model follows the code while
  \<open>n\<close> is below the length of \<^verbatim>\<open>obs.data\<close>, where the store is defined in C.
\<close>

definition trkmeas_ch ::
  "rtklib \<Rightarrow> gtime_t \<Rightarrow> dbl \<Rightarrow> dbl \<Rightarrow> int \<Rightarrow> raw_t \<Rightarrow> nat \<Rightarrow> nat \<Rightarrow> raw_t \<times> nat" where
  "trkmeas_ch E t tr utc_gpst fw raw n p =
     (let b = raw_buff raw; qi = U1 b (p + 1) in
      if qi < 4 \<or> 7 < qi then (raw, n)
      else
        let sys = ubx_sys (U1 b (p + 4)) in
        if sys = SYS_NONE then (raw, n)
        else
          let prn = U1 b (p + 5) + (if sys = SYS_QZS then 192 else 0);
              sat = satno E sys prn
          in if sat = 0 then (raw, n)
             else
               let s = nat (sat - 1);
                   ts0 = trk_ts E b (p + 24);
                   ts = (if sys = SYS_CMP then dadd (fp E) ts0 d_14
                         else if sys = SYS_GLO
                         then dsub (fp E) ts0 (dadd (fp E) d_10800 utc_gpst)
                         else ts0);
                   tau = trk_tau E tr ts;
                   frq = U1 b (p + 7) - 7;
                   flag = U1 b (p + 8);
                   lock2 = U1 b (p + 17);
                   snr = ddiv (fp E) (d_of_int (fp E) (U2 b (p + 20))) d_256;
                   adr = dadd (fp E) (dmul (fp E) (I8 E b (p + 32)) (P2_32 E))
                           (if flag AND 0x40 \<noteq> 0 then d_half else 0);
                   dop = dmul (fp E) (dmul (fp E) (d_of_int (fp E) (I4 b (p + 40))) P2_10) d_ten;
                   lk1 = (if lock2 = 0 \<or> dlt (fp E) (d_of_int (fp E) lock2) (raw_lockt raw s 0)
                          then upd2 (raw_lockt raw) s 1 d_one else raw_lockt raw);
                   lk2 = upd2 lk1 s 0 (d_of_int (fp E) lock2);
                   raw1 = raw\<lparr>raw_lockt := lk2\<rparr>
               in if flag AND 0x20 = 0 then (raw1, n)
                  else
                    let d0 = obs_data (raw_obs raw1) ! n;
                        P0 = dmul (fp E) tau (CLIGHT E);
                        P1 = (if sys = SYS_GLO \<and> frq \<ge> -7 \<and> frq \<le> 7 then
                                (let Pa = (if fw = 2
                                           then dadd (fp E) P0 (d_of_int (fp E) (P_adj_fw2 ! nat (frq + 7)))
                                           else P0)
                                 in if fw = 3
                                    then dadd (fp E) Pa (d_of_int (fp E) (P_adj_fw3 ! nat (frq + 7)))
                                    else Pa)
                              else P0);
                        lli = (if dlt (fp E) 0 (lk2 s 1) then 1 else 0) OR
                              (if sys = SYS_SBS then (if lock2 > 142 then 0 else 2)
                               else (if flag AND 0x80 \<noteq> 0 then 0 else (2::int)));
                        d1 = d0\<lparr>obsd_time := t, obsd_sat := sat,
                                obsd_P := clear_from1 0 ((obsd_P d0)[0 := P1]),
                                obsd_L := clear_from1 0 ((obsd_L d0)[0 := dneg adr]),
                                obsd_D := clear_from1 0 ((obsd_D d0)[0 := d2flt (fp E) dop]),
                                obsd_SNR := clear_from1 0
                                  ((obsd_SNR d0)[0 := d2uchar (fp E) (dmul (fp E) snr d_four)]),
                                obsd_code := clear_from1 CODE_NONE
                                  ((obsd_code d0)[0 := (if sys = SYS_CMP then CODE_L2I else CODE_L1C)]),
                                obsd_qualL := clear_from1 0 ((obsd_qualL d0)[0 := word_of_int (8 - qi)]),
                                obsd_qualP := clear_from1 0 (obsd_qualP d0),
                                obsd_LLI := clear_from1 0 ((obsd_LLI d0)[0 := word_of_int lli])\<rparr>
                    in (raw1\<lparr>raw_obs := (raw_obs raw1)\<lparr>obs_data :=
                                 (obs_data (raw_obs raw1))[n := d1]\<rparr>,
                              raw_lockt := upd2 lk2 s 1 0\<rparr>, n + 1))"

fun trkmeas_loop ::
  "rtklib \<Rightarrow> gtime_t \<Rightarrow> dbl \<Rightarrow> dbl \<Rightarrow> int \<Rightarrow> raw_t \<Rightarrow> nat \<Rightarrow> nat \<Rightarrow> nat \<Rightarrow> raw_t \<times> nat" where
  "trkmeas_loop E t tr utc_gpst fw raw n p 0 = (raw, n)"
| "trkmeas_loop E t tr utc_gpst fw raw n p (Suc k) =
     (case trkmeas_ch E t tr utc_gpst fw raw n p of
        (raw', n') \<Rightarrow> trkmeas_loop E t tr utc_gpst fw raw' n' (p + 56) k)"

definition decode_trkmeas :: "rtklib \<Rightarrow> raw_t \<Rightarrow> int \<times> raw_t" where
  "decode_trkmeas E raw0 =
     (let raw = (if raw_outtype raw0 \<noteq> 0
                 then raw0\<lparr>raw_msgtype := MSG_TRKMEAS (raw_len raw0)\<rparr> else raw0)
      in if gt_time (raw_time raw) = 0 then (0, raw)
         else
           let b = raw_buff raw;
               fw = opt_trkm_adj E (raw_opt raw);
               nch = U1 b (6 + 2)
           in if raw_len raw < 112 + nch * 56 then (-1, raw)
              else
                let tr0 = trkmeas_tr E b (nat nch) in
                if dlt (fp E) tr0 0 then (0, raw)
                else
                  let tr = trk_round E tr0;
                      t = trk_time E raw tr;
                      utc_gpst = timediff E (gpst2utc E t) t
                  in (case trkmeas_loop E t tr utc_gpst fw raw 0 110 (nat nch) of
                        (raw', n) \<Rightarrow>
                          if n = 0 then (0, raw')
                          else (1, raw'\<lparr>raw_time := t,
                                        raw_obs := (raw_obs raw')\<lparr>obs_n := int n\<rparr>\<rparr>)))"

subsection \<open>\<^verbatim>\<open>decode_trkd5\<close>\<close>

text \<open>
  The offsets \<open>off, off+len, ...\<close> below \<^verbatim>\<open>raw->len-2\<close> visited by the two loops
  \<^verbatim>\<open>for (i=0,p=raw->buff+off;p-raw->buff<raw->len-2;i++,p+=len)\<close>.
\<close>

definition trkd5_offsets :: "int \<Rightarrow> nat \<Rightarrow> nat \<Rightarrow> nat list" where
  "trkd5_offsets rawlen off len =
     map (\<lambda>i. off + i * len) [0 ..< (nat (rawlen - 2) - off + len - 1) div len]"

definition trkd5_tr :: "rtklib \<Rightarrow> byte list \<Rightarrow> dbl \<Rightarrow> nat list \<Rightarrow> dbl" where
  "trkd5_tr E b utc_gpst ps =
     fold (\<lambda>p tr.
             if U1 b (p + 41) < 4 then tr
             else
               let t0 = trk_ts E b p;
                   t = (if ubx_sys (U1 b (p + 56)) = SYS_GLO
                        then dsub (fp E) t0 (dadd (fp E) d_10800 utc_gpst) else t0)
               in if dlt (fp E) tr t then t else tr)
       ps (dneg d_one)"

definition trkd5_ch ::
  "rtklib \<Rightarrow> gtime_t \<Rightarrow> dbl \<Rightarrow> dbl \<Rightarrow> int \<Rightarrow> nat \<Rightarrow> raw_t \<times> nat \<Rightarrow> raw_t \<times> nat" where
  "trkd5_ch E t tr utc_gpst type p rn =
     (let raw = fst rn; n = snd rn; b = raw_buff raw; qi = U1 b (p + 41) AND 7 in
      if qi < 4 \<or> 7 < qi then (raw, n)
      else if type = 6 \<and> ubx_sys (U1 b (p + 56)) = SYS_NONE then (raw, n)
      else
        let sys = (if type = 6 then ubx_sys (U1 b (p + 56))
                   else if U1 b (p + 34) < MINPRNSBS E then SYS_GPS else SYS_SBS);
            prn = (if type = 6 then U1 b (p + 57) + (if sys = SYS_QZS then 192 else 0)
                   else U1 b (p + 34));
            sat = satno E sys prn
        in if sat = 0 then (raw, n)
           else
             let s = nat (sat - 1);
                 ts0 = trk_ts E b p;
                 ts = (if sys = SYS_GLO then dsub (fp E) ts0 (dadd (fp E) d_10800 utc_gpst)
                       else ts0);
                 tau = trk_tau E tr ts;
                 flag = U1 b (p + 54);
                 adr = (if qi < 6 then 0
                        else dadd (fp E) (dmul (fp E) (I8 E b (p + 8)) (P2_32 E))
                               (if flag AND 0x01 \<noteq> 0 then d_half else 0));
                 dop = ddiv (fp E) (dmul (fp E) (d_of_int (fp E) (I4 b (p + 16))) P2_10) d_four;
                 snr = ddiv (fp E) (d_of_int (fp E) (U2 b (p + 32))) d_256;
                 lk1 = (if dle (fp E) snr d_ten then upd2 (raw_lockt raw) s 1 d_one
                        else raw_lockt raw);
                 raw1 = raw\<lparr>raw_lockt := lk1\<rparr>
             in if flag AND 0x08 = 0 then (raw1, n)
                else
                  let d0 = obs_data (raw_obs raw1) ! n;
                      d1 = d0\<lparr>obsd_time := t, obsd_sat := sat,
                              obsd_P := clear_from1 0 ((obsd_P d0)[0 := dmul (fp E) tau (CLIGHT E)]),
                              obsd_L := clear_from1 0 ((obsd_L d0)[0 := dneg adr]),
                              obsd_D := clear_from1 0 ((obsd_D d0)[0 := d2flt (fp E) dop]),
                              obsd_SNR := clear_from1 0
                                ((obsd_SNR d0)[0 := d2uchar (fp E) (dmul (fp E) snr d_four)]),
                              obsd_code := clear_from1 CODE_NONE
                                ((obsd_code d0)[0 := (if sys = SYS_CMP then CODE_L2I else CODE_L1C)]),
                              obsd_LLI := clear_from1 0
                                ((obsd_LLI d0)[0 := (if dlt (fp E) 0 (lk1 s 1) then 1 else 0)])\<rparr>
                  in (raw1\<lparr>raw_obs := (raw_obs raw1)\<lparr>obs_data :=
                               (obs_data (raw_obs raw1))[n := d1]\<rparr>,
                            raw_lockt := upd2 lk1 s 1 0\<rparr>, n + 1))"

definition decode_trkd5 :: "rtklib \<Rightarrow> raw_t \<Rightarrow> int \<times> raw_t" where
  "decode_trkd5 E raw0 =
     (let raw = (if raw_outtype raw0 \<noteq> 0
                 then raw0\<lparr>raw_msgtype := MSG_TRKD5 (raw_len raw0)\<rparr> else raw0)
      in if gt_time (raw_time raw) = 0 then (0, raw)
         else
           let b = raw_buff raw;
               utc_gpst = timediff E (gpst2utc E (raw_time raw)) (raw_time raw);
               type = U1 b 6;
               off = (if type = 3 then 86 else if type = 6 then 86 else 78);
               len = (if type = 3 then 56 else if type = 6 then 64 else 56);
               ps = trkd5_offsets (raw_len raw) off len;
               tr0 = trkd5_tr E b utc_gpst ps
           in if dlt (fp E) tr0 0 then (0, raw)
              else
                let tr = trk_round E tr0;
                    t = trk_time E raw tr
                in (case fold (trkd5_ch E t tr utc_gpst type) ps (raw, 0) of
                      (raw', n) \<Rightarrow>
                        if n = 0 then (0, raw')
                        else (1, raw'\<lparr>raw_time := t,
                                      raw_obs := (raw_obs raw')\<lparr>obs_n := int n\<rparr>\<rparr>)))"

section \<open>Dispatcher (ublox.c, lines 1243-1273)\<close>

definition ID_NAVSOL :: int where "ID_NAVSOL = 0x0106"
definition ID_NAVTIME :: int where "ID_NAVTIME = 0x0120"
definition ID_RXMRAW :: int where "ID_RXMRAW = 0x0210"
definition ID_RXMSFRB :: int where "ID_RXMSFRB = 0x0211"
definition ID_RXMSFRBX :: int where "ID_RXMSFRBX = 0x0213"
definition ID_RXMRAWX :: int where "ID_RXMRAWX = 0x0215"
definition ID_TRKD5 :: int where "ID_TRKD5 = 0x030A"
definition ID_TRKMEAS :: int where "ID_TRKMEAS = 0x0310"
definition ID_TRKSFRBX :: int where "ID_TRKSFRBX = 0x030F"
definition ID_TIMTM2 :: int where "ID_TIMTM2 = 0x0D03"

text \<open>
  \<^verbatim>\<open>decode_ubx\<close>: the checksum test, then the \<^verbatim>\<open>switch\<close> on the message type.  The
  decoders of \<^verbatim>\<open>RXM-SFRB\<close>, \<^verbatim>\<open>RXM-SFRBX\<close>, \<^verbatim>\<open>NAV-SOL\<close>, \<^verbatim>\<open>NAV-TIMEGPS\<close>,
  \<^verbatim>\<open>TRK-SFRBX\<close> and \<^verbatim>\<open>TIM-TM2\<close> are the parameter \<open>other\<close>, applied to the type.
\<close>

definition decode_ubx :: "rtklib \<Rightarrow> (int \<Rightarrow> raw_t \<Rightarrow> int \<times> raw_t) \<Rightarrow> raw_t \<Rightarrow> int \<times> raw_t" where
  "decode_ubx E other raw =
     (let type = U1 (raw_buff raw) 2 * 256 + U1 (raw_buff raw) 3 in
      if \<not> checksum (raw_buff raw) (raw_len raw) then (-1, raw)
      else if type = ID_RXMRAW then decode_rxmraw E raw
      else if type = ID_RXMRAWX then decode_rxmrawx E raw
      else if type = ID_RXMSFRB \<or> type = ID_RXMSFRBX \<or> type = ID_NAVSOL \<or>
              type = ID_NAVTIME \<or> type = ID_TRKSFRBX \<or> type = ID_TIMTM2
      then other type raw
      else if type = ID_TRKMEAS then decode_trkmeas E raw
      else if type = ID_TRKD5 then decode_trkd5 E raw
      else (0, if raw_outtype raw \<noteq> 0
               then raw\<lparr>raw_msgtype := MSG_UBX (type div 256) (type AND 0xF) (raw_len raw)\<rparr>
               else raw))"

section \<open>Stream framer (ublox.c, lines 1274-1334)\<close>

text \<open>
  \<^verbatim>\<open>sync_ubx\<close> shifts the incoming byte into \<^verbatim>\<open>buff[0..1]\<close> and tests the two
  sync codes.
\<close>

definition UBXSYNC1 :: byte where "UBXSYNC1 = 0xB5"
definition UBXSYNC2 :: byte where "UBXSYNC2 = 0x62"
definition UBXCFG :: byte where "UBXCFG = 0x06"

definition sync_ubx :: "byte list \<Rightarrow> byte \<Rightarrow> bool \<times> byte list" where
  "sync_ubx buff data =
     (let b = (buff[0 := buff ! 1])[1 := data]
      in (b ! 0 = UBXSYNC1 \<and> b ! 1 = UBXSYNC2, b))"

text \<open>
  The store \<^verbatim>\<open>raw->buff[raw->nbyte++]=data\<close>.  The buffer is the array
  \<^verbatim>\<open>buff[MAXRAWLEN]\<close>; a store outside of it is undefined behaviour in C and is the
  value \<open>None\<close> here.
\<close>

definition buff_store :: "byte list \<Rightarrow> int \<Rightarrow> byte \<Rightarrow> byte list option" where
  "buff_store buff i data =
     (if 0 \<le> i \<and> i < int (length buff) then Some (buff[nat i := data]) else None)"

text \<open>
  \<^verbatim>\<open>input_ubx\<close>.  \<open>MAXRAWLEN\<close>, a constant of \<^verbatim>\<open>rtklib.h\<close>, is a parameter.  The
  result is the status and the updated receiver state.
\<close>

definition input_ubx ::
  "rtklib \<Rightarrow> (int \<Rightarrow> raw_t \<Rightarrow> int \<times> raw_t) \<Rightarrow> int \<Rightarrow> raw_t \<Rightarrow> byte
     \<Rightarrow> (int \<times> raw_t) option" where
  "input_ubx E other MAXRAWLEN raw data =
     (if raw_nbyte raw = 0 then
        (case sync_ubx (raw_buff raw) data of
           (ok, b) \<Rightarrow>
             if \<not> ok then Some (0, raw\<lparr>raw_buff := b\<rparr>)
             else Some (0, raw\<lparr>raw_buff := b, raw_nbyte := 2\<rparr>))
      else
        (case buff_store (raw_buff raw) (raw_nbyte raw) data of
           None \<Rightarrow> None
         | Some b \<Rightarrow>
             let raw1 = raw\<lparr>raw_buff := b, raw_nbyte := raw_nbyte raw + 1\<rparr>;
                 raw2 = (if raw_nbyte raw1 = 6
                         then raw1\<lparr>raw_len := U2 (raw_buff raw1) 4 + 8\<rparr> else raw1)
             in if raw_nbyte raw2 = 6 \<and> raw_len raw2 > MAXRAWLEN
                then Some (-1, raw2\<lparr>raw_nbyte := 0\<rparr>)
                else if raw_nbyte raw2 < 6 \<or> raw_nbyte raw2 < raw_len raw2
                then Some (0, raw2)
                else Some (decode_ubx E other (raw2\<lparr>raw_nbyte := 0\<rparr>))))"

text \<open>Feeding a byte sequence, one byte at a time; the statuses are collected.\<close>

fun input_ubx_seq ::
  "rtklib \<Rightarrow> (int \<Rightarrow> raw_t \<Rightarrow> int \<times> raw_t) \<Rightarrow> int \<Rightarrow> raw_t \<Rightarrow> byte list
     \<Rightarrow> (int list \<times> raw_t) option" where
  "input_ubx_seq E other M raw [] = Some ([], raw)"
| "input_ubx_seq E other M raw (d # ds) =
     (case input_ubx E other M raw d of
        None \<Rightarrow> None
      | Some (st, raw') \<Rightarrow>
          (case input_ubx_seq E other M raw' ds of
             None \<Rightarrow> None
           | Some (sts, raw'') \<Rightarrow> Some (st # sts, raw'')))"

text \<open>
  The states of the framer: idle, in the header, or in the body of a frame whose
  length passed the test against \<open>MAXRAWLEN\<close>.
\<close>

definition framer_state :: "int \<Rightarrow> raw_t \<Rightarrow> bool" where
  "framer_state M raw \<longleftrightarrow>
     int (length (raw_buff raw)) = M \<and>
     (raw_nbyte raw = 0 \<or>
      (2 \<le> raw_nbyte raw \<and> raw_nbyte raw < 6) \<or>
      (6 \<le> raw_nbyte raw \<and> raw_nbyte raw < raw_len raw \<and> raw_len raw \<le> M))"

text \<open>
  No decoder of the file assigns \<^verbatim>\<open>raw->nbyte\<close>, \<^verbatim>\<open>raw->len\<close> or
  \<^verbatim>\<open>raw->buff\<close>; this is what the framer needs to know about the decoders that
  \<open>other\<close> stands for, and it is proved of the decoders modelled above.
\<close>

definition same_frame :: "raw_t \<Rightarrow> raw_t \<Rightarrow> bool" where
  "same_frame r r' \<longleftrightarrow>
     raw_nbyte r' = raw_nbyte r \<and> raw_len r' = raw_len r \<and> raw_buff r' = raw_buff r"

definition keeps_frame :: "(raw_t \<Rightarrow> int \<times> raw_t) \<Rightarrow> bool" where
  "keeps_frame dec \<longleftrightarrow>
     (\<forall>r. raw_nbyte (snd (dec r)) = raw_nbyte r \<and> raw_len (snd (dec r)) = raw_len r \<and>
          length (raw_buff (snd (dec r))) = length (raw_buff r))"

section \<open>Outbound generator (ublox.c, lines 1413-1751)\<close>

text \<open>
  The field types \<^verbatim>\<open>FU1\<close> .. \<^verbatim>\<open>FS32\<close>; \<open>F0\<close> is the value 0 that pads
  the rows of \<^verbatim>\<open>prm\<close> and ends a row.
\<close>

datatype ftype = F0 | FU1 | FU2 | FU4 | FU8 | FI1 | FI2 | FI4 | FR4 | FR8 | FS32

text \<open>A row of \<^verbatim>\<open>int prm[][32]\<close>: the initialiser, padded with zeros to 32 entries.\<close>

definition row32 :: "ftype list \<Rightarrow> ftype list" where
  "row32 r = r @ replicate (32 - length r) F0"

text \<open>
  The C library functions \<^verbatim>\<open>atoi\<close> and \<^verbatim>\<open>atof\<close> and the conversion of a
  \<^verbatim>\<open>double\<close> to \<^verbatim>\<open>float\<close> are parameters.
\<close>

record libc =
  atoi :: "string \<Rightarrow> 32 word"
  atof :: "string \<Rightarrow> dbl"
  dbl2flt :: "dbl \<Rightarrow> flt"

definition byte_of_char :: "char \<Rightarrow> byte" where
  "byte_of_char c = of_nat (of_char c)"

text \<open>\<^verbatim>\<open>sprintf((char *)q,"%-32.32s",s)\<close>: at most 32 characters, padded with blanks on the right.\<close>

definition fmt_s32 :: "string \<Rightarrow> byte list" where
  "fmt_s32 s = map byte_of_char (take 32 s) @ replicate (32 - length (take 32 s)) 0x20"

text \<open>
  One arm of the \<^verbatim>\<open>switch\<close> on the field type: the bytes written at \<^verbatim>\<open>q\<close>.  The
  argument is \<open>Some (args[j])\<close> when \<^verbatim>\<open>j<narg\<close> and \<open>None\<close> otherwise (a zero is
  written).  \<^verbatim>\<open>FU8\<close> has no case of its own and takes the default.
\<close>

fun gen_field :: "libc \<Rightarrow> ftype \<Rightarrow> string option \<Rightarrow> byte list" where
  "gen_field C FU1 a = setU1 (case a of Some s \<Rightarrow> ucast (atoi C s) | None \<Rightarrow> 0)"
| "gen_field C FU2 a = setU2 (case a of Some s \<Rightarrow> ucast (atoi C s) | None \<Rightarrow> 0)"
| "gen_field C FU4 a = setU4 (case a of Some s \<Rightarrow> atoi C s | None \<Rightarrow> 0)"
| "gen_field C FI1 a = setI1 (case a of Some s \<Rightarrow> ucast (atoi C s) | None \<Rightarrow> 0)"
| "gen_field C FI2 a = setI2 (case a of Some s \<Rightarrow> ucast (atoi C s) | None \<Rightarrow> 0)"
| "gen_field C FI4 a = setI4 (case a of Some s \<Rightarrow> atoi C s | None \<Rightarrow> 0)"
| "gen_field C FR4 a = setR4 (case a of Some s \<Rightarrow> dbl2flt C (atof C s) | None \<Rightarrow> 0)"
| "gen_field C FR8 a = setR8 (case a of Some s \<Rightarrow> atof C s | None \<Rightarrow> 0)"
| "gen_field C FS32 a = fmt_s32 (case a of Some s \<Rightarrow> s | None \<Rightarrow> [])"
| "gen_field C _ a = setU1 (case a of Some s \<Rightarrow> ucast (atoi C s) | None \<Rightarrow> 0)"

text \<open>
  The loop \<^verbatim>\<open>for (j=1;prm[i][j-1]||j<narg;j++)\<close> over one row; \<open>q\<close> is the list of
  bytes written so far.  Reading past the 32 entries of the row is \<open>None\<close>.  The result
  carries the final \<open>j\<close>, which the \<^verbatim>\<open>VALSET\<close> part uses as an index.
\<close>

function gen_fields ::
  "libc \<Rightarrow> ftype list \<Rightarrow> string list \<Rightarrow> nat \<Rightarrow> nat \<Rightarrow> byte list \<Rightarrow> (nat \<times> byte list) option" where
  "gen_fields C row args narg j q =
     (if j = 0 \<or> length row < j then None
      else if row ! (j - 1) \<noteq> F0 \<or> j < narg then
        gen_fields C row args narg (j + 1)
          (q @ gen_field C (row ! (j - 1)) (if j < narg then Some (args ! j) else None))
      else Some (j, q))"
  by pat_completeness auto
termination
  by (relation "measure (\<lambda>(C, row, args, narg, j, q). Suc (length row) - j)") auto

declare gen_fields.simps [simp del]

text \<open>
  \<^verbatim>\<open>strtok(mbuff," ")\<close> called until it returns \<^verbatim>\<open>NULL\<close>: the maximal runs of
  characters other than the blank.  \<open>cur\<close> is the token being read.
\<close>

fun strtok_all :: "string \<Rightarrow> string \<Rightarrow> string list" where
  "strtok_all cur [] = (if cur = [] then [] else [cur])"
| "strtok_all cur (c # cs) =
     (if c = CHR '' '' then (if cur = [] then strtok_all [] cs else cur # strtok_all [] cs)
      else strtok_all (cur @ [c]) cs)"

text \<open>
  The search \<^verbatim>\<open>for (i=0;*cmd[i];i++) if (!strcmp(name,cmd[i])) break;\<close> followed by
  \<^verbatim>\<open>if (!*cmd[i]) return 0;\<close>: the index of the first entry equal to \<open>name\<close> before
  the empty string that ends the table.
\<close>

fun find_cmd :: "string list \<Rightarrow> string \<Rightarrow> nat \<Rightarrow> nat option" where
  "find_cmd [] name i = None"
| "find_cmd (c # cs) name i =
     (if c = [] then None else if name = c then Some i else find_cmd cs name (i + 1))"

definition cmd :: "string list" where
  "cmd = [
    ''PRT'', ''USB'', ''MSG'', ''NMEA'', ''RATE'', ''CFG'', ''TP'', ''NAV2'', ''DAT'', ''INF'',
    ''RST'', ''RXM'', ''ANT'', ''FXN'', ''SBAS'', ''LIC'', ''TM'', ''TM2'', ''TMODE'', ''EKF'',
    ''GNSS'', ''ITFM'', ''LOGFILTER'', ''NAV5'', ''NAVX5'', ''ODO'', ''PM2'', ''PWR'',
    ''RINV'', ''SMGR'', ''TMODE2'', ''TMODE3'', ''TPS'', ''TXSLOT'', ''VALSET'', '''']"

definition id_ubx :: "byte list" where
  "id_ubx = [
    0x00, 0x1B, 0x01, 0x17, 0x08, 0x09, 0x07, 0x1A, 0x06, 0x02, 0x04, 0x11, 0x13, 0x0E, 0x16,
    0x80, 0x10, 0x19, 0x1D, 0x12, 0x3E, 0x39, 0x47, 0x24, 0x23, 0x1E, 0x3B, 0x57, 0x34, 0x62,
    0x36, 0x71, 0x31, 0x53, 0x8A]"

definition prm :: "ftype list list" where
  "prm = [
    row32 [FU1, FU1, FU2, FU4, FU4, FU2, FU2, FU2, FU2],
    row32 [FU2, FU2, FU2, FU2, FU2, FU2, FS32, FS32, FS32],
    row32 [FU1, FU1, FU1, FU1, FU1, FU1, FU1, FU1],
    row32 [FU1, FU1, FU1, FU1],
    row32 [FU2, FU2, FU2],
    row32 [FU4, FU4, FU4, FU1],
    row32 [FU4, FU4, FI1, FU1, FU2, FI2, FI2, FI4],
    row32 [FU1, FU1, FU2, FU1, FU1, FU1, FU1, FI4, FU1, FU1, FU1, FU1, FU1, FU1, FU2, FU2, FU2, FU2, FU2, FU1, FU1, FU2, FU4, FU4],
    row32 [FR8, FR8, FR4, FR4, FR4, FR4, FR4, FR4, FR4],
    row32 [FU1, FU1, FU1, FU1, FU1, FU1, FU1, FU1, FU1, FU1],
    row32 [FU2, FU1, FU1],
    row32 [FU1, FU1],
    row32 [FU2, FU2],
    row32 [FU4, FU4, FU4, FU4, FU4, FU4, FU4, FU4],
    row32 [FU1, FU1, FU1, FU1, FU4],
    row32 [FU2, FU2, FU2, FU2, FU2, FU2],
    row32 [FU4, FU4, FU4],
    row32 [FU1, FU1, FU2, FU4, FU4],
    row32 [FU4, FI4, FI4, FI4, FU4, FU4, FU4],
    row32 [FU1, FU1, FU1, FU1, FU4, FU2, FU2, FU1, FU1, FU2],
    row32 [FU1, FU1, FU1, FU1, FU1, FU1, FU1, FU1, FU4],
    row32 [FU4, FU4],
    row32 [FU1, FU1, FU2, FU2, FU2, FU4],
    row32 [FU2, FU1, FU1, FI4, FU4, FI1, FU1, FU2, FU2, FU2, FU2, FU1, FU1, FU1, FU1, FU1, FU1, FU2, FU1, FU1, FU1, FU1, FU1, FU1],
    row32 [FU2, FU2, FU4, FU1, FU1, FU1, FU1, FU1, FU1, FU1, FU1, FU1, FU1, FU2, FU1, FU1, FU1, FU1, FU1, FU1, FU1, FU1, FU1, FU1, FU2],
    row32 [FU1, FU1, FU1, FU1, FU1, FU1, FU1, FU1, FU1],
    row32 [FU1, FU1, FU1, FU1, FU4, FU4, FU4, FU4, FU2, FU2],
    row32 [FU1, FU1, FU1, FU1, FU4],
    row32 [FU1, FU1],
    row32 [FU1, FU1, FU2, FU2, FU1, FU1, FU2, FU2, FU2, FU2, FU4],
    row32 [FU1, FU1, FU2, FI4, FI4, FI4, FU4, FU4, FU4],
    row32 [FU1, FU1, FU2, FI4, FI4, FI4, FU4, FU4, FU4],
    row32 [FU1, FU1, FU1, FU1, FI2, FI2, FU4, FU4, FU4, FU4, FI4, FU4],
    row32 [FU1, FU1, FU1, FU1, FU4, FU4, FU4, FU4, FU4],
    row32 [FU1, FU1, FU1, FU1]]"

definition vcmd :: "string list" where
  "vcmd = [
    ''GEOFENCE-CONFLVL'', ''GEOFENCE-USE_PIO'', ''GEOFENCE-PINPOL'', ''GEOFENCE-PIN'',
    ''GEOFENCE-USE_FENCE1'', ''GEOFENCE-FENCE1_LAT'', ''GEOFENCE-FENCE1_LON'',
    ''GEOFENCE-FENCE1_RAD'', ''GEOFENCE-USE_FENCE2'', ''GEOFENCE-FENCE2_LAT'',
    ''GEOFENCE-FENCE2_LON'', ''GEOFENCE-FENCE2_RAD'', ''GEOFENCE-USE_FENCE3'',
    ''GEOFENCE-FENCE3_LAT'', ''GEOFENCE-FENCE3_LON'', ''GEOFENCE-FENCE3_RAD'',
    ''GEOFENCE-USE_FENCE4'', ''GEOFENCE-FENCE4_LAT'', ''GEOFENCE-FENCE4_LON'',
    ''GEOFENCE-FENCE4_RAD'', ''HW-ANT_CFG_VOLTCTRL'', ''HW-ANT_CFG_SHORTDET'',
    ''HW-ANT_CFG_SHORTDET_POL'', ''HW-ANT_CFG_OPENDET'', ''HW-ANT_CFG_OPENDET_POL'',
    ''HW-ANT_CFG_PWRDOWN'', ''HW-ANT_CFG_PWRDOWN_POL'', ''HW-ANT_CFG_RECOVER'',
    ''HW-ANT_SUP_SWITCH_PIN'', ''HW-ANT_SUP_SHORT_PIN'', ''HW-ANT_SUP_OPEN_PIN'',
    ''I2C-ADDRESS'', ''I2C-EXTENDEDTIMEOUT'', ''I2C-ENABLED'', ''I2CINPROT-UBX'',
    ''I2CINPROT-NMEA'', ''I2CINPROT-RTCM2X'', ''I2CINPROT-RTCM3X'', ''I2COUTPROT-UBX'',
    ''I2COUTPROT-NMEA'', ''I2COUTPROT-RTCM3X'', ''INFMSG-UBX_I2C'', ''INFMSG-UBX_UART1'',
    ''INFMSG-UBX_UART2'', ''INFMSG-UBX_USB'', ''INFMSG-UBX_SPI'', ''INFMSG-NMEA_I2C'',
    ''INFMSG-NMEA_UART1'', ''INFMSG-NMEA_UART2'', ''INFMSG-NMEA_USB'', ''INFMSG-NMEA_SPI'',
    ''ITFM-BBTHRESHOLD'', ''ITFM-CWTHRESHOLD'', ''ITFM-ENABLE'', ''ITFM-ANTSETTING'',
    ''ITFM-ENABLE_AUX'', ''LOGFILTER-RECORD_ENA'', ''LOGFILTER-ONCE_PER_WAKE_UP_ENA'',
    ''LOGFILTER-APPLY_ALL_FILTERS'', ''LOGFILTER-MIN_INTERVAL'', ''LOGFILTER-TIME_THRS'',
    ''LOGFILTER-SPEED_THRS'', ''LOGFILTER-POSITION_THRS'', ''MOT-GNSSSPEED_THRS'',
    ''MOT-GNSSDIST_THRS'', ''MSGOUT-NMEA_ID_DTM_I2C'', ''MSGOUT-NMEA_ID_DTM_SPI'',
    ''MSGOUT-NMEA_ID_DTM_UART1'', ''MSGOUT-NMEA_ID_DTM_UART2'', ''MSGOUT-NMEA_ID_DTM_USB'',
    ''MSGOUT-NMEA_ID_GBS_I2C'', ''MSGOUT-NMEA_ID_GBS_SPI'', ''MSGOUT-NMEA_ID_GBS_UART1'',
    ''MSGOUT-NMEA_ID_GBS_UART2'', ''MSGOUT-NMEA_ID_GBS_USB'', ''MSGOUT-NMEA_ID_GGA_I2C'',
    ''MSGOUT-NMEA_ID_GGA_SPI'', ''MSGOUT-NMEA_ID_GGA_UART1'', ''MSGOUT-NMEA_ID_GGA_UART2'',
    ''MSGOUT-NMEA_ID_GGA_USB'', ''MSGOUT-NMEA_ID_GLL_I2C'', ''MSGOUT-NMEA_ID_GLL_SPI'',
    ''MSGOUT-NMEA_ID_GLL_UART1'', ''MSGOUT-NMEA_ID_GLL_UART2'', ''MSGOUT-NMEA_ID_GLL_USB'',
    ''MSGOUT-NMEA_ID_GNS_I2C'', ''MSGOUT-NMEA_ID_GNS_SPI'', ''MSGOUT-NMEA_ID_GNS_UART1'',
    ''MSGOUT-NMEA_ID_GNS_UART2'', ''MSGOUT-NMEA_ID_GNS_USB'', ''MSGOUT-NMEA_ID_GRS_I2C'',
    ''MSGOUT-NMEA_ID_GRS_SPI'', ''MSGOUT-NMEA_ID_GRS_UART1'', ''MSGOUT-NMEA_ID_GRS_UART2'',
    ''MSGOUT-NMEA_ID_GRS_USB'', ''MSGOUT-NMEA_ID_GSA_I2C'', ''MSGOUT-NMEA_ID_GSA_SPI'',
    ''MSGOUT-NMEA_ID_GSA_UART1'', ''MSGOUT-NMEA_ID_GSA_UART2'', ''MSGOUT-NMEA_ID_GSA_USB'',
    ''MSGOUT-NMEA_ID_GST_I2C'', ''MSGOUT-NMEA_ID_GST_SPI'', ''MSGOUT-NMEA_ID_GST_UART1'',
    ''MSGOUT-NMEA_ID_GST_UART2'', ''MSGOUT-NMEA_ID_GST_USB'', ''MSGOUT-NMEA_ID_GSV_I2C'',
    ''MSGOUT-NMEA_ID_GSV_SPI'', ''MSGOUT-NMEA_ID_GSV_UART1'', ''MSGOUT-NMEA_ID_GSV_UART2'',
    ''MSGOUT-NMEA_ID_GSV_USB'', ''MSGOUT-NMEA_ID_RMC_I2C'', ''MSGOUT-NMEA_ID_RMC_SPI'',
    ''MSGOUT-NMEA_ID_RMC_UART1'', ''MSGOUT-NMEA_ID_RMC_UART2'', ''MSGOUT-NMEA_ID_RMC_USB'',
    ''MSGOUT-NMEA_ID_VLW_I2C'', ''MSGOUT-NMEA_ID_VLW_SPI'', ''MSGOUT-NMEA_ID_VLW_UART1'',
    ''MSGOUT-NMEA_ID_VLW_UART2'', ''MSGOUT-NMEA_ID_VLW_USB'', ''MSGOUT-NMEA_ID_VTG_I2C'',
    ''MSGOUT-NMEA_ID_VTG_SPI'', ''MSGOUT-NMEA_ID_VTG_UART1'', ''MSGOUT-NMEA_ID_VTG_UART2'',
    ''MSGOUT-NMEA_ID_VTG_USB'', ''MSGOUT-NMEA_ID_ZDA_I2C'', ''MSGOUT-NMEA_ID_ZDA_SPI'',
    ''MSGOUT-NMEA_ID_ZDA_UART1'', ''MSGOUT-NMEA_ID_ZDA_UART2'', ''MSGOUT-NMEA_ID_ZDA_USB'',
    ''MSGOUT-PUBX_ID_POLYP_I2C'', ''MSGOUT-PUBX_ID_POLYP_SPI'', ''MSGOUT-PUBX_ID_POLYP_UART1'',
    ''MSGOUT-PUBX_ID_POLYP_UART2'', ''MSGOUT-PUBX_ID_POLYP_USB'', ''MSGOUT-PUBX_ID_POLYS_I2C'',
    ''MSGOUT-PUBX_ID_POLYS_SPI'', ''MSGOUT-PUBX_ID_POLYS_UART1'',
    ''MSGOUT-PUBX_ID_POLYS_UART2'', ''MSGOUT-PUBX_ID_POLYS_USB'', ''MSGOUT-PUBX_ID_POLYT_I2C'',
    ''MSGOUT-PUBX_ID_POLYT_SPI'', ''MSGOUT-PUBX_ID_POLYT_UART1'',
    ''MSGOUT-PUBX_ID_POLYT_UART2'', ''MSGOUT-PUBX_ID_POLYT_USB'',
    ''MSGOUT-RTCM_3X_TYPE1005_I2C'', ''MSGOUT-RTCM_3X_TYPE1005_SPI'',
    ''MSGOUT-RTCM_3X_TYPE1005_UART1'', ''MSGOUT-RTCM_3X_TYPE1005_UART2'',
    ''MSGOUT-RTCM_3X_TYPE1005_USB'', ''MSGOUT-RTCM_3X_TYPE1074_I2C'',
    ''MSGOUT-RTCM_3X_TYPE1074_SPI'', ''MSGOUT-RTCM_3X_TYPE1074_UART1'',
    ''MSGOUT-RTCM_3X_TYPE1074_UART2'', ''MSGOUT-RTCM_3X_TYPE1074_USB'',
    ''MSGOUT-RTCM_3X_TYPE1077_I2C'', ''MSGOUT-RTCM_3X_TYPE1077_SPI'',
    ''MSGOUT-RTCM_3X_TYPE1077_UART1'', ''MSGOUT-RTCM_3X_TYPE1077_UART2'',
    ''MSGOUT-RTCM_3X_TYPE1077_USB'', ''MSGOUT-RTCM_3X_TYPE1087_I2C'',
    ''MSGOUT-RTCM_3X_TYPE1084_SPI'', ''MSGOUT-RTCM_3X_TYPE1084_UART1'',
    ''MSGOUT-RTCM_3X_TYPE1084_UART2'', ''MSGOUT-RTCM_3X_TYPE1084_USB'',
    ''MSGOUT-RTCM_3X_TYPE1087_SPI'', ''MSGOUT-RTCM_3X_TYPE1087_UART1'',
    ''MSGOUT-RTCM_3X_TYPE1087_UART2'', ''MSGOUT-RTCM_3X_TYPE1087_USB'',
    ''MSGOUT-RTCM_3X_TYPE1094_I2C'', ''MSGOUT-RTCM_3X_TYPE1094_SPI'',
    ''MSGOUT-RTCM_3X_TYPE1094_UART1'', ''MSGOUT-RTCM_3X_TYPE1094_UART2'',
    ''MSGOUT-RTCM_3X_TYPE1094_USB'', ''MSGOUT-RTCM_3X_TYPE1097_I2C'',
    ''MSGOUT-RTCM_3X_TYPE1097_SPI'', ''MSGOUT-RTCM_3X_TYPE1097_UART1'',
    ''MSGOUT-RTCM_3X_TYPE1097_UART2'', ''MSGOUT-RTCM_3X_TYPE1097_USB'',
    ''MSGOUT-RTCM_3X_TYPE1124_I2C'', ''MSGOUT-RTCM_3X_TYPE1124_SPI'',
    ''MSGOUT-RTCM_3X_TYPE1124_UART1'', ''MSGOUT-RTCM_3X_TYPE1124_UART2'',
    ''MSGOUT-RTCM_3X_TYPE1124_USB'', ''MSGOUT-RTCM_3X_TYPE1127_I2C'',
    ''MSGOUT-RTCM_3X_TYPE1127_SPI'', ''MSGOUT-RTCM_3X_TYPE1127_UART1'',
    ''MSGOUT-RTCM_3X_TYPE1127_UART2'', ''MSGOUT-RTCM_3X_TYPE1127_USB'',
    ''MSGOUT-RTCM_3X_TYPE1230_I2C'', ''MSGOUT-RTCM_3X_TYPE1230_SPI'',
    ''MSGOUT-RTCM_3X_TYPE1230_UART1'', ''MSGOUT-RTCM_3X_TYPE1230_UART2'',
    ''MSGOUT-RTCM_3X_TYPE1230_USB'', ''MSGOUT-RTCM_3X_TYPE4072_0_I2C'',
    ''MSGOUT-RTCM_3X_TYPE4072_0_SPI'', ''MSGOUT-RTCM_3X_TYPE4072_0_UART1'',
    ''MSGOUT-RTCM_3X_TYPE4072_0_UART2'', ''MSGOUT-RTCM_3X_TYPE4072_0_USB'',
    ''MSGOUT-RTCM_3X_TYPE4072_1_I2C'', ''MSGOUT-RTCM_3X_TYPE4072_1_SPI'',
    ''MSGOUT-RTCM_3X_TYPE4072_1_UART1'', ''MSGOUT-RTCM_3X_TYPE4072_1_UART2'',
    ''MSGOUT-RTCM_3X_TYPE4072_1_USB'', ''MSGOUT-UBX_LOG_INFO_I2C'',
    ''MSGOUT-UBX_LOG_INFO_SPI'', ''MSGOUT-UBX_LOG_INFO_UART1'', ''MSGOUT-UBX_LOG_INFO_UART2'',
    ''MSGOUT-UBX_LOG_INFO_USB'', ''MSGOUT-UBX_MON_COMMS_I2C'', ''MSGOUT-UBX_MON_COMMS_SPI'',
    ''MSGOUT-UBX_MON_COMMS_UART1'', ''MSGOUT-UBX_MON_COMMS_UART2'',
    ''MSGOUT-UBX_MON_COMMS_USB'', ''MSGOUT-UBX_MON_HW2_I2C'', ''MSGOUT-UBX_MON_HW2_SPI'',
    ''MSGOUT-UBX_MON_HW2_UART1'', ''MSGOUT-UBX_MON_HW2_UART2'', ''MSGOUT-UBX_MON_HW2_USB'',
    ''MSGOUT-UBX_MON_HW3_I2C'', ''MSGOUT-UBX_MON_HW3_SPI'', ''MSGOUT-UBX_MON_HW3_UART1'',
    ''MSGOUT-UBX_MON_HW3_UART2'', ''MSGOUT-UBX_MON_HW3_USB'', ''MSGOUT-UBX_MON_HW_I2C'',
    ''MSGOUT-UBX_MON_HW_SPI'', ''MSGOUT-UBX_MON_HW_UART1'', ''MSGOUT-UBX_MON_HW_UART2'',
    ''MSGOUT-UBX_MON_HW_USB'', ''MSGOUT-UBX_MON_IO_I2C'', ''MSGOUT-UBX_MON_IO_SPI'',
    ''MSGOUT-UBX_MON_IO_UART1'', ''MSGOUT-UBX_MON_IO_UART2'', ''MSGOUT-UBX_MON_IO_USB'',
    ''MSGOUT-UBX_MON_MSGPP_I2C'', ''MSGOUT-UBX_MON_MSGPP_SPI'', ''MSGOUT-UBX_MON_MSGPP_UART1'',
    ''MSGOUT-UBX_MON_MSGPP_UART2'', ''MSGOUT-UBX_MON_MSGPP_USB'', ''MSGOUT-UBX_MON_RF_I2C'',
    ''MSGOUT-UBX_MON_RF_SPI'', ''MSGOUT-UBX_MON_RF_UART1'', ''MSGOUT-UBX_MON_RF_UART2'',
    ''MSGOUT-UBX_MON_RF_USB'', ''MSGOUT-UBX_MON_RXBUF_I2C'', ''MSGOUT-UBX_MON_RXBUF_SPI'',
    ''MSGOUT-UBX_MON_RXBUF_UART1'', ''MSGOUT-UBX_MON_RXBUF_UART2'',
    ''MSGOUT-UBX_MON_RXBUF_USB'', ''MSGOUT-UBX_MON_RXR_I2C'', ''MSGOUT-UBX_MON_RXR_SPI'',
    ''MSGOUT-UBX_MON_RXR_UART1'', ''MSGOUT-UBX_MON_RXR_UART2'', ''MSGOUT-UBX_MON_RXR_USB'',
    ''MSGOUT-UBX_MON_TXBUF_I2C'', ''MSGOUT-UBX_MON_TXBUF_SPI'', ''MSGOUT-UBX_MON_TXBUF_UART1'',
    ''MSGOUT-UBX_MON_TXBUF_UART2'', ''MSGOUT-UBX_MON_TXBUF_USB'', ''MSGOUT-UBX_MON_TXBUF_I2C'',
    ''MSGOUT-UBX_MON_TXBUF_SPI'', ''MSGOUT-UBX_MON_TXBUF_UART1'',
    ''MSGOUT-UBX_MON_TXBUF_UART2'', ''MSGOUT-UBX_MON_TXBUF_USB'', ''MSGOUT-UBX_NAV_CLOCK_I2C'',
    ''MSGOUT-UBX_NAV_CLOCK_SPI'', ''MSGOUT-UBX_NAV_CLOCK_UART1'',
    ''MSGOUT-UBX_NAV_CLOCK_UART2'', ''MSGOUT-UBX_NAV_CLOCK_USB'', ''MSGOUT-UBX_NAV_DOP_I2C'',
    ''MSGOUT-UBX_NAV_DOP_SPI'', ''MSGOUT-UBX_NAV_DOP_UART1'', ''MSGOUT-UBX_NAV_DOP_UART2'',
    ''MSGOUT-UBX_NAV_DOP_USB'', ''MSGOUT-UBX_NAV_EOE_I2C'', ''MSGOUT-UBX_NAV_EOE_SPI'',
    ''MSGOUT-UBX_NAV_EOE_UART1'', ''MSGOUT-UBX_NAV_EOE_UART2'', ''MSGOUT-UBX_NAV_EOE_USB'',
    ''MSGOUT-UBX_NAV_GEOFENCE_I2C'', ''MSGOUT-UBX_NAV_GEOFENCE_SPI'',
    ''MSGOUT-UBX_NAV_GEOFENCE_UART1'', ''MSGOUT-UBX_NAV_GEOFENCE_UART2'',
    ''MSGOUT-UBX_NAV_GEOFENCE_USB'', ''MSGOUT-UBX_NAV_HPPOSECEF_I2C'',
    ''MSGOUT-UBX_NAV_HPPOSECEF_SPI'', ''MSGOUT-UBX_NAV_HPPOSECEF_UART1'',
    ''MSGOUT-UBX_NAV_HPPOSECEF_UART2'', ''MSGOUT-UBX_NAV_HPPOSECEF_USB'',
    ''MSGOUT-UBX_NAV_HPPOSLLH_I2C'', ''MSGOUT-UBX_NAV_HPPOSLLH_SPI'',
    ''MSGOUT-UBX_NAV_HPPOSLLH_UART1'', ''MSGOUT-UBX_NAV_HPPOSLLH_UART2'',
    ''MSGOUT-UBX_NAV_HPPOSLLH_USB'', ''MSGOUT-UBX_NAV_ODO_I2C'', ''MSGOUT-UBX_NAV_ODO_SPI'',
    ''MSGOUT-UBX_NAV_ODO_UART1'', ''MSGOUT-UBX_NAV_ODO_UART2'', ''MSGOUT-UBX_NAV_ODO_USB'',
    ''MSGOUT-UBX_NAV_ORB_I2C'', ''MSGOUT-UBX_NAV_ORB_SPI'', ''MSGOUT-UBX_NAV_ORB_UART1'',
    ''MSGOUT-UBX_NAV_ORB_UART2'', ''MSGOUT-UBX_NAV_ORB_USB'', ''MSGOUT-UBX_NAV_POSECEF_I2C'',
    ''MSGOUT-UBX_NAV_POSECEF_SPI'', ''MSGOUT-UBX_NAV_POSECEF_UART1'',
    ''MSGOUT-UBX_NAV_POSECEF_UART2'', ''MSGOUT-UBX_NAV_POSECEF_USB'',
    ''MSGOUT-UBX_NAV_POSLLH_I2C'', ''MSGOUT-UBX_NAV_POSLLH_SPI'',
    ''MSGOUT-UBX_NAV_POSLLH_UART1'', ''MSGOUT-UBX_NAV_POSLLH_UART2'',
    ''MSGOUT-UBX_NAV_POSLLH_USB'', ''MSGOUT-UBX_NAV_PVT_I2C'', ''MSGOUT-UBX_NAV_PVT_SPI'',
    ''MSGOUT-UBX_NAV_PVT_UART1'', ''MSGOUT-UBX_NAV_PVT_UART2'', ''MSGOUT-UBX_NAV_PVT_USB'',
    ''MSGOUT-UBX_NAV_RELPOSNED_I2C'', ''MSGOUT-UBX_NAV_RELPOSNED_SPI'',
    ''MSGOUT-UBX_NAV_RELPOSNED_UART1'', ''MSGOUT-UBX_NAV_RELPOSNED_UART2'',
    ''MSGOUT-UBX_NAV_RELPOSNED_USB'', ''MSGOUT-UBX_NAV_SAT_I2C'', ''MSGOUT-UBX_NAV_SAT_SPI'',
    ''MSGOUT-UBX_NAV_SAT_UART1'', ''MSGOUT-UBX_NAV_SAT_UART2'', ''MSGOUT-UBX_NAV_SAT_USB'',
    ''MSGOUT-UBX_NAV_SBAS_I2C'', ''MSGOUT-UBX_NAV_SBAS_SPI'', ''MSGOUT-UBX_NAV_SBAS_UART1'',
    ''MSGOUT-UBX_NAV_SBAS_UART2'', ''MSGOUT-UBX_NAV_SBAS_USB'', ''MSGOUT-UBX_NAV_SIG_I2C'',
    ''MSGOUT-UBX_NAV_SIG_SPI'', ''MSGOUT-UBX_NAV_SIG_UART1'', ''MSGOUT-UBX_NAV_SIG_UART2'',
    ''MSGOUT-UBX_NAV_SIG_USB'', ''MSGOUT-UBX_NAV_STATUS_I2C'', ''MSGOUT-UBX_NAV_STATUS_SPI'',
    ''MSGOUT-UBX_NAV_STATUS_UART1'', ''MSGOUT-UBX_NAV_STATUS_UART2'',
    ''MSGOUT-UBX_NAV_STATUS_USB'', ''MSGOUT-UBX_NAV_SVIN_I2C'', ''MSGOUT-UBX_NAV_SVIN_SPI'',
    ''MSGOUT-UBX_NAV_SVIN_UART1'', ''MSGOUT-UBX_NAV_SVIN_UART2'', ''MSGOUT-UBX_NAV_SVIN_USB'',
    ''MSGOUT-UBX_NAV_TIMEBDS_I2C'', ''MSGOUT-UBX_NAV_TIMEBDS_SPI'',
    ''MSGOUT-UBX_NAV_TIMEBDS_UART1'', ''MSGOUT-UBX_NAV_TIMEBDS_UART2'',
    ''MSGOUT-UBX_NAV_TIMEBDS_USB'', ''MSGOUT-UBX_NAV_TIMEGAL_I2C'',
    ''MSGOUT-UBX_NAV_TIMEGAL_SPI'', ''MSGOUT-UBX_NAV_TIMEGAL_UART1'',
    ''MSGOUT-UBX_NAV_TIMEGAL_UART2'', ''MSGOUT-UBX_NAV_TIMEGAL_USB'',
    ''MSGOUT-UBX_NAV_TIMEGLO_I2C'', ''MSGOUT-UBX_NAV_TIMEGLO_SPI'',
    ''MSGOUT-UBX_NAV_TIMEGLO_UART1'', ''MSGOUT-UBX_NAV_TIMEGLO_UART2'',
    ''MSGOUT-UBX_NAV_TIMEGLO_USB'', ''MSGOUT-UBX_NAV_TIMEGPS_I2C'',
    ''MSGOUT-UBX_NAV_TIMEGPS_SPI'', ''MSGOUT-UBX_NAV_TIMEGPS_UART1'',
    ''MSGOUT-UBX_NAV_TIMEGPS_UART2'', ''MSGOUT-UBX_NAV_TIMEGPS_USB'',
    ''MSGOUT-UBX_NAV_TIMELS_I2C'', ''MSGOUT-UBX_NAV_TIMELS_SPI'',
    ''MSGOUT-UBX_NAV_TIMELS_UART1'', ''MSGOUT-UBX_NAV_TIMELS_UART2'',
    ''MSGOUT-UBX_NAV_TIMELS_USB'', ''MSGOUT-UBX_NAV_TIMEUTC_I2C'',
    ''MSGOUT-UBX_NAV_TIMEUTC_SPI'', ''MSGOUT-UBX_NAV_TIMEUTC_UART1'',
    ''MSGOUT-UBX_NAV_TIMEUTC_UART2'', ''MSGOUT-UBX_NAV_TIMEUTC_USB'',
    ''MSGOUT-UBX_NAV_VELECEF_I2C'', ''MSGOUT-UBX_NAV_VELECEF_SPI'',
    ''MSGOUT-UBX_NAV_VELECEF_UART1'', ''MSGOUT-UBX_NAV_VELECEF_UART2'',
    ''MSGOUT-UBX_NAV_VELECEF_USB'', ''MSGOUT-UBX_NAV_VELNED_I2C'',
    ''MSGOUT-UBX_NAV_VELNED_SPI'', ''MSGOUT-UBX_NAV_VELNED_UART1'',
    ''MSGOUT-UBX_NAV_VELNED_UART2'', ''MSGOUT-UBX_NAV_VELNED_USB'',
    ''MSGOUT-UBX_RXM_MEASX_I2C'', ''MSGOUT-UBX_RXM_MEASX_SPI'', ''MSGOUT-UBX_RXM_MEASX_UART1'',
    ''MSGOUT-UBX_RXM_MEASX_UART2'', ''MSGOUT-UBX_RXM_MEASX_USB'', ''MSGOUT-UBX_RXM_RAWX_I2C'',
    ''MSGOUT-UBX_RXM_RAWX_SPI'', ''MSGOUT-UBX_RXM_RAWX_UART1'', ''MSGOUT-UBX_RXM_RAWX_UART2'',
    ''MSGOUT-UBX_RXM_RAWX_USB'', ''MSGOUT-UBX_RXM_RLM_I2C'', ''MSGOUT-UBX_RXM_RLM_SPI'',
    ''MSGOUT-UBX_RXM_RLM_UART1'', ''MSGOUT-UBX_RXM_RLM_UART2'', ''MSGOUT-UBX_RXM_RLM_USB'',
    ''MSGOUT-UBX_RXM_RTCM_I2C'', ''MSGOUT-UBX_RXM_RTCM_SPI'', ''MSGOUT-UBX_RXM_RTCM_UART1'',
    ''MSGOUT-UBX_RXM_RTCM_UART2'', ''MSGOUT-UBX_RXM_RTCM_USB'', ''MSGOUT-UBX_RXM_SFRBX_I2C'',
    ''MSGOUT-UBX_RXM_SFRBX_SPI'', ''MSGOUT-UBX_RXM_SFRBX_UART1'',
    ''MSGOUT-UBX_RXM_SFRBX_UART2'', ''MSGOUT-UBX_RXM_SFRBX_USB'', ''MSGOUT-UBX_TIM_SVIN_I2C'',
    ''MSGOUT-UBX_TIM_SVIN_SPI'', ''MSGOUT-UBX_TIM_SVIN_UART1'', ''MSGOUT-UBX_TIM_SVIN_UART2'',
    ''MSGOUT-UBX_TIM_SVIN_USB'', ''MSGOUT-UBX_TIM_TM2_I2C'', ''MSGOUT-UBX_TIM_TM2_SPI'',
    ''MSGOUT-UBX_TIM_TM2_UART1'', ''MSGOUT-UBX_TIM_TM2_UART2'', ''MSGOUT-UBX_TIM_TM2_USB'',
    ''MSGOUT-UBX_TIM_TP_I2C'', ''MSGOUT-UBX_TIM_TP_SPI'', ''MSGOUT-UBX_TIM_TP_UART1'',
    ''MSGOUT-UBX_TIM_TP_UART2'', ''MSGOUT-UBX_TIM_TP_USB'', ''MSGOUT-UBX_TIM_VRFY_I2C'',
    ''MSGOUT-UBX_TIM_VRFY_SPI'', ''MSGOUT-UBX_TIM_VRFY_UART1'', ''MSGOUT-UBX_TIM_VRFY_UART2'',
    ''MSGOUT-UBX_TIM_VRFY_USB'', ''NAVHPG-DGNSSMODE'', ''NAVSPG-FIXMODE'', ''NAVSPG-INIFIX3D'',
    ''NAVSPG-WKNROLLOVER'', ''NAVSPG-USE_PPP'', ''NAVSPG-UTCSTANDARD'', ''NAVSPG-DYNMODEL'',
    ''NAVSPG-ACKAIDING'', ''NAVSPG-USE_USRDAT'', ''NAVSPG-USRDAT_MAJA'',
    ''NAVSPG-USRDAT_FLAT'', ''NAVSPG-USRDAT_DX'', ''NAVSPG-USRDAT_DY'', ''NAVSPG-USRDAT_DZ'',
    ''NAVSPG-USRDAT_ROTX'', ''NAVSPG-USRDAT_ROTY'', ''NAVSPG-USRDAT_ROTZ'',
    ''NAVSPG-USRDAT_SCALE'', ''NAVSPG-INFIL_MINSVS'', ''NAVSPG-INFIL_MAXSVS'',
    ''NAVSPG-INFIL_MINCNO'', ''NAVSPG-INFIL_MINELEV'', ''NAVSPG-INFIL_NCNOTHRS'',
    ''NAVSPG-INFIL_CNOTHRS'', ''NAVSPG-OUTFIL_PDOP'', ''NAVSPG-OUTFIL_TDOP'',
    ''NAVSPG-OUTFIL_PACC'', ''NAVSPG-OUTFIL_TACC'', ''NAVSPG-OUTFIL_FACC'',
    ''NAVSPG-CONSTR_ALT'', ''NAVSPG-CONSTR_ALTVAR'', ''NAVSPG-CONSTR_DGNSSTO'',
    ''NMEA-PROTVER'', ''NMEA-MAXSVS'', ''NMEA-COMPAT'', ''NMEA-CONSIDER'', ''NMEA-LIMIT82'',
    ''NMEA-HIGHPREC'', ''NMEA-SVNUMBERING'', ''NMEA-FILT_GPS'', ''NMEA-FILT_SBAS'',
    ''NMEA-FILT_QZSS'', ''NMEA-FILT_GLO'', ''NMEA-FILT_BDS'', ''NMEA-OUT_INVFIX'',
    ''NMEA-OUT_MSKFIX'', ''NMEA-OUT_INVTIME'', ''NMEA-OUT_INVDATE'', ''NMEA-OUT_ONLYGPS'',
    ''NMEA-OUT_FROZENCOG'', ''NMEA-MAINTALKERID'', ''NMEA-GSVTALKERID'', ''NMEA-BDSTALKERID'',
    ''ODO-USE_ODO'', ''ODO-USE_COG'', ''ODO-OUTLPVEL'', ''ODO-OUTLPCOG'', ''ODO-PROFILE'',
    ''ODO-COGMAXSPEED'', ''ODO-COGMAXPOSACC'', ''ODO-COGLPGAIN'', ''ODO-VELLPGAIN'',
    ''RATE-MEAS'', ''RATE-NAV'', ''RATE-TIMEREF'', ''RINV-DUMP'', ''RINV-BINARY'',
    ''RINV-DATA_SIZE'', ''RINV-CHUNK0'', ''RINV-CHUNK1'', ''RINV-CHUNK2'', ''RINV-CHUNK3'',
    ''SBAS-USE_TESTMODE'', ''SBAS-USE_RANGING'', ''SBAS-USE_DIFFCORR'', ''SBAS-USE_INTEGRITY'',
    ''SBAS-PRNSCANMASK'', ''SIGNAL-GPS_ENA'', ''SIGNAL-GPS_L1CA_ENA'', ''SIGNAL-GPS_L2C_ENA'',
    ''SIGNAL-SBAS_ENA'', ''SIGNAL-SBAS_L1CA_ENA'', ''SIGNAL-GAL_ENA'', ''SIGNAL-GAL_E1_ENA'',
    ''SIGNAL-GAL_E5B_ENA'', ''SIGNAL-BDS_ENA'', ''SIGNAL-BDS_B1_ENA'', ''SIGNAL-BDS_B2_ENA'',
    ''SIGNAL-QZSS_ENA'', ''SIGNAL-QZSS_L1CA_ENA'', ''SIGNAL-QZSS_L1S_ENA'',
    ''SIGNAL-QZSS_L2C_ENA'', ''SIGNAL-GLO_ENA'', ''SIGNAL-GLO_L1_ENA'', ''SIGNAL-GLO_L2_ENA'',
    ''SPI-MAXFF'', ''SPI-CPOLARITY'', ''SPI-CPHASE'', ''SPI-EXTENDEDTIMEOUT'', ''SPI-ENABLED'',
    ''SPIINPROT-UBX'', ''SPIINPROT-NMEA'', ''SPIINPROT-RTCM2X'', ''SPIINPROT-RTCM3X'',
    ''SPIOUTPROT-UBX'', ''SPIOUTPROT-NMEA'', ''SPIOUTPROT-RTCM3X'', ''TMODE-MODE'',
    ''TMODE-POS_TYPE'', ''TMODE-ECEF_X'', ''TMODE-ECEF_Y'', ''TMODE-ECEF_Z'',
    ''TMODE-ECEF_X_HP'', ''TMODE-ECEF_Y_HP'', ''TMODE-ECEF_Z_HP'', ''TMODE-LAT'',
    ''TMODE-LON'', ''TMODE-HEIGHT'', ''TMODE-LAT_HP'', ''TMODE-LON_HP'', ''TMODE-HEIGHT_HP'',
    ''TMODE-FIXED_POS_ACC'', ''TMODE-SVIN_MIN_DUR'', ''TMODE-SVIN_ACC_LIMIT'',
    ''TP-PULSE_DEF'', ''TP-PULSE_LENGTH_DEF'', ''TP-ANT_CABLEDELAY'', ''TP-PERIOD_TP1'',
    ''TP-PERIOD_LOCK_TP1'', ''TP-FREQ_TP1'', ''TP-FREQ_LOCK_TP1'', ''TP-LEN_TP1'',
    ''TP-LEN_LOCK_TP1'', ''TP-DUTY_TP1'', ''TP-DUTY_LOCK_TP1'', ''TP-USER_DELAY_TP1'',
    ''TP-TP1_ENA'', ''TP-SYNC_GNSS_TP1'', ''TP-USE_LOCKED_TP1'', ''TP-ALIGN_TO_TOW_TP1'',
    ''TP-POL_TP1'', ''TP-TIMEGRID_TP1'', ''TP-PERIOD_TP2'', ''TP-PERIOD_LOCK_TP2'',
    ''TP-FREQ_TP2'', ''TP-FREQ_LOCK_TP2'', ''TP-LEN_TP2'', ''TP-LEN_LOCK_TP2'',
    ''TP-DUTY_TP2'', ''TP-DUTY_LOCK_TP2'', ''TP-USER_DELAY_TP2'', ''TP-TP2_ENA'',
    ''TP-SYNC_GNSS_TP2'', ''TP-USE_LOCKED_TP2'', ''TP-ALIGN_TO_TOW_TP2'', ''TP-POL_TP2'',
    ''TP-TIMEGRID_TP2'', ''UART1-BAUDRATE'', ''UART1-STOPBITS'', ''UART1-DATABITS'',
    ''UART1-PARITY'', ''UART1-ENABLED'', ''UART1INPROT-UBX'', ''UART1INPROT-NMEA'',
    ''UART1INPROT-RTCM2X'', ''UART1INPROT-RTCM3X'', ''UART1OUTPROT-UBX'',
    ''UART1OUTPROT-NMEA'', ''UART1OUTPROT-RTCM3X'', ''UART2-BAUDRATE'', ''UART2-STOPBITS'',
    ''UART2-DATABITS'', ''UART2-PARITY'', ''UART2-ENABLED'', ''UART2-REMAP'',
    ''UART2INPROT-UBX'', ''UART2INPROT-NMEA'', ''UART2INPROT-RTCM2X'', ''UART2INPROT-RTCM3X'',
    ''UART2OUTPROT-UBX'', ''UART2OUTPROT-NMEA'', ''UART2OUTPROT-RTCM3X'', ''USB-ENABLED'',
    ''USB-SELFPOW'', ''USB-VENDOR_ID'', ''USB-PRODUCT_ID'', ''USB-POWER'', ''USB-VENDOR_STR0'',
    ''USB-VENDOR_STR1'', ''USB-VENDOR_STR2'', ''USB-VENDOR_STR3'', ''USB-PRODUCT_STR0'',
    ''USB-PRODUCT_STR1'', ''USB-PRODUCT_STR2'', ''USB-PRODUCT_STR3'', ''USB-SERIAL_NO_STR0'',
    ''USB-SERIAL_NO_STR1'', ''USB-SERIAL_NO_STR2'', ''USB-SERIAL_NO_STR3'', ''USBINPROT-UBX'',
    ''USBINPROT-NMEA'', ''USBINPROT-RTCM2X'', ''USBINPROT-RTCM3X'', ''USBOUTPROT-UBX'',
    ''USBOUTPROT-NMEA'', ''USBOUTPROT-RTCM3X'', '''']"

definition vid :: "32 word list" where
  "vid = [
    0x20240011, 0x10240012, 0x20240013, 0x20240014, 0x10240020, 0x40240021, 0x40240022,
    0x40240023, 0x10240030, 0x40240031, 0x40240032, 0x40240033, 0x10240040, 0x40240041,
    0x40240042, 0x40240043, 0x10240050, 0x40240051, 0x40240052, 0x40240053, 0x10a3002e,
    0x10a3002f, 0x10a30030, 0x10a30031, 0x10a30032, 0x10a30033, 0x10a30034, 0x10a30035,
    0x20a30036, 0x20a30037, 0x20a30038, 0x20510001, 0x10510002, 0x10510003, 0x10710001,
    0x10710002, 0x10710003, 0x10710004, 0x10720001, 0x10720002, 0x10720004, 0x20920001,
    0x20920002, 0x20920003, 0x20920004, 0x20920005, 0x20920006, 0x20920007, 0x20920008,
    0x20920009, 0x2092000a, 0x20410001, 0x20410002, 0x1041000d, 0x20410010, 0x10410013,
    0x10de0002, 0x10de0003, 0x10de0004, 0x30de0005, 0x30de0006, 0x30de0007, 0x40de0008,
    0x20250038, 0x3025003b, 0x209100a6, 0x209100aa, 0x209100a7, 0x209100a8, 0x209100a9,
    0x209100dd, 0x209100e1, 0x209100de, 0x209100df, 0x209100e0, 0x209100ba, 0x209100be,
    0x209100bb, 0x209100bc, 0x209100bd, 0x209100c9, 0x209100cd, 0x209100ca, 0x209100cb,
    0x209100cc, 0x209100b5, 0x209100b9, 0x209100b6, 0x209100b7, 0x209100b8, 0x209100ce,
    0x209100d2, 0x209100cf, 0x209100d0, 0x209100d1, 0x209100bf, 0x209100c3, 0x209100c0,
    0x209100c1, 0x209100c2, 0x209100d3, 0x209100d7, 0x209100d4, 0x209100d5, 0x209100d6,
    0x209100c4, 0x209100c8, 0x209100c5, 0x209100c6, 0x209100c7, 0x209100ab, 0x209100af,
    0x209100ac, 0x209100ad, 0x209100ae, 0x209100e7, 0x209100eb, 0x209100e8, 0x209100e9,
    0x209100ea, 0x209100b0, 0x209100b4, 0x209100b1, 0x209100b2, 0x209100b3, 0x209100d8,
    0x209100dc, 0x209100d9, 0x209100da, 0x209100db, 0x209100ec, 0x209100f0, 0x209100ed,
    0x209100ee, 0x209100ef, 0x209100f1, 0x209100f5, 0x209100f2, 0x209100f3, 0x209100f4,
    0x209100f6, 0x209100fa, 0x209100f7, 0x209100f8, 0x209100f9, 0x209102bd, 0x209102c1,
    0x209102be, 0x209102bf, 0x209102c0, 0x2091035e, 0x20910362, 0x2091035f, 0x20910360,
    0x20910361, 0x209102cc, 0x209102d0, 0x209102cd, 0x209102ce, 0x209102cf, 0x209102d1,
    0x20910367, 0x20910364, 0x20910365, 0x20910366, 0x209102d5, 0x209102d2, 0x209102d3,
    0x209102d4, 0x20910368, 0x2091036c, 0x20910369, 0x2091036a, 0x2091036b, 0x20910318,
    0x2091031c, 0x20910319, 0x2091031a, 0x2091031b, 0x2091036d, 0x20910371, 0x2091036e,
    0x2091036f, 0x20910370, 0x209102d6, 0x209102da, 0x209102d7, 0x209102d8, 0x209102d9,
    0x20910303, 0x20910307, 0x20910304, 0x20910305, 0x20910306, 0x209102fe, 0x20910302,
    0x209102ff, 0x20910300, 0x20910301, 0x20910381, 0x20910385, 0x20910382, 0x20910383,
    0x20910384, 0x20910259, 0x2091025d, 0x2091025a, 0x2091025b, 0x2091025c, 0x2091034f,
    0x20910353, 0x20910350, 0x20910351, 0x20910352, 0x209101b9, 0x209101bd, 0x209101ba,
    0x209101bb, 0x209101bc, 0x20910354, 0x20910358, 0x20910355, 0x20910356, 0x20910357,
    0x209101b4, 0x209101b8, 0x209101b5, 0x209101b6, 0x209101b7, 0x209101a5, 0x209101a9,
    0x209101a6, 0x209101a7, 0x209101a8, 0x20910196, 0x2091019a, 0x20910197, 0x20910198,
    0x20910199, 0x20910359, 0x2091035d, 0x2091035a, 0x2091035b, 0x2091035c, 0x209101a0,
    0x209101a4, 0x209101a1, 0x209101a2, 0x209101a3, 0x20910187, 0x2091018b, 0x20910188,
    0x20910189, 0x2091018a, 0x2091019b, 0x2091019f, 0x2091019c, 0x2091019d, 0x2091019e,
    0x2091019b, 0x2091019f, 0x2091019c, 0x2091019d, 0x2091019e, 0x20910065, 0x20910069,
    0x20910066, 0x20910067, 0x20910068, 0x20910038, 0x2091003c, 0x20910039, 0x2091003a,
    0x2091003b, 0x2091015f, 0x20910163, 0x20910160, 0x20910161, 0x20910162, 0x209100a1,
    0x209100a5, 0x209100a2, 0x209100a3, 0x209100a4, 0x2091002e, 0x20910032, 0x2091002f,
    0x20910030, 0x20910031, 0x20910033, 0x20910037, 0x20910034, 0x20910035, 0x20910036,
    0x2091007e, 0x20910082, 0x2091007f, 0x20910080, 0x20910081, 0x20910010, 0x20910014,
    0x20910011, 0x20910012, 0x20910013, 0x20910024, 0x20910028, 0x20910025, 0x20910026,
    0x20910027, 0x20910029, 0x2091002d, 0x2091002a, 0x2091002b, 0x2091002c, 0x20910006,
    0x2091000a, 0x20910007, 0x20910008, 0x20910009, 0x2091008d, 0x20910091, 0x2091008e,
    0x2091008f, 0x20910090, 0x20910015, 0x20910019, 0x20910016, 0x20910017, 0x20910018,
    0x2091006a, 0x2091006e, 0x2091006b, 0x2091006c, 0x2091006d, 0x20910345, 0x20910349,
    0x20910346, 0x20910347, 0x20910348, 0x2091001a, 0x2091001e, 0x2091001b, 0x2091001c,
    0x2091001d, 0x20910088, 0x2091008c, 0x20910089, 0x2091008a, 0x2091008b, 0x20910051,
    0x20910055, 0x20910052, 0x20910053, 0x20910054, 0x20910056, 0x2091005a, 0x20910057,
    0x20910058, 0x20910059, 0x2091004c, 0x20910050, 0x2091004d, 0x2091004e, 0x2091004f,
    0x20910047, 0x2091004b, 0x20910048, 0x20910049, 0x2091004a, 0x20910060, 0x20910064,
    0x20910061, 0x20910062, 0x20910063, 0x2091005b, 0x2091005f, 0x2091005c, 0x2091005d,
    0x2091005e, 0x2091003d, 0x20910041, 0x2091003e, 0x2091003f, 0x20910040, 0x20910042,
    0x20910046, 0x20910043, 0x20910044, 0x20910045, 0x20910204, 0x20910208, 0x20910205,
    0x20910206, 0x20910207, 0x209102a4, 0x209102a8, 0x209102a5, 0x209102a6, 0x209102a7,
    0x2091025e, 0x20910262, 0x2091025f, 0x20910260, 0x20910261, 0x20910268, 0x2091026c,
    0x20910269, 0x2091026a, 0x2091026b, 0x20910231, 0x20910235, 0x20910232, 0x20910233,
    0x20910234, 0x20910097, 0x2091009b, 0x20910098, 0x20910099, 0x2091009a, 0x20910178,
    0x2091017c, 0x20910179, 0x2091017a, 0x2091017b, 0x2091017d, 0x20910181, 0x2091017e,
    0x2091017f, 0x20910180, 0x20910092, 0x20910096, 0x20910093, 0x20910094, 0x20910095,
    0x20140011, 0x20110011, 0x10110013, 0x30110017, 0x10110019, 0x2011001c, 0x20110021,
    0x10110025, 0x10110061, 0x50110062, 0x50110063, 0x40110064, 0x40110065, 0x40110066,
    0x40110067, 0x40110068, 0x40110069, 0x4011006a, 0x201100a1, 0x201100a2, 0x201100a3,
    0x201100a4, 0x201100aa, 0x201100ab, 0x301100b1, 0x301100b2, 0x301100b3, 0x301100b4,
    0x301100b5, 0x401100c1, 0x401100c2, 0x201100c4, 0x20930001, 0x20930002, 0x10930003,
    0x10930004, 0x10930005, 0x10930006, 0x20930007, 0x10930011, 0x10930012, 0x10930015,
    0x10930016, 0x10930017, 0x10930021, 0x10930022, 0x10930023, 0x10930024, 0x10930025,
    0x10930026, 0x20930031, 0x20930032, 0x30930033, 0x10220001, 0x10220002, 0x10220003,
    0x10220004, 0x20220005, 0x20220021, 0x20220022, 0x20220032, 0x20220031, 0x30210001,
    0x30210002, 0x20210003, 0x10c70001, 0x10c70002, 0x20c70003, 0x50c70004, 0x50c70005,
    0x50c70006, 0x50c70007, 0x10360002, 0x10360003, 0x10360004, 0x10360005, 0x50360006,
    0x1031001f, 0x10310001, 0x10310003, 0x10310020, 0x10310005, 0x10310021, 0x10310007,
    0x1031000a, 0x10310022, 0x1031000d, 0x1031000e, 0x10310024, 0x10310012, 0x10310014,
    0x10310015, 0x10310025, 0x10310018, 0x1031001a, 0x20640001, 0x10640002, 0x10640003,
    0x10640005, 0x10640006, 0x10790001, 0x10790002, 0x10790003, 0x10790004, 0x107a0001,
    0x107a0002, 0x107a0004, 0x20030001, 0x20030002, 0x40030003, 0x40030004, 0x40030005,
    0x20030006, 0x20030007, 0x20030008, 0x40030009, 0x4003000a, 0x4003000b, 0x2003000c,
    0x2003000d, 0x2003000e, 0x4003000f, 0x40030010, 0x40030011, 0x20050023, 0x20050030,
    0x30050001, 0x40050002, 0x40050003, 0x40050024, 0x40050025, 0x40050004, 0x40050005,
    0x5005002a, 0x5005002b, 0x40050006, 0x10050007, 0x10050008, 0x10050009, 0x1005000a,
    0x1005000b, 0x2005000c, 0x4005000d, 0x4005000e, 0x40050026, 0x40050027, 0x4005000f,
    0x40050010, 0x5005002c, 0x5005002d, 0x40050011, 0x10050012, 0x10050013, 0x10050014,
    0x10050015, 0x10050016, 0x20050017, 0x40520001, 0x20520002, 0x20520003, 0x20520004,
    0x10520005, 0x10730001, 0x10730002, 0x10730003, 0x10730004, 0x10740001, 0x10740002,
    0x10740004, 0x40530001, 0x20530002, 0x20530003, 0x20530004, 0x10530005, 0x10530006,
    0x10750001, 0x10750002, 0x10750003, 0x10750004, 0x10760001, 0x10760002, 0x10760004,
    0x10650001, 0x10650002, 0x3065000a, 0x3065000b, 0x3065000c, 0x5065000d, 0x5065000e,
    0x5065000f, 0x50650010, 0x50650011, 0x50650012, 0x50650013, 0x50650014, 0x50650015,
    0x50650016, 0x50650017, 0x50650018, 0x10770001, 0x10770002, 0x10770003, 0x10770004,
    0x10780001, 0x10780002, 0x10780004]"

definition vprm :: "ftype list" where
  "vprm = [
    FU1, FU1, FU1, FU1, FU1, FI4, FI4, FU4, FU1, FI4, FI4, FU4, FU1, FI4, FI4, FU4, FU1, FI4,
    FI4, FU4, FU1, FU1, FU1, FU1, FU1, FU1, FU1, FU1, FU1, FU1, FU1, FU1, FU1, FU1, FU1, FU1,
    FU1, FU1, FU1, FU1, FU1, FU1, FU1, FU1, FU1, FU1, FU1, FU1, FU1, FU1, FU1, FU1, FU1, FU1,
    FU1, FU1, FU1, FU1, FU1, FU2, FU2, FU2, FU4, FU1, FU2, FU1, FU1, FU1, FU1, FU1, FU1, FU1,
    FU1, FU1, FU1, FU1, FU1, FU1, FU1, FU1, FU1, FU1, FU1, FU1, FU1, FU1, FU1, FU1, FU1, FU1,
    FU1, FU1, FU1, FU1, FU1, FU1, FU1, FU1, FU1, FU1, FU1, FU1, FU1, FU1, FU1, FU1, FU1, FU1,
    FU1, FU1, FU1, FU1, FU1, FU1, FU1, FU1, FU1, FU1, FU1, FU1, FU1, FU1, FU1, FU1, FU1, FU1,
    FU1, FU1, FU1, FU1, FU1, FU1, FU1, FU1, FU1, FU1, FU1, FU1, FU1, FU1, FU1, FU1, FU1, FU1,
    FU1, FU1, FU1, FU1, FU1, FU1, FU1, FU1, FU1, FU1, FU1, FU1, FU1, FU1, FU1, FU1, FU1, FU1,
    FU1, FU1, FU1, FU1, FU1, FU1, FU1, FU1, FU1, FU1, FU1, FU1, FU1, FU1, FU1, FU1, FU1, FU1,
    FU1, FU1, FU1, FU1, FU1, FU1, FU1, FU1, FU1, FU1, FU1, FU1, FU1, FU1, FU1, FU1, FU1, FU1,
    FU1, FU1, FU1, FU1, FU1, FU1, FU1, FU1, FU1, FU1, FU1, FU1, FU1, FU1, FU1, FU1, FU1, FU1,
    FU1, FU1, FU1, FU1, FU1, FU1, FU1, FU1, FU1, FU1, FU1, FU1, FU1, FU1, FU1, FU1, FU1, FU1,
    FU1, FU1, FU1, FU1, FU1, FU1, FU1, FU1, FU1, FU1, FU1, FU1, FU1, FU1, FU1, FU1, FU1, FU1,
    FU1, FU1, FU1, FU1, FU1, FU1, FU1, FU1, FU1, FU1, FU1, FU1, FU1, FU1, FU1, FU1, FU1, FU1,
    FU1, FU1, FU1, FU1, FU1, FU1, FU1, FU1, FU1, FU1, FU1, FU1, FU1, FU1, FU1, FU1, FU1, FU1,
    FU1, FU1, FU1, FU1, FU1, FU1, FU1, FU1, FU1, FU1, FU1, FU1, FU1, FU1, FU1, FU1, FU1, FU1,
    FU1, FU1, FU1, FU1, FU1, FU1, FU1, FU1, FU1, FU1, FU1, FU1, FU1, FU1, FU1, FU1, FU1, FU1,
    FU1, FU1, FU1, FU1, FU1, FU1, FU1, FU1, FU1, FU1, FU1, FU1, FU1, FU1, FU1, FU1, FU1, FU1,
    FU1, FU1, FU1, FU1, FU1, FU1, FU1, FU1, FU1, FU1, FU1, FU1, FU1, FU1, FU1, FU1, FU1, FU1,
    FU1, FU1, FU1, FU1, FU1, FU1, FU1, FU1, FU1, FU1, FU1, FU1, FU1, FU1, FU1, FU1, FU1, FU1,
    FU1, FU1, FU1, FU1, FU1, FU1, FU1, FU1, FU1, FU1, FU1, FU1, FU1, FU1, FU1, FU1, FU1, FU1,
    FU1, FU1, FU1, FU1, FU1, FU1, FU1, FU1, FU1, FU1, FU1, FU1, FU1, FU1, FU1, FU1, FU1, FU1,
    FU1, FU1, FU1, FU1, FU1, FU1, FU1, FU1, FU1, FU1, FU1, FU1, FU1, FU1, FU1, FU1, FU1, FU1,
    FU1, FU1, FU1, FU1, FU1, FU2, FU1, FU1, FU1, FU1, FU1, FR8, FR8, FR4, FR4, FR4, FR4, FR4,
    FR4, FR4, FU1, FU1, FU1, FI1, FU1, FU1, FU2, FU2, FU2, FU2, FU2, FI4, FU4, FU1, FU1, FU1,
    FU1, FU1, FU1, FU1, FU1, FU1, FU1, FU1, FU1, FU1, FU1, FU1, FU1, FU1, FU1, FU1, FU1, FU1,
    FU2, FU1, FU1, FU1, FU1, FU1, FU1, FU1, FU1, FU1, FU2, FU2, FU1, FU1, FU1, FU1, FU8, FU8,
    FU8, FU8, FU1, FU1, FU1, FU1, FU8, FU1, FU1, FU1, FU1, FU1, FU1, FU1, FU1, FU1, FU1, FU1,
    FU1, FU1, FU1, FU1, FU1, FU1, FU1, FU1, FU1, FU1, FU1, FU1, FU1, FU1, FU1, FU1, FU1, FU1,
    FU1, FU1, FU1, FI4, FI4, FI4, FI1, FI1, FI1, FI4, FI4, FI4, FI1, FI1, FI1, FU4, FU4, FU4,
    FU1, FU1, FI2, FU4, FU4, FU4, FU4, FU4, FU4, FR8, FR8, FI4, FU1, FU1, FU1, FU1, FU1, FU1,
    FU4, FU4, FU4, FU4, FU4, FU4, FR8, FR8, FI4, FU1, FU1, FU1, FU1, FU1, FU1, FU4, FU1, FU1,
    FU1, FU1, FU1, FU1, FU1, FU1, FU1, FU1, FU1, FU4, FU1, FU1, FU1, FU1, FU1, FU1, FU1, FU1,
    FU1, FU1, FU1, FU1, FU1, FU1, FU2, FU2, FU2, FU8, FU8, FU8, FU8, FU8, FU8, FU8, FU8, FU8,
    FU8, FU8, FU8, FU1, FU1, FU1, FU1, FU1, FU1, FU1]"

text \<open>
  The end of \<^verbatim>\<open>gen_ubx\<close>: \<^verbatim>\<open>n=(int)(q-buff)+2\<close>, the payload length written at
  offset 4 and the checksum at the end.  The two length bytes and the two checksum
  bytes appear as 0 until they are written.
\<close>

definition gen_finish :: "byte list \<Rightarrow> int \<times> byte list" where
  "gen_finish q =
     (let n = int (length q) + 2;
          l = setU2 (word_of_int (n - 8));
          b = (q @ [0, 0])[4 := l ! 0, 5 := l ! 1]
      in (n, setcs b n))"

text \<open>
  \<^verbatim>\<open>gen_ubx\<close>.  The result is the returned length and the bytes written to
  \<^verbatim>\<open>buff\<close>; \<open>None\<close> is undefined behaviour (\<^verbatim>\<open>strcpy\<close> beyond \<^verbatim>\<open>mbuff[1024]\<close>, a read
  beyond a row of \<^verbatim>\<open>prm\<close>).  The message is a C string and ends at its first NUL.
\<close>

definition gen_ubx :: "libc \<Rightarrow> string \<Rightarrow> (int \<times> byte list) option" where
  "gen_ubx C msg =
     (let mbuff = takeWhile (\<lambda>c. c \<noteq> CHR 0x00) msg in
      if 1024 \<le> length mbuff then None
      else
        let args = take 32 (strtok_all [] mbuff); narg = length args in
        if narg < 1 \<or> take 4 (args ! 0) \<noteq> ''CFG-'' then Some (0, [])
        else
          (case find_cmd cmd (drop 4 (args ! 0)) 0 of
             None \<Rightarrow> Some (0, [])
           | Some i \<Rightarrow>
               let q = [UBXSYNC1, UBXSYNC2, UBXCFG, id_ubx ! i, 0, 0];
                   isvalset = (i = 34)
               in if isvalset \<and> narg \<noteq> 7 then Some (0, take 4 q)
                  else
                    (case gen_fields C (prm ! i) args (if isvalset then narg - 2 else narg) 1 q of
                       None \<Rightarrow> None
                     | Some (j, q1) \<Rightarrow>
                         if isvalset then
                           (if take 4 (args ! j) \<noteq> ''CFG-'' then Some (0, q1)
                            else
                              (case find_cmd vcmd (drop 4 (args ! j)) 0 of
                                 None \<Rightarrow> Some (0, q1)
                               | Some k \<Rightarrow>
                                   Some (gen_finish (q1 @ setU4 (vid ! k) @
                                     gen_field C (vprm ! k) (Some (args ! (j + 1)))))))
                         else Some (gen_finish q1))))"

text \<open>
  An instance of the C library for running examples: \<^verbatim>\<open>atoi\<close> on decimal numerals
  (leading white space, an optional sign, then digits); the floating-point conversions
  are not exercised by the examples and yield 0.
\<close>

definition isspace :: "char \<Rightarrow> bool" where
  "isspace c \<longleftrightarrow> c = CHR '' '' \<or> (9 \<le> (of_char c :: nat) \<and> (of_char c :: nat) \<le> 13)"

definition isdigit :: "char \<Rightarrow> bool" where
  "isdigit c \<longleftrightarrow> 48 \<le> (of_char c :: nat) \<and> (of_char c :: nat) \<le> 57"

definition dec_val :: "string \<Rightarrow> 32 word" where
  "dec_val s = of_nat (foldl (\<lambda>a c. 10 * a + (of_char c - 48)) 0 (takeWhile isdigit s))"

definition atoi_dec :: "string \<Rightarrow> 32 word" where
  "atoi_dec s =
     (case dropWhile isspace s of
        [] \<Rightarrow> 0
      | c # r \<Rightarrow> if c = CHR ''-'' then - dec_val r
                 else if c = CHR ''+'' then dec_val r else dec_val (c # r))"

definition libc_dec :: libc where
  "libc_dec = \<lparr>atoi = atoi_dec, atof = (\<lambda>_. 0), dbl2flt = (\<lambda>_. 0)\<rparr>"

section \<open>An instance of the library for running examples\<close>

text \<open>
  A stand-in for the parameters, used only to run the decoders on concrete frames:
  satellite numbers for GPS (1-32), GLONASS (33-59) and Galileo (60-95); bits are
  numbered from the most significant bit of the first byte; a \<^verbatim>\<open>double\<close> made from an
  integer keeps the integer and a product keeps its first factor, so that lock times
  stay ordered; times keep the week in \<open>gt_time\<close>; the CRC is constantly 0 and
  every GLONASS string passes the Hamming test; the frame decoders return fixed
  issue-of-data numbers, \<open>decode_frame\<close> taking the subframe id from the first byte.
\<close>

definition fpu_demo :: fpu where
  "fpu_demo = \<lparr>dlt = (\<lambda>a b. a < b), dadd = (\<lambda>a b. a + b), dsub = (\<lambda>a b. a - b),
     dmul = (\<lambda>a b. a), ddiv = (\<lambda>a b. a), dfloor = (\<lambda>a. a),
     dle = (\<lambda>a b. a \<le> b), d_of_int = word_of_int, d2int = uint, d2uchar = ucast,
     d2flt = ucast\<rparr>"

definition satno_demo :: "sys \<Rightarrow> int \<Rightarrow> int" where
  "satno_demo sys prn =
     (if sys = SYS_GPS \<and> 1 \<le> prn \<and> prn \<le> 32 then prn
      else if sys = SYS_GLO \<and> 1 \<le> prn \<and> prn \<le> 27 then 32 + prn
      else if sys = SYS_GAL \<and> 1 \<le> prn \<and> prn \<le> 36 then 59 + prn
      else 0)"

definition satsys_demo :: "int \<Rightarrow> sys \<times> int" where
  "satsys_demo sat =
     (if 1 \<le> sat \<and> sat \<le> 32 then (SYS_GPS, sat)
      else if 33 \<le> sat \<and> sat \<le> 59 then (SYS_GLO, sat - 32)
      else if 60 \<le> sat \<and> sat \<le> 95 then (SYS_GAL, sat - 59)
      else (SYS_NONE, 0))"

definition bit_at :: "byte list \<Rightarrow> nat \<Rightarrow> bool" where
  "bit_at buff i = bit (buff ! (i div 8)) (7 - i mod 8)"

definition getbitu_demo :: "byte list \<Rightarrow> int \<Rightarrow> int \<Rightarrow> 32 word" where
  "getbitu_demo buff pos len =
     foldl (\<lambda>bits i. push_bit 1 bits + (if bit_at buff i then 1 else 0)) 0
       [nat pos ..< nat (pos + len)]"

definition setbit_at :: "byte list \<Rightarrow> nat \<Rightarrow> bool \<Rightarrow> byte list" where
  "setbit_at buff i v =
     buff[i div 8 := (if v then set_bit (7 - i mod 8) (buff ! (i div 8))
                      else unset_bit (7 - i mod 8) (buff ! (i div 8)))]"

definition setbitu_demo :: "byte list \<Rightarrow> int \<Rightarrow> int \<Rightarrow> 32 word \<Rightarrow> byte list" where
  "setbitu_demo buff pos len data =
     (if len \<le> 0 \<or> 32 < len then buff
      else foldl (\<lambda>b i. setbit_at b (nat pos + i) (bit data (nat len - 1 - i))) buff
             [0 ..< nat len])"

definition rtk_demo :: rtklib where
  "rtk_demo = \<lparr>fp = fpu_demo, MAXOBS = 4, NFREQ = 3, NEXOBS = 0,
     MINPRNSBS = 120, MINPRNQZS = 193,
     CLIGHT = 0, FREQL1 = 0, FREQ1_GLO = 0, FREQ2_GLO = 0, FREQ3_GLO = 0,
     DFRQ1_GLO = 0, DFRQ2_GLO = 0, FREQ1_CMP = 0, FREQ2_CMP = 0, FREQ3_CMP = 0,
     P2_32 = 0, lam_carr = (\<lambda>_. 0),
     satno = satno_demo, satsys = satsys_demo,
     gpst2time = (\<lambda>week tow. \<lparr>gt_time = week, gt_sec = tow\<rparr>),
     time2gpst = (\<lambda>t. (gt_sec t, gt_time t)),
     timeadd = (\<lambda>t d. t\<lparr>gt_sec := gt_sec t + d\<rparr>),
     timediff = (\<lambda>a b. gt_sec a - gt_sec b),
     gpst2utc = (\<lambda>t. t),
     sscanf_d = (\<lambda>s. if s \<noteq> [] \<and> isdigit (hd s) then Some (uint (dec_val s)) else None),
     sscanf_lf = (\<lambda>_. None), uninit = 0, ulong_hi = 0,
     getbitu = getbitu_demo, setbitu = setbitu_demo,
     rtk_crc24q = (\<lambda>buff len. 0),
     test_glostr = (\<lambda>buff. 1),
     decode_glostr = (\<lambda>buff g. (1, g\<lparr>geph_sat := 33, geph_iode := 3\<rparr>)),
     decode_gal_inav = (\<lambda>buff e. (1, e\<lparr>eph_sat := 60, eph_iode := 7\<rparr>)),
     decode_frame = (\<lambda>buff e. (if buff = [] then 0 else uint (hd buff),
                                e\<lparr>eph_iode := 7, eph_iodc := 7\<rparr>))\<rparr>"

section \<open>Example RXM-RAWX frames\<close>

text \<open>
  Two successive RXM-RAWX frames of 56 bytes (week 2000, one measurement, version 1)
  for GPS satellite 5, signal L1C/A.  In the first \<open>trkStat = 0x07\<close>: code and phase
  valid, half cycle valid, no half cycle subtracted; lock time 1000 ms.  In the second
  \<open>trkStat = 0x0D\<close>: the phase is not valid and the half-cycle-subtracted bit is set;
  lock time 2000 ms.  The checksum bytes are not read by the decoder and are left 0.
\<close>

definition rawx_frame_a :: "byte list" where
  "rawx_frame_a = [0xB5, 0x62, 0x02, 0x15, 0x30, 0x00,
     0, 0, 0, 0, 0, 0, 0, 0,  0xD0, 0x07, 18, 1, 0, 1, 0, 0,
     0, 0, 0, 0, 0, 0, 0x35, 0x41,  0, 0, 0, 0, 0, 0, 0xF0, 0x3F,  0, 0, 0, 0,
     0, 5, 0, 0,  0xE8, 0x03,  40, 0, 1, 0,  0x07, 0,  0, 0]"

definition rawx_frame_b :: "byte list" where
  "rawx_frame_b = [0xB5, 0x62, 0x02, 0x15, 0x30, 0x00,
     0, 0, 0, 0, 0, 0, 0, 0,  0xD0, 0x07, 18, 1, 0, 1, 0, 0,
     0, 0, 0, 0, 0, 0, 0x35, 0x41,  0, 0, 0, 0, 0, 0, 0xF0, 0x3F,  0, 0, 0, 0,
     0, 5, 0, 0,  0xD0, 0x07,  40, 0, 1, 0,  0x0D, 0,  0, 0]"

definition rawx_st0 :: raw_t where
  "rawx_st0 = (raw_zero 56 0 4 3)\<lparr>raw_len := 56, raw_buff := rawx_frame_a\<rparr>"

definition rawx_st1 :: raw_t where
  "rawx_st1 = (snd (decode_rxmrawx rtk_demo rawx_st0))\<lparr>raw_buff := rawx_frame_b\<rparr>"

definition rawx_st2 :: raw_t where
  "rawx_st2 = snd (decode_rxmrawx rtk_demo rawx_st1)"



section \<open>Example states for the navigation and tracking decoders\<close>

text \<open>
  A frame buffer holding a Galileo page at payload offset 8: \<open>a\<close> is the first byte of
  the even half (bit 0 even/odd, bit 1 alert), \<open>b\<close> the first byte of the odd half,
  \<open>c\<close> the byte of the odd half that holds the first CRC bits; \<open>fl\<close> is the flags
  byte of the frame buffer of every satellite.
\<close>

definition enav_raw :: "byte \<Rightarrow> byte \<Rightarrow> byte \<Rightarrow> byte \<Rightarrow> raw_t" where
  "enav_raw a b c fl = (raw_zero 64 128 0 0)\<lparr>raw_len := 52,
      raw_buff := (replicate 64 0)[17 := a, 33 := b, 39 := c],
      raw_subfrm := (\<lambda>_. (replicate 128 0)[112 := fl])\<rparr>"

text \<open>A state whose subframe buffers hold subframes with ids 1, 2 and 3.\<close>

definition lnav_raw :: raw_t where
  "lnav_raw = (raw_zero 0 90 0 0)\<lparr>raw_subfrm := (\<lambda>_. (replicate 90 0)[0 := 1, 30 := 2, 60 := 3])\<rparr>"

text \<open>
  A frame buffer holding GLONASS string 1 at payload offset 8 with frame-id bytes
  \<open>x\<close>, \<open>y\<close>; the frame buffers of the satellites are filled with 1 and hold the
  frame id \<open>0xAA, 0xBB\<close>.
\<close>

definition gnav_raw :: "byte \<Rightarrow> byte \<Rightarrow> raw_t" where
  "gnav_raw x y = (raw_zero 64 0 0 0)\<lparr>raw_len := 32,
      raw_buff := (replicate 64 0)[17 := 0x08, 29 := x, 28 := y],
      raw_subfrm := (\<lambda>_. (replicate 380 1)[150 := 0xAA, 151 := 0xBB])\<rparr>"

text \<open>A state with no time reference and \<^verbatim>\<open>outtype\<close> set.\<close>

definition trk_raw :: raw_t where
  "trk_raw = (raw_zero 0 0 0 0)\<lparr>raw_outtype := 1, raw_len := 120\<rparr>"

section \<open>Properties\<close>

lemma cs_fold_cong:
  "(\<And>i. i \<in> set is \<Longrightarrow> b ! i = b' ! i) \<Longrightarrow>
   fold (cs_step b) is ck = fold (cs_step b') is ck"
  by (induction "is" arbitrary: ck) (simp_all add: cs_step_def)

lemma cs_loop_setcs:
  assumes "4 \<le> len"
  shows "cs_loop (setcs buff len) len = cs_loop buff len"
  unfolding cs_loop_def
proof (rule cs_fold_cong)
  fix i assume "i \<in> set [2 ..< nat (len - 2)]"
  then have "i < nat (len - 2)" by simp
  with assms have "i \<noteq> nat (len - 2)" "i \<noteq> nat (len - 1)" by linarith+
  then show "setcs buff len ! i = buff ! i"
    by (simp add: setcs_def)
qed

lemma checksum_setcs:
  assumes "4 \<le> len" and "len \<le> int (length buff)"
  shows "checksum (setcs buff len) len"
proof -
  from assms have lt: "nat (len - 2) < length buff" "nat (len - 1) < length buff"
    and ne: "nat (len - 2) \<noteq> nat (len - 1)" by linarith+
  have a: "setcs buff len ! nat (len - 2) = fst (cs_loop buff len)"
    using lt ne by (simp add: setcs_def)
  have b: "setcs buff len ! nat (len - 1) = snd (cs_loop buff len)"
    using lt by (simp add: setcs_def)
  show ?thesis
    unfolding checksum_def cs_loop_setcs [OF assms(1)] a b by simp
qed

subsection \<open>The decoders leave the framer fields alone\<close>

lemma same_frame_refl: "same_frame r r"
  by (simp add: same_frame_def)

lemma same_frame_trans: "same_frame a b \<Longrightarrow> same_frame b c \<Longrightarrow> same_frame a c"
  by (simp add: same_frame_def)

lemma rxmraw_meas_frame: "same_frame raw (fst (rxmraw_meas E t toff tt raw n p))"
  by (simp add: rxmraw_meas_def same_frame_def Let_def)

lemma rxmraw_loop_frame: "same_frame raw (fst (rxmraw_loop E t toff tt raw n i p k))"
proof (induction k arbitrary: raw n i p)
  case 0
  show ?case by (simp add: same_frame_def)
next
  case (Suc k)
  show ?case
  proof (cases "int i < MAXOBS E")
    case False
    then show ?thesis by (simp add: same_frame_def)
  next
    case True
    have "same_frame raw (fst (rxmraw_meas E t toff tt raw n p))"
      by (rule rxmraw_meas_frame)
    then have "same_frame raw (fst (rxmraw_loop E t toff tt (fst (rxmraw_meas E t toff tt raw n p))
                 (snd (rxmraw_meas E t toff tt raw n p)) (i + 1) (p + 24) k))"
      by (rule same_frame_trans) (rule Suc.IH)
    with True show ?thesis by (simp add: case_prod_beta)
  qed
qed

lemma decode_rxmraw_frame: "same_frame raw (snd (decode_rxmraw E raw))"
proof -
  have a: "same_frame (r\<lparr>raw_msgtype := m\<rparr>) (fst (rxmraw_loop E t toff tt (r\<lparr>raw_msgtype := m\<rparr>) n i p k))"
    for r m t toff tt n i p k by (rule rxmraw_loop_frame)
  show ?thesis
    unfolding decode_rxmraw_def Let_def case_prod_beta
    using rxmraw_loop_frame [where raw = raw and E = E] a [where r = raw]
    by (simp add: same_frame_def)
qed

lemma rawx_track_frame: "same_frame raw (fst (rawx_track E c raw sys sat f bl L))"
  by (simp add: rawx_track_def same_frame_def Let_def)

lemma rawx_store_frame: "same_frame raw (fst (rawx_store E t raw n sat code f bl P L LLI))"
  by (simp add: rawx_store_def same_frame_def Let_def)

lemma rawx_meas_frame: "same_frame raw (fst (rawx_meas E cx raw n p))"
proof -
  have a: "same_frame raw
      (fst (rawx_store E t (fst (rawx_track E c raw sys sat f bl L)) n sat code f bl P L LLI))"
    for t c sys sat f bl L code P LLI
    by (rule same_frame_trans [OF rawx_track_frame rawx_store_frame])
  show ?thesis
    unfolding rawx_meas_def Let_def case_prod_beta
    by (simp add: a same_frame_refl split: option.split)
qed

lemma rawx_loop_frame: "same_frame raw (fst (rawx_loop E cx raw n p k))"
proof (induction k arbitrary: raw n p)
  case 0
  show ?case by (simp add: same_frame_def)
next
  case (Suc k)
  show ?case
  proof (cases "int n < MAXOBS E")
    case False
    then show ?thesis by (simp add: same_frame_def)
  next
    case True
    have "same_frame raw (fst (rawx_meas E cx raw n p))"
      by (rule rawx_meas_frame)
    then have "same_frame raw (fst (rawx_loop E cx (fst (rawx_meas E cx raw n p))
                 (snd (rawx_meas E cx raw n p)) (p + 32) k))"
      by (rule same_frame_trans) (rule Suc.IH)
    with True show ?thesis by (simp add: case_prod_beta)
  qed
qed

lemma decode_rxmrawx_frame: "same_frame raw (snd (decode_rxmrawx E raw))"
proof -
  have a: "same_frame (r\<lparr>raw_msgtype := m\<rparr>) (fst (rawx_loop E cx (r\<lparr>raw_msgtype := m\<rparr>) n p k))"
    for r m cx n p k by (rule rawx_loop_frame)
  show ?thesis
    unfolding decode_rxmrawx_def Let_def case_prod_beta
    using rawx_loop_frame [where raw = raw and E = E] a [where r = raw]
    by (simp add: same_frame_def)
qed

lemma trkmeas_ch_frame: "same_frame raw (fst (trkmeas_ch E t tr u fw raw n p))"
  by (simp add: trkmeas_ch_def same_frame_def Let_def)

lemma trkmeas_loop_frame: "same_frame raw (fst (trkmeas_loop E t tr u fw raw n p k))"
proof (induction k arbitrary: raw n p)
  case 0
  show ?case by (simp add: same_frame_def)
next
  case (Suc k)
  have "same_frame raw (fst (trkmeas_ch E t tr u fw raw n p))"
    by (rule trkmeas_ch_frame)
  then have "same_frame raw (fst (trkmeas_loop E t tr u fw (fst (trkmeas_ch E t tr u fw raw n p))
               (snd (trkmeas_ch E t tr u fw raw n p)) (p + 56) k))"
    by (rule same_frame_trans) (rule Suc.IH)
  then show ?case by (simp add: case_prod_beta)
qed

lemma decode_trkmeas_frame: "same_frame raw (snd (decode_trkmeas E raw))"
proof -
  have a: "same_frame (r\<lparr>raw_msgtype := m\<rparr>)
      (fst (trkmeas_loop E t tr u fw (r\<lparr>raw_msgtype := m\<rparr>) n p k))"
    for r m t tr u fw n p k by (rule trkmeas_loop_frame)
  show ?thesis
    unfolding decode_trkmeas_def Let_def case_prod_beta
    using trkmeas_loop_frame [where raw = raw and E = E] a [where r = raw]
    by (simp add: same_frame_def)
qed

lemma trkd5_ch_frame: "same_frame (fst rn) (fst (trkd5_ch E t tr u ty p rn))"
  by (simp add: trkd5_ch_def same_frame_def Let_def)

lemma trkd5_fold_frame: "same_frame (fst rn) (fst (fold (trkd5_ch E t tr u ty) ps rn))"
proof (induction ps arbitrary: rn)
  case Nil
  show ?case by (simp add: same_frame_def)
next
  case (Cons p ps)
  from trkd5_ch_frame [of rn E t tr u ty p] Cons.IH [of "trkd5_ch E t tr u ty p rn"]
  show ?case by (simp add: same_frame_def)
qed

lemma decode_trkd5_frame: "same_frame raw (snd (decode_trkd5 E raw))"
proof -
  have a: "same_frame r (fst (fold (trkd5_ch E t tr u ty) ps (r, 0)))"
    for r t tr u ty ps
    using trkd5_fold_frame [of "(r, 0)" E t tr u ty ps] by simp
  show ?thesis
    unfolding decode_trkd5_def Let_def case_prod_beta
    using a [where r = raw] a [where r = "raw\<lparr>raw_msgtype := MSG_TRKD5 (raw_len raw)\<rparr>"]
    by (simp add: same_frame_def)
qed

subsection \<open>Observation decoders\<close>

lemma rawx_track_obs:
  "raw_obs (fst (rawx_track E c raw sys sat f bl L)) = raw_obs raw"
  by (simp add: rawx_track_def Let_def)

lemma upd2_same: "upd2 m i j v i j = v"
  by (simp add: upd2_def)

lemma rawx_track_LLI:
  "snd (rawx_track E c raw sys sat f bl L) =
     (if d_is0 L then 0
      else (if (if sys = SYS_SBS then bl_lockt bl \<le> 8000 else bl_tstat bl AND 4 = 0)
            then LLI_HALFC else 0) OR
           (if (if bl_cpstd bl \<ge> c then LLI_SLIP
                else if bl_lockt bl = 0 \<or>
                        dlt (fp E) (dmul (fp E) (d_of_int (fp E) (bl_lockt bl)) d_milli)
                          (raw_lockt raw (nat (sat - 1)) (nat (f - 1))) \<or>
                        (if bl_tstat bl AND 8 \<noteq> 0 then 1 else 0)
                          \<noteq> raw_halfc raw (nat (sat - 1)) (nat (f - 1))
                     then 1 else raw_lockflag raw (nat (sat - 1)) (nat (f - 1))) > 0
            then LLI_SLIP else 0))"
  by (simp add: rawx_track_def Let_def upd2_same LLI_SLIP_def LLI_HALFC_def)

lemma obs_find_le: "obs_find data n sat \<le> n"
proof -
  have "length (takeWhile (\<lambda>d. obsd_sat d \<noteq> sat) (take n data)) \<le> length (take n data)"
    by (rule length_takeWhile_le)
  then show ?thesis by (simp add: obs_find_def)
qed

lemma obs_find_less:
  assumes "obs_find data n sat < n" and "n \<le> length data"
  shows "obs_find data n sat < length data \<and> obsd_sat (data ! obs_find data n sat) = sat"
proof -
  let ?xs = "take n data" and ?P = "\<lambda>d. obsd_sat d \<noteq> sat"
  have ln: "length ?xs = n" using assms(2) by simp
  with assms(1) have lt: "length (takeWhile ?P ?xs) < length ?xs" by (simp add: obs_find_def)
  then have "\<not> ?P (?xs ! length (takeWhile ?P ?xs))" by (rule nth_length_takeWhile)
  moreover have "?xs ! length (takeWhile ?P ?xs) = data ! length (takeWhile ?P ?xs)"
    using lt by simp
  ultimately show ?thesis using lt assms(2) by (simp add: obs_find_def)
qed

lemma obsd_put_nth:
  assumes "k < length (obsd_L d)" "k < length (obsd_P d)" "k < length (obsd_LLI d)"
    "k < length (obsd_code d)"
  shows "obsd_sat (obsd_put k L P c q D snr LLI code d) = obsd_sat d \<and>
         obsd_L (obsd_put k L P c q D snr LLI code d) ! k = L \<and>
         obsd_P (obsd_put k L P c q D snr LLI code d) ! k = P \<and>
         obsd_LLI (obsd_put k L P c q D snr LLI code d) ! k = word_of_int LLI \<and>
         obsd_code (obsd_put k L P c q D snr LLI code d) ! k = code"
  using assms by (simp add: obsd_put_def)

lemma obsd_init_wf: "0 \<le> NFREQ E + NEXOBS E \<Longrightarrow> obsd_wf E (obsd_init E t sat d)"
  by (simp add: obsd_wf_def obsd_init_def Let_def)

lemma obsd_init_sat: "obsd_sat (obsd_init E t sat d) = sat"
  by (simp add: obsd_init_def Let_def)

lemma obsd_wf_slot:
  assumes "obsd_wf E d" "1 \<le> f" "f \<le> NFREQ E + NEXOBS E"
  shows "nat (f - 1) < length (obsd_L d) \<and> nat (f - 1) < length (obsd_P d) \<and>
         nat (f - 1) < length (obsd_LLI d) \<and> nat (f - 1) < length (obsd_code d)"
  using assms by (auto simp: obsd_wf_def)

lemma rawx_store_row:
  assumes wf: "obs_wf E raw" and n: "int n < MAXOBS E" and f: "1 \<le> f" "f \<le> NFREQ E + NEXOBS E"
    and st: "rawx_store E t raw n sat code f bl P L LLI = (raw', n')"
    and j: "j = obs_find (obs_data (raw_obs raw)) n sat"
  shows "j < length (obs_data (raw_obs raw')) \<and>
         obsd_sat (obs_data (raw_obs raw') ! j) = sat \<and>
         obsd_L (obs_data (raw_obs raw') ! j) ! nat (f - 1) = L \<and>
         obsd_P (obs_data (raw_obs raw') ! j) ! nat (f - 1) = P \<and>
         obsd_LLI (obs_data (raw_obs raw') ! j) ! nat (f - 1) = word_of_int LLI \<and>
         obsd_code (obs_data (raw_obs raw') ! j) ! nat (f - 1) = code \<and>
         n' = (if j < n then n else n + 1)"
proof -
  define data where "data = obs_data (raw_obs raw)"
  define k where "k = nat (f - 1)"
  have ld: "n < length data" using wf n by (simp add: obs_wf_def data_def)
  have jn: "j \<le> n" unfolding j by (rule obs_find_le)
  define data1 where "data1 = (if j \<ge> n then data[n := obsd_init E t sat (data ! n)] else data)"
  define d where "d = data1 ! j"
  have l1: "length data1 = length data" by (simp add: data1_def)
  have jl: "j < length data1" using jn ld l1 by simp
  have dsat: "obsd_sat d = sat"
  proof (cases "j < n")
    case True
    with obs_find_less [of data n sat] ld have "obsd_sat (data ! j) = sat"
      by (simp add: j data_def)
    with True show ?thesis by (simp add: d_def data1_def)
  next
    case False
    with jn have "j = n" by simp
    then show ?thesis using ld by (simp add: d_def data1_def obsd_init_sat)
  qed
  have dwf: "obsd_wf E d"
  proof (cases "j < n")
    case True
    then have "d = data ! j" by (simp add: d_def data1_def)
    moreover have "data ! j \<in> set data" using True ld by simp
    ultimately show ?thesis using wf by (simp add: obs_wf_def data_def)
  next
    case False
    with jn have "j = n" by simp
    then show ?thesis using ld f by (simp add: d_def data1_def obsd_init_wf)
  qed
  note slot = obsd_wf_slot [OF dwf f, folded k_def]
  obtain c q where obs': "obs_data (raw_obs raw') =
      data1[j := obsd_put k L P c q (bl_D bl) (bl_cn0 bl * 4) LLI code d]"
    and n': "n' = (if j \<ge> n then n + 1 else n)"
    using st by (auto simp: rawx_store_def Let_def j data_def k_def data1_def d_def split: if_splits)
  from slot have s: "k < length (obsd_L d)" "k < length (obsd_P d)"
    "k < length (obsd_LLI d)" "k < length (obsd_code d)" by simp_all
  note put = obsd_put_nth [OF s, of L P c q "bl_D bl" "bl_cn0 bl * 4" LLI code]
  show ?thesis
    unfolding obs' k_def [symmetric]
    using jl put dsat n' jn by auto
qed


lemma sig_idx_nonneg: "0 \<le> sig_idx sys code"
  by (simp add: sig_idx_def)

lemma rawx_signal_slot:
  assumes "rawx_signal E ver bl = Some (sys, sat, code, f)"
  shows "1 \<le> f \<and> f \<le> NFREQ E + NEXOBS E \<and> sat \<noteq> 0 \<and> sys \<noteq> SYS_NONE \<and>
         sys = ubx_sys (bl_gnss bl)"
proof -
  from assms have "f = sig_idx sys code" "f \<noteq> 0" "f \<le> NFREQ E + NEXOBS E" "sat \<noteq> 0"
    "sys \<noteq> SYS_NONE" "sys = ubx_sys (bl_gnss bl)"
    by (auto simp: rawx_signal_def Let_def split: if_splits)
  then show ?thesis using sig_idx_nonneg [of sys code] by auto
qed

lemma rawx_meas_emit:
  assumes wf: "obs_wf E raw" and n: "int n < MAXOBS E"
    and sg: "rawx_signal E (cx_ver cx) bl = Some (sys, sat, code, f)"
    and bl: "bl = rawx_block (cx_cpstd_valid cx) (raw_buff raw) p"
    and m: "rawx_meas E cx raw n p = (raw', n')"
    and j: "j = obs_find (obs_data (raw_obs raw)) n sat"
  shows "j < length (obs_data (raw_obs raw')) \<and>
         obsd_sat (obs_data (raw_obs raw') ! j) = sat \<and>
         obsd_L (obs_data (raw_obs raw') ! j) ! nat (f - 1) = snd (rawx_offset E (cx_toff cx) sys f bl) \<and>
         obsd_P (obs_data (raw_obs raw') ! j) ! nat (f - 1) = fst (rawx_offset E (cx_toff cx) sys f bl) \<and>
         obsd_LLI (obs_data (raw_obs raw') ! j) ! nat (f - 1) =
           word_of_int (snd (rawx_track E (cx_cpstd_slip cx) raw sys sat f bl
                               (snd (rawx_offset E (cx_toff cx) sys f bl)))) \<and>
         obsd_code (obs_data (raw_obs raw') ! j) ! nat (f - 1) = code \<and>
         n' = (if j < n then n else n + 1)"
proof -
  obtain P L where o: "rawx_offset E (cx_toff cx) sys f bl = (P, L)"
    by (cases "rawx_offset E (cx_toff cx) sys f bl")
  obtain raw1 LLI where t: "rawx_track E (cx_cpstd_slip cx) raw sys sat f bl L = (raw1, LLI)"
    by (cases "rawx_track E (cx_cpstd_slip cx) raw sys sat f bl L")
  have st: "rawx_store E (cx_time cx) raw1 n sat code f bl P L LLI = (raw', n')"
    using m sg o t by (simp add: rawx_meas_def bl [symmetric])
  have ob: "raw_obs raw1 = raw_obs raw"
    using rawx_track_obs [of E "cx_cpstd_slip cx" raw sys sat f bl L] t by simp
  then have wf1: "obs_wf E raw1" using wf by (simp add: obs_wf_def)
  from rawx_signal_slot [OF sg] have f: "1 \<le> f" "f \<le> NFREQ E + NEXOBS E" by simp_all
  from rawx_store_row [OF wf1 n f st] j ob o t show ?thesis by simp
qed


text \<open>
  Claim C3.  An RXM-RAW or RXM-RAWX frame that passes the length check and whose week
  field is 0 is dropped with status 0; \<^verbatim>\<open>obs\<close>, \<^verbatim>\<open>lockt\<close>, \<^verbatim>\<open>lockflag\<close>,
  \<^verbatim>\<open>halfc\<close> and \<^verbatim>\<open>time\<close> are unchanged.  (\<^verbatim>\<open>decode_rxmrawx\<close> changes nothing at
  all; \<^verbatim>\<open>decode_rxmraw\<close> has written the message-type text when \<^verbatim>\<open>outtype\<close> is set.)
\<close>

theorem week_zero_dropped:
  "(12 + 24 * U1 (raw_buff raw) 12 \<le> raw_len raw \<and> U2 (raw_buff raw) 10 = 0 \<longrightarrow>
      decode_rxmraw E raw =
        (0, if raw_outtype raw \<noteq> 0
            then raw\<lparr>raw_msgtype := MSG_RXMRAW (raw_len raw) (U1 (raw_buff raw) 12)\<rparr> else raw) \<and>
      fst (decode_rxmraw E raw) = 0 \<and>
      raw_obs (snd (decode_rxmraw E raw)) = raw_obs raw \<and>
      raw_lockt (snd (decode_rxmraw E raw)) = raw_lockt raw \<and>
      raw_lockflag (snd (decode_rxmraw E raw)) = raw_lockflag raw \<and>
      raw_halfc (snd (decode_rxmraw E raw)) = raw_halfc raw \<and>
      raw_time (snd (decode_rxmraw E raw)) = raw_time raw) \<and>
   (24 \<le> raw_len raw \<and> 24 + 32 * U1 (raw_buff raw) 17 \<le> raw_len raw \<and>
    U2 (raw_buff raw) 14 = 0 \<longrightarrow>
      decode_rxmrawx E raw = (0, raw))"
  by (simp add: decode_rxmraw_def decode_rxmrawx_def Let_def)

theorem week_zero_dropped_witness:
  "(12 + 24 * U1 (raw_buff ((raw_zero 64 0 4 3)\<lparr>raw_len := 24\<rparr>)) 12
       \<le> raw_len ((raw_zero 64 0 4 3)\<lparr>raw_len := 24\<rparr>) \<and>
    U2 (raw_buff ((raw_zero 64 0 4 3)\<lparr>raw_len := 24\<rparr>)) 10 = 0) \<and>
   (24 \<le> raw_len ((raw_zero 64 0 4 3)\<lparr>raw_len := 24\<rparr>) \<and>
    24 + 32 * U1 (raw_buff ((raw_zero 64 0 4 3)\<lparr>raw_len := 24\<rparr>)) 17
       \<le> raw_len ((raw_zero 64 0 4 3)\<lparr>raw_len := 24\<rparr>) \<and>
    U2 (raw_buff ((raw_zero 64 0 4 3)\<lparr>raw_len := 24\<rparr>)) 14 = 0) \<and>
   fst (decode_rxmraw rtk_demo ((raw_zero 64 0 4 3)\<lparr>raw_len := 24\<rparr>)) = 0 \<and>
   decode_rxmrawx rtk_demo ((raw_zero 64 0 4 3)\<lparr>raw_len := 24\<rparr>)
     = (0, (raw_zero 64 0 4 3)\<lparr>raw_len := 24\<rparr>)"
proof -
  have h1: "12 + 24 * U1 (raw_buff ((raw_zero 64 0 4 3)\<lparr>raw_len := 24\<rparr>)) 12
       \<le> raw_len ((raw_zero 64 0 4 3)\<lparr>raw_len := 24\<rparr>) \<and>
    U2 (raw_buff ((raw_zero 64 0 4 3)\<lparr>raw_len := 24\<rparr>)) 10 = 0"
    by (simp add: raw_zero_def U1_def U2_def)
  have h2: "24 \<le> raw_len ((raw_zero 64 0 4 3)\<lparr>raw_len := 24\<rparr>) \<and>
    24 + 32 * U1 (raw_buff ((raw_zero 64 0 4 3)\<lparr>raw_len := 24\<rparr>)) 17
       \<le> raw_len ((raw_zero 64 0 4 3)\<lparr>raw_len := 24\<rparr>) \<and>
    U2 (raw_buff ((raw_zero 64 0 4 3)\<lparr>raw_len := 24\<rparr>)) 14 = 0"
    by (simp add: raw_zero_def U1_def U2_def)
  from week_zero_dropped [of "(raw_zero 64 0 4 3)\<lparr>raw_len := 24\<rparr>" rtk_demo] h1 h2
  show ?thesis by blast
qed
























text \<open>
  The loss-of-lock indicator that \<^verbatim>\<open>decode_rxmrawx\<close> stores for an emitted block.
  The term of the source for a toggled half-cycle-subtracted bit contributes nothing,
  because \<^verbatim>\<open>raw->halfc\<close> already holds the new bit when it is compared; a toggle
  reaches the indicator only through the slip flag, and only when the phase is present.
\<close>

lemma rawx_meas_LLI:
  assumes wf: "obs_wf E raw" and n: "int n < MAXOBS E"
    and sg: "rawx_signal E (cx_ver cx) bl = Some (sys, sat, code, f)"
    and bl: "bl = rawx_block (cx_cpstd_valid cx) (raw_buff raw) p"
    and m: "rawx_meas E cx raw n p = (raw', n')"
    and row: "row = obs_data (raw_obs raw') ! obs_find (obs_data (raw_obs raw)) n sat"
    and L: "L = snd (rawx_offset E (cx_toff cx) sys f bl)"
    and hc: "halfc = (if bl_tstat bl AND 8 \<noteq> 0 then 1 else 0)"
  shows "obsd_LLI row ! nat (f - 1) = word_of_int
     (if d_is0 L then 0
      else (if (if sys = SYS_SBS then bl_lockt bl \<le> 8000 else bl_tstat bl AND 4 = 0)
            then LLI_HALFC else 0) OR
           (if (if bl_cpstd bl \<ge> cx_cpstd_slip cx then LLI_SLIP
                else if bl_lockt bl = 0 \<or>
                        dlt (fp E) (dmul (fp E) (d_of_int (fp E) (bl_lockt bl)) d_milli)
                          (raw_lockt raw (nat (sat - 1)) (nat (f - 1))) \<or>
                        halfc \<noteq> raw_halfc raw (nat (sat - 1)) (nat (f - 1))
                     then 1 else raw_lockflag raw (nat (sat - 1)) (nat (f - 1))) > 0
            then LLI_SLIP else 0))"
    and "halfc \<noteq> raw_halfc raw (nat (sat - 1)) (nat (f - 1)) \<Longrightarrow> d_is0 L \<Longrightarrow>
           obsd_LLI row ! nat (f - 1) = 0"
    and "halfc \<noteq> raw_halfc raw (nat (sat - 1)) (nat (f - 1)) \<Longrightarrow> \<not> d_is0 L \<Longrightarrow>
           obsd_LLI row ! nat (f - 1) AND 1 = 1"
proof -
  from rawx_meas_emit [OF wf n sg bl m refl]
  have st: "obsd_LLI row ! nat (f - 1) =
      word_of_int (snd (rawx_track E (cx_cpstd_slip cx) raw sys sat f bl L))"
    by (simp add: row L)
  show g: "obsd_LLI row ! nat (f - 1) = word_of_int
     (if d_is0 L then 0
      else (if (if sys = SYS_SBS then bl_lockt bl \<le> 8000 else bl_tstat bl AND 4 = 0)
            then LLI_HALFC else 0) OR
           (if (if bl_cpstd bl \<ge> cx_cpstd_slip cx then LLI_SLIP
                else if bl_lockt bl = 0 \<or>
                        dlt (fp E) (dmul (fp E) (d_of_int (fp E) (bl_lockt bl)) d_milli)
                          (raw_lockt raw (nat (sat - 1)) (nat (f - 1))) \<or>
                        halfc \<noteq> raw_halfc raw (nat (sat - 1)) (nat (f - 1))
                     then 1 else raw_lockflag raw (nat (sat - 1)) (nat (f - 1))) > 0
            then LLI_SLIP else 0))"
    unfolding st rawx_track_LLI hc by (rule refl)
  show "obsd_LLI row ! nat (f - 1) = 0"
    if "halfc \<noteq> raw_halfc raw (nat (sat - 1)) (nat (f - 1))" "d_is0 L"
    using that unfolding g by simp
  show "obsd_LLI row ! nat (f - 1) AND 1 = 1"
    if "halfc \<noteq> raw_halfc raw (nat (sat - 1)) (nat (f - 1))" "\<not> d_is0 L"
    using that unfolding g by (simp add: LLI_SLIP_def LLI_HALFC_def)
qed

text \<open>
  Claim C5 at the two frames \<open>rawx_frame_a\<close>, \<open>rawx_frame_b\<close>: both are decoded
  with status 1 for the same satellite and slot, the half-cycle-subtracted bit goes
  from 0 to 1, and the observation of the second frame has no loss-of-lock bit set.
\<close>

theorem rawx_halfc_toggle_phase_absent:
  "fst (decode_rxmrawx rtk_demo rawx_st0) = 1 \<and> fst (decode_rxmrawx rtk_demo rawx_st1) = 1 \<and>
   raw_halfc rawx_st1 4 0 = 0 \<and> raw_halfc rawx_st2 4 0 = 1 \<and>
   obs_n (raw_obs rawx_st2) = 1 \<and>
   obsd_sat (obs_data (raw_obs rawx_st2) ! 0) = 5 \<and>
   obsd_LLI (obs_data (raw_obs rawx_st2) ! 0) ! 0 = 0"
  by code_simp

subsection \<open>Navigation decoders\<close>

lemma length_swap_words: "length (swap_words b p w) = 4 * w"
  by (simp add: swap_words_def length_concat o_def sum_list_triv)

lemma memset_at_nth:
  assumes "off + n \<le> length dst" "i < length dst"
  shows "memset_at dst off v n ! i = (if off \<le> i \<and> i < off + n then v else dst ! i)"
  using assms by (auto simp: memset_at_def nth_append)

lemma length_memset_at: "off + n \<le> length dst \<Longrightarrow> length (memset_at dst off v n) = length dst"
  by (simp add: memset_at_def)

lemma memcpy_at_nth:
  assumes "off + n \<le> length dst" "n \<le> length src" "i < length dst"
  shows "memcpy_at dst off src n ! i = (if off \<le> i \<and> i < off + n then src ! (i - off) else dst ! i)"
  using assms by (auto simp: memcpy_at_def nth_append min_def)

lemma length_memcpy_at:
  "off + n \<le> length dst \<Longrightarrow> n \<le> length src \<Longrightarrow> length (memcpy_at dst off src n) = length dst"
  by (simp add: memcpy_at_def)

lemma gnav_save_nth:
  assumes sf: "152 \<le> length sf" and b: "length buff = 16" and m: "1 \<le> m" "m \<le> 15"
    and i: "i < length sf"
  shows "gnav_save sf m buff ! i =
     (if nat ((m - 1) * 10) \<le> i \<and> i < nat ((m - 1) * 10) + 10 then buff ! (i - nat ((m - 1) * 10))
      else if sf ! 150 \<noteq> buff ! 12 \<or> sf ! 151 \<noteq> buff ! 13
      then (if i < 40 then 0 else if i = 150 then buff ! 12 else if i = 151 then buff ! 13
            else sf ! i)
      else sf ! i)"
proof -
  define k where "k = nat ((m - 1) * 10)"
  have k: "k + 10 \<le> 150" using m by (simp add: k_def)
  define sf1 where "sf1 = (if sf ! 150 \<noteq> buff ! 12 \<or> sf ! 151 \<noteq> buff ! 13
                 then memcpy_at (memset_at sf 0 0 40) 150 (drop 12 buff) 2 else sf)"
  have l0: "length (memset_at sf 0 0 40) = length sf"
    using sf by (simp add: length_memset_at)
  have l1: "length sf1 = length sf"
    using sf b l0 by (simp add: sf1_def length_memcpy_at)
  have n1: "sf1 ! i = (if sf ! 150 \<noteq> buff ! 12 \<or> sf ! 151 \<noteq> buff ! 13
      then (if i < 40 then 0 else if i = 150 then buff ! 12 else if i = 151 then buff ! 13
            else sf ! i) else sf ! i)"
  proof (cases "sf ! 150 \<noteq> buff ! 12 \<or> sf ! 151 \<noteq> buff ! 13")
    case True
    have "memcpy_at (memset_at sf 0 0 40) 150 (drop 12 buff) 2 ! i =
        (if 150 \<le> i \<and> i < 150 + 2 then drop 12 buff ! (i - 150) else memset_at sf 0 0 40 ! i)"
      by (rule memcpy_at_nth) (use sf b i l0 in simp_all)
    moreover have "memset_at sf 0 0 40 ! i = (if 0 \<le> i \<and> i < 0 + 40 then 0 else sf ! i)"
      by (rule memset_at_nth) (use sf i in simp_all)
    moreover have "i = 151 \<Longrightarrow> i - 150 = 1" by simp
    ultimately show ?thesis using True b by (auto simp: sf1_def)
  next
    case False
    then show ?thesis by (simp add: sf1_def)
  qed
  have "gnav_save sf m buff = memcpy_at sf1 k buff 10"
    by (simp add: gnav_save_def Let_def sf1_def k_def)
  moreover have "memcpy_at sf1 k buff 10 ! i =
      (if k \<le> i \<and> i < k + 10 then buff ! (i - k) else sf1 ! i)"
    by (rule memcpy_at_nth) (use k sf b i l1 in simp_all)
  ultimately show ?thesis using n1 by (simp add: k_def)
qed

lemma decode_gnav_subfrm:
  assumes "24 + off \<le> raw_len raw" "test_glostr E (swap_words (raw_buff raw) (nat (6 + off)) 4) \<noteq> 0"
    "1 \<le> sint (getbitu E (swap_words (raw_buff raw) (nat (6 + off)) 4) 1 4)"
    "sint (getbitu E (swap_words (raw_buff raw) (nat (6 + off)) 4) 1 4) \<le> 15"
  shows "raw_subfrm (snd (decode_gnav E raw sat off frq)) (nat (sat - 1)) =
     gnav_save (raw_subfrm raw (nat (sat - 1)))
       (sint (getbitu E (swap_words (raw_buff raw) (nat (6 + off)) 4) 1 4))
       (swap_words (raw_buff raw) (nat (6 + off)) 4) \<and>
     fst (decode_gnav E raw sat off frq) \<noteq> -1 \<and>
     (\<forall>s. s \<noteq> nat (sat - 1) \<longrightarrow>
        raw_subfrm (snd (decode_gnav E raw sat off frq)) s = raw_subfrm raw s)"
  using assms by (auto simp: decode_gnav_def Let_def split: prod.splits)

text \<open>
  Claim C6.  \<^verbatim>\<open>decode_ephem\<close>: when the three subframes decode to an ephemeris whose
  \<open>iode\<close> and \<open>iodc\<close> equal the stored ones and \<^verbatim>\<open>-EPHALL\<close> is absent, the status is
  0 and the state, \<^verbatim>\<open>nav.eph\<close> included, is unchanged; when \<^verbatim>\<open>-EPHALL\<close> is present
  or \<open>iode\<close> or \<open>iodc\<close> differs, the ephemeris replaces \<^verbatim>\<open>nav.eph[sat-1]\<close>,
  \<^verbatim>\<open>ephsat\<close> is \<open>sat\<close> and the status is 2.  \<^verbatim>\<open>decode_enav\<close>: once the page is
  accepted and all seven words are present the decoder is its final part
  \<open>enav_eph\<close>, which, for a decoded ephemeris of this satellite, returns 0 without a
  change when \<open>iode\<close>, \<open>toe\<close> and \<open>toc\<close> equal the stored ones and \<^verbatim>\<open>-EPHALL\<close> is
  absent, and otherwise replaces \<^verbatim>\<open>nav.eph[sat-1]\<close>, sets \<^verbatim>\<open>ephsat\<close> and returns 2.
\<close>

theorem ephemeris_replay:
  "(decode_frame E (raw_subfrm raw (nat (sat - 1))) eph_zero = (1, e1) \<and>
    decode_frame E (drop 30 (raw_subfrm raw (nat (sat - 1)))) e1 = (2, e2) \<and>
    decode_frame E (drop 60 (raw_subfrm raw (nat (sat - 1)))) e2 = (3, eph) \<longrightarrow>
      (strstr (raw_opt raw) ''-EPHALL'' = None \<and>
       eph_iode eph = eph_iode (nav_eph (raw_nav raw) (nat (sat - 1))) \<and>
       eph_iodc eph = eph_iodc (nav_eph (raw_nav raw) (nat (sat - 1))) \<longrightarrow>
         decode_ephem E sat raw = (0, raw)) \<and>
      (strstr (raw_opt raw) ''-EPHALL'' \<noteq> None \<or>
       eph_iode eph \<noteq> eph_iode (nav_eph (raw_nav raw) (nat (sat - 1))) \<or>
       eph_iodc eph \<noteq> eph_iodc (nav_eph (raw_nav raw) (nat (sat - 1))) \<longrightarrow>
         decode_ephem E sat raw =
           (2, raw\<lparr>raw_nav := (raw_nav raw)\<lparr>nav_eph :=
                      (nav_eph (raw_nav raw))(nat (sat - 1) := eph\<lparr>eph_sat := sat\<rparr>)\<rparr>,
                    raw_ephsat := sat\<rparr>))) \<and>
   (strstr (raw_opt raw) ''-GALFNAV'' = None \<and>
    decode_gal_inav E (raw_subfrm raw (nat (sat - 1))) eph_zero = (r, geph) \<and> r \<noteq> 0 \<and>
    eph_sat geph = sat \<longrightarrow>
      (strstr (raw_opt raw) ''-EPHALL'' = None \<and>
       eph_iode geph = eph_iode (nav_eph (raw_nav raw) (nat (sat - 1))) \<and>
       d_is0 (timediff E (eph_toe geph) (eph_toe (nav_eph (raw_nav raw) (nat (sat - 1))))) \<and>
       d_is0 (timediff E (eph_toc geph) (eph_toc (nav_eph (raw_nav raw) (nat (sat - 1))))) \<longrightarrow>
         enav_eph E raw sat = (0, raw)) \<and>
      (strstr (raw_opt raw) ''-EPHALL'' \<noteq> None \<or>
       eph_iode geph \<noteq> eph_iode (nav_eph (raw_nav raw) (nat (sat - 1))) \<or>
       \<not> d_is0 (timediff E (eph_toe geph) (eph_toe (nav_eph (raw_nav raw) (nat (sat - 1))))) \<or>
       \<not> d_is0 (timediff E (eph_toc geph) (eph_toc (nav_eph (raw_nav raw) (nat (sat - 1))))) \<longrightarrow>
         enav_eph E raw sat =
           (2, raw\<lparr>raw_nav := (raw_nav raw)\<lparr>nav_eph :=
                      (nav_eph (raw_nav raw))(nat (sat - 1) := geph\<lparr>eph_sat := sat\<rparr>)\<rparr>,
                    raw_ephsat := sat\<rparr>))) \<and>
   (44 + off \<le> raw_len raw \<and>
    getbitu E (swap_words (raw_buff raw) (nat (6 + off)) 8) 1 1 \<noteq> 1 \<and>
    getbitu E (drop 16 (swap_words (raw_buff raw) (nat (6 + off)) 8)) 1 1 \<noteq> 1 \<and>
    getbitu E (swap_words (raw_buff raw) (nat (6 + off)) 8) 0 1 = 0 \<and>
    getbitu E (drop 16 (swap_words (raw_buff raw) (nat (6 + off)) 8)) 0 1 = 1 \<and>
    rtk_crc24q E (enav_crc_buff E (swap_words (raw_buff raw) (nat (6 + off)) 8)) 25
      = getbitu E (drop 16 (swap_words (raw_buff raw) (nat (6 + off)) 8)) 82 24 \<and>
    sint (getbitu E (swap_words (raw_buff raw) (nat (6 + off)) 8) 2 6) \<le> 6 \<and>
    sf = enav_save E (raw_subfrm raw (nat (sat - 1)))
           (sint (getbitu E (swap_words (raw_buff raw) (nat (6 + off)) 8) 2 6))
           (swap_words (raw_buff raw) (nat (6 + off)) 8) \<and>
    sf ! 112 = 0x7F \<longrightarrow>
      decode_enav E raw sat off =
        enav_eph E (raw\<lparr>raw_subfrm := (raw_subfrm raw)(nat (sat - 1) := sf)\<rparr>) sat \<and>
      raw_nav (raw\<lparr>raw_subfrm := (raw_subfrm raw)(nat (sat - 1) := sf)\<rparr>) = raw_nav raw \<and>
      raw_opt (raw\<lparr>raw_subfrm := (raw_subfrm raw)(nat (sat - 1) := sf)\<rparr>) = raw_opt raw)"
proof (intro conjI impI)
  assume "decode_frame E (raw_subfrm raw (nat (sat - 1))) eph_zero = (1, e1) \<and>
    decode_frame E (drop 30 (raw_subfrm raw (nat (sat - 1)))) e1 = (2, e2) \<and>
    decode_frame E (drop 60 (raw_subfrm raw (nat (sat - 1)))) e2 = (3, eph)"
  then have d: "decode_ephem E sat raw =
     (if strstr (raw_opt raw) ''-EPHALL'' = None \<and>
         eph_iode eph = eph_iode (nav_eph (raw_nav raw) (nat (sat - 1))) \<and>
         eph_iodc eph = eph_iodc (nav_eph (raw_nav raw) (nat (sat - 1)))
      then (0, raw)
      else (2, raw\<lparr>raw_nav := (raw_nav raw)\<lparr>nav_eph :=
                      (nav_eph (raw_nav raw))(nat (sat - 1) := eph\<lparr>eph_sat := sat\<rparr>)\<rparr>,
                    raw_ephsat := sat\<rparr>))"
    by (simp add: decode_ephem_def Let_def)
  show "decode_ephem E sat raw = (0, raw)"
    if "strstr (raw_opt raw) ''-EPHALL'' = None \<and>
       eph_iode eph = eph_iode (nav_eph (raw_nav raw) (nat (sat - 1))) \<and>
       eph_iodc eph = eph_iodc (nav_eph (raw_nav raw) (nat (sat - 1)))"
    using that d by simp
  show "decode_ephem E sat raw =
           (2, raw\<lparr>raw_nav := (raw_nav raw)\<lparr>nav_eph :=
                      (nav_eph (raw_nav raw))(nat (sat - 1) := eph\<lparr>eph_sat := sat\<rparr>)\<rparr>,
                    raw_ephsat := sat\<rparr>)"
    if "strstr (raw_opt raw) ''-EPHALL'' \<noteq> None \<or>
       eph_iode eph \<noteq> eph_iode (nav_eph (raw_nav raw) (nat (sat - 1))) \<or>
       eph_iodc eph \<noteq> eph_iodc (nav_eph (raw_nav raw) (nat (sat - 1)))"
    using that d by auto
next
  assume "strstr (raw_opt raw) ''-GALFNAV'' = None \<and>
    decode_gal_inav E (raw_subfrm raw (nat (sat - 1))) eph_zero = (r, geph) \<and> r \<noteq> 0 \<and>
    eph_sat geph = sat"
  then have d: "enav_eph E raw sat =
     (if strstr (raw_opt raw) ''-EPHALL'' = None \<and>
         eph_iode geph = eph_iode (nav_eph (raw_nav raw) (nat (sat - 1))) \<and>
         d_is0 (timediff E (eph_toe geph) (eph_toe (nav_eph (raw_nav raw) (nat (sat - 1))))) \<and>
         d_is0 (timediff E (eph_toc geph) (eph_toc (nav_eph (raw_nav raw) (nat (sat - 1)))))
      then (0, raw)
      else (2, raw\<lparr>raw_nav := (raw_nav raw)\<lparr>nav_eph :=
                      (nav_eph (raw_nav raw))(nat (sat - 1) := geph\<lparr>eph_sat := sat\<rparr>)\<rparr>,
                    raw_ephsat := sat\<rparr>))"
    by (simp add: enav_eph_def Let_def)
  show "enav_eph E raw sat = (0, raw)"
    if "strstr (raw_opt raw) ''-EPHALL'' = None \<and>
       eph_iode geph = eph_iode (nav_eph (raw_nav raw) (nat (sat - 1))) \<and>
       d_is0 (timediff E (eph_toe geph) (eph_toe (nav_eph (raw_nav raw) (nat (sat - 1))))) \<and>
       d_is0 (timediff E (eph_toc geph) (eph_toc (nav_eph (raw_nav raw) (nat (sat - 1)))))"
    using that d by simp
  show "enav_eph E raw sat =
           (2, raw\<lparr>raw_nav := (raw_nav raw)\<lparr>nav_eph :=
                      (nav_eph (raw_nav raw))(nat (sat - 1) := geph\<lparr>eph_sat := sat\<rparr>)\<rparr>,
                    raw_ephsat := sat\<rparr>)"
    if "strstr (raw_opt raw) ''-EPHALL'' \<noteq> None \<or>
       eph_iode geph \<noteq> eph_iode (nav_eph (raw_nav raw) (nat (sat - 1))) \<or>
       \<not> d_is0 (timediff E (eph_toe geph) (eph_toe (nav_eph (raw_nav raw) (nat (sat - 1))))) \<or>
       \<not> d_is0 (timediff E (eph_toc geph) (eph_toc (nav_eph (raw_nav raw) (nat (sat - 1)))))"
    using that d by auto
next
  assume a: "44 + off \<le> raw_len raw \<and>
    getbitu E (swap_words (raw_buff raw) (nat (6 + off)) 8) 1 1 \<noteq> 1 \<and>
    getbitu E (drop 16 (swap_words (raw_buff raw) (nat (6 + off)) 8)) 1 1 \<noteq> 1 \<and>
    getbitu E (swap_words (raw_buff raw) (nat (6 + off)) 8) 0 1 = 0 \<and>
    getbitu E (drop 16 (swap_words (raw_buff raw) (nat (6 + off)) 8)) 0 1 = 1 \<and>
    rtk_crc24q E (enav_crc_buff E (swap_words (raw_buff raw) (nat (6 + off)) 8)) 25
      = getbitu E (drop 16 (swap_words (raw_buff raw) (nat (6 + off)) 8)) 82 24 \<and>
    sint (getbitu E (swap_words (raw_buff raw) (nat (6 + off)) 8) 2 6) \<le> 6 \<and>
    sf = enav_save E (raw_subfrm raw (nat (sat - 1)))
           (sint (getbitu E (swap_words (raw_buff raw) (nat (6 + off)) 8) 2 6))
           (swap_words (raw_buff raw) (nat (6 + off)) 8) \<and>
    sf ! 112 = 0x7F"
  then show "decode_enav E raw sat off =
        enav_eph E (raw\<lparr>raw_subfrm := (raw_subfrm raw)(nat (sat - 1) := sf)\<rparr>) sat"
    by (auto simp add: decode_enav_def Let_def)
  show "raw_nav (raw\<lparr>raw_subfrm := (raw_subfrm raw)(nat (sat - 1) := sf)\<rparr>) = raw_nav raw"
    "raw_opt (raw\<lparr>raw_subfrm := (raw_subfrm raw)(nat (sat - 1) := sf)\<rparr>) = raw_opt raw"
    by simp_all
qed

theorem ephemeris_replay_witness:
  "decode_ephem rtk_demo 5 lnav_raw =
     (2, lnav_raw\<lparr>raw_nav := (raw_nav lnav_raw)\<lparr>nav_eph :=
           (nav_eph (raw_nav lnav_raw))(nat (5 - 1) :=
              eph_zero\<lparr>eph_iode := 7, eph_iodc := 7, eph_sat := 5\<rparr>)\<rparr>,
         raw_ephsat := 5\<rparr>) \<and>
   decode_ephem rtk_demo 5 (snd (decode_ephem rtk_demo 5 lnav_raw))
     = (0, snd (decode_ephem rtk_demo 5 lnav_raw)) \<and>
   enav_eph rtk_demo lnav_raw 60 =
     (2, lnav_raw\<lparr>raw_nav := (raw_nav lnav_raw)\<lparr>nav_eph :=
           (nav_eph (raw_nav lnav_raw))(nat (60 - 1) :=
              eph_zero\<lparr>eph_sat := 60, eph_iode := 7, eph_sat := 60\<rparr>)\<rparr>,
         raw_ephsat := 60\<rparr>) \<and>
   enav_eph rtk_demo (snd (enav_eph rtk_demo lnav_raw 60)) 60
     = (0, snd (enav_eph rtk_demo lnav_raw 60)) \<and>
   decode_enav rtk_demo (enav_raw 0x00 0x80 0 0x7E) 60 8 =
     enav_eph rtk_demo ((enav_raw 0x00 0x80 0 0x7E)\<lparr>raw_subfrm :=
        (raw_subfrm (enav_raw 0x00 0x80 0 0x7E))(nat (60 - 1) :=
           enav_save rtk_demo (raw_subfrm (enav_raw 0x00 0x80 0 0x7E) (nat (60 - 1)))
             (sint (getbitu rtk_demo (swap_words (raw_buff (enav_raw 0x00 0x80 0 0x7E)) (nat (6 + 8)) 8) 2 6))
             (swap_words (raw_buff (enav_raw 0x00 0x80 0 0x7E)) (nat (6 + 8)) 8))\<rparr>) 60"
proof (intro conjI)
  have f: "decode_frame rtk_demo (raw_subfrm lnav_raw (nat (5 - 1))) eph_zero
        = (1, eph_zero\<lparr>eph_iode := 7, eph_iodc := 7\<rparr>) \<and>
      decode_frame rtk_demo (drop 30 (raw_subfrm lnav_raw (nat (5 - 1))))
          (eph_zero\<lparr>eph_iode := 7, eph_iodc := 7\<rparr>)
        = (2, eph_zero\<lparr>eph_iode := 7, eph_iodc := 7\<rparr>) \<and>
      decode_frame rtk_demo (drop 60 (raw_subfrm lnav_raw (nat (5 - 1))))
          (eph_zero\<lparr>eph_iode := 7, eph_iodc := 7\<rparr>)
        = (3, eph_zero\<lparr>eph_iode := 7, eph_iodc := 7\<rparr>)"
    by code_simp
  have c: "eph_iode (eph_zero\<lparr>eph_iode := 7, eph_iodc := 7\<rparr>)
      \<noteq> eph_iode (nav_eph (raw_nav lnav_raw) (nat (5 - 1)))"
    by code_simp
  from ephemeris_replay [where E = rtk_demo and raw = lnav_raw and sat = 5
      and ?e1.0 = "eph_zero\<lparr>eph_iode := 7, eph_iodc := 7\<rparr>"
      and ?e2.0 = "eph_zero\<lparr>eph_iode := 7, eph_iodc := 7\<rparr>"
      and eph = "eph_zero\<lparr>eph_iode := 7, eph_iodc := 7\<rparr>"] f c
  show "decode_ephem rtk_demo 5 lnav_raw =
     (2, lnav_raw\<lparr>raw_nav := (raw_nav lnav_raw)\<lparr>nav_eph :=
           (nav_eph (raw_nav lnav_raw))(nat (5 - 1) :=
              eph_zero\<lparr>eph_iode := 7, eph_iodc := 7, eph_sat := 5\<rparr>)\<rparr>,
         raw_ephsat := 5\<rparr>)"
    by blast
next
  define r where "r = snd (decode_ephem rtk_demo 5 lnav_raw)"
  have f: "decode_frame rtk_demo (raw_subfrm r (nat (5 - 1))) eph_zero
        = (1, eph_zero\<lparr>eph_iode := 7, eph_iodc := 7\<rparr>) \<and>
      decode_frame rtk_demo (drop 30 (raw_subfrm r (nat (5 - 1))))
          (eph_zero\<lparr>eph_iode := 7, eph_iodc := 7\<rparr>)
        = (2, eph_zero\<lparr>eph_iode := 7, eph_iodc := 7\<rparr>) \<and>
      decode_frame rtk_demo (drop 60 (raw_subfrm r (nat (5 - 1))))
          (eph_zero\<lparr>eph_iode := 7, eph_iodc := 7\<rparr>)
        = (3, eph_zero\<lparr>eph_iode := 7, eph_iodc := 7\<rparr>)"
    unfolding r_def by code_simp
  have c: "strstr (raw_opt r) ''-EPHALL'' = None \<and>
      eph_iode (eph_zero\<lparr>eph_iode := 7, eph_iodc := 7\<rparr>)
        = eph_iode (nav_eph (raw_nav r) (nat (5 - 1))) \<and>
      eph_iodc (eph_zero\<lparr>eph_iode := 7, eph_iodc := 7\<rparr>)
        = eph_iodc (nav_eph (raw_nav r) (nat (5 - 1)))"
    unfolding r_def by code_simp
  from ephemeris_replay [where E = rtk_demo and raw = r and sat = 5
      and ?e1.0 = "eph_zero\<lparr>eph_iode := 7, eph_iodc := 7\<rparr>"
      and ?e2.0 = "eph_zero\<lparr>eph_iode := 7, eph_iodc := 7\<rparr>"
      and eph = "eph_zero\<lparr>eph_iode := 7, eph_iodc := 7\<rparr>"] f c
  have "decode_ephem rtk_demo 5 r = (0, r)" by blast
  then show "decode_ephem rtk_demo 5 (snd (decode_ephem rtk_demo 5 lnav_raw))
     = (0, snd (decode_ephem rtk_demo 5 lnav_raw))" by (simp add: r_def)
next
  have f: "strstr (raw_opt lnav_raw) ''-GALFNAV'' = None \<and>
      decode_gal_inav rtk_demo (raw_subfrm lnav_raw (nat (60 - 1))) eph_zero
        = (1, eph_zero\<lparr>eph_sat := 60, eph_iode := 7\<rparr>) \<and> (1::int) \<noteq> 0 \<and>
      eph_sat (eph_zero\<lparr>eph_sat := 60, eph_iode := 7\<rparr>) = 60"
    by code_simp
  have c: "eph_iode (eph_zero\<lparr>eph_sat := 60, eph_iode := 7\<rparr>)
      \<noteq> eph_iode (nav_eph (raw_nav lnav_raw) (nat (60 - 1)))"
    by code_simp
  from ephemeris_replay [where E = rtk_demo and raw = lnav_raw and sat = 60 and r = 1
      and geph = "eph_zero\<lparr>eph_sat := 60, eph_iode := 7\<rparr>"] f c
  show "enav_eph rtk_demo lnav_raw 60 =
     (2, lnav_raw\<lparr>raw_nav := (raw_nav lnav_raw)\<lparr>nav_eph :=
           (nav_eph (raw_nav lnav_raw))(nat (60 - 1) :=
              eph_zero\<lparr>eph_sat := 60, eph_iode := 7, eph_sat := 60\<rparr>)\<rparr>,
         raw_ephsat := 60\<rparr>)"
    by blast
next
  define r where "r = snd (enav_eph rtk_demo lnav_raw 60)"
  have f: "strstr (raw_opt r) ''-GALFNAV'' = None \<and>
      decode_gal_inav rtk_demo (raw_subfrm r (nat (60 - 1))) eph_zero
        = (1, eph_zero\<lparr>eph_sat := 60, eph_iode := 7\<rparr>) \<and> (1::int) \<noteq> 0 \<and>
      eph_sat (eph_zero\<lparr>eph_sat := 60, eph_iode := 7\<rparr>) = 60"
    unfolding r_def by code_simp
  have c: "strstr (raw_opt r) ''-EPHALL'' = None \<and>
      eph_iode (eph_zero\<lparr>eph_sat := 60, eph_iode := 7\<rparr>)
        = eph_iode (nav_eph (raw_nav r) (nat (60 - 1))) \<and>
      d_is0 (timediff rtk_demo (eph_toe (eph_zero\<lparr>eph_sat := 60, eph_iode := 7\<rparr>))
               (eph_toe (nav_eph (raw_nav r) (nat (60 - 1))))) \<and>
      d_is0 (timediff rtk_demo (eph_toc (eph_zero\<lparr>eph_sat := 60, eph_iode := 7\<rparr>))
               (eph_toc (nav_eph (raw_nav r) (nat (60 - 1)))))"
    unfolding r_def by code_simp
  from ephemeris_replay [where E = rtk_demo and raw = r and sat = 60 and r = 1
      and geph = "eph_zero\<lparr>eph_sat := 60, eph_iode := 7\<rparr>"] f c
  have "enav_eph rtk_demo r 60 = (0, r)" by blast
  then show "enav_eph rtk_demo (snd (enav_eph rtk_demo lnav_raw 60)) 60
     = (0, snd (enav_eph rtk_demo lnav_raw 60))" by (simp add: r_def)
next
  define r where "r = enav_raw 0x00 0x80 0 0x7E"
  define b where "b = swap_words (raw_buff r) (nat (6 + 8)) 8"
  define sf where "sf = enav_save rtk_demo (raw_subfrm r (nat (60 - 1)))
             (sint (getbitu rtk_demo b 2 6)) b"
  have bv: "b = [0, 0, 0, 0, 0, 0, 0, 0, 0, 0, 0, 0, 0, 0, 0, 0,
                 0x80, 0, 0, 0, 0, 0, 0, 0, 0, 0, 0, 0, 0, 0, 0, 0]"
    unfolding b_def r_def by code_simp
  have l: "44 + 8 \<le> raw_len r" by (simp add: r_def enav_raw_def)
  have h: "getbitu rtk_demo b 1 1 \<noteq> 1 \<and> getbitu rtk_demo (drop 16 b) 1 1 \<noteq> 1 \<and>
    getbitu rtk_demo b 0 1 = 0 \<and> getbitu rtk_demo (drop 16 b) 0 1 = 1 \<and>
    getbitu rtk_demo (drop 16 b) 82 24 = 0 \<and> sint (getbitu rtk_demo b 2 6) = 0"
    unfolding bv by code_simp
  have c: "rtk_crc24q rtk_demo (enav_crc_buff rtk_demo b) 25 = 0"
    by (simp add: rtk_demo_def)
  have g: "sf ! 112 = 0x7F" unfolding sf_def r_def bv by code_simp
  from ephemeris_replay [where E = rtk_demo and raw = r and sat = 60 and off = 8 and sf = sf]
    l h c g sf_def [unfolded b_def] 
  have "decode_enav rtk_demo r 60 8 =
        enav_eph rtk_demo (r\<lparr>raw_subfrm := (raw_subfrm r)(nat (60 - 1) := sf)\<rparr>) 60"
    unfolding b_def [symmetric] by simp
  then show "decode_enav rtk_demo (enav_raw 0x00 0x80 0 0x7E) 60 8 =
     enav_eph rtk_demo ((enav_raw 0x00 0x80 0 0x7E)\<lparr>raw_subfrm :=
        (raw_subfrm (enav_raw 0x00 0x80 0 0x7E))(nat (60 - 1) :=
           enav_save rtk_demo (raw_subfrm (enav_raw 0x00 0x80 0 0x7E) (nat (60 - 1)))
             (sint (getbitu rtk_demo (swap_words (raw_buff (enav_raw 0x00 0x80 0 0x7E)) (nat (6 + 8)) 8) 2 6))
             (swap_words (raw_buff (enav_raw 0x00 0x80 0 0x7E)) (nat (6 + 8)) 8))\<rparr>) 60"
    by (simp add: r_def sf_def b_def)
qed

text \<open>
  Claim C7.  For a Galileo page of sufficient length the checks of \<^verbatim>\<open>decode_enav\<close>
  run in this order: an alert bit in either half (\<open>page1 = 1\<close> or \<open>page2 = 1\<close>) skips
  the page with status 0 and no change of state; otherwise wrong even/odd parts
  (\<open>part1 \<noteq> 0\<close> or \<open>part2 \<noteq> 1\<close>) give \<open>-1\<close>; otherwise a CRC-24Q over the 4 pad bits
  and the 114 + 82 bits of the halves that differs from the trailing CRC gives \<open>-1\<close>.
  The state is unchanged in all three cases.
\<close>

theorem enav_page_checks:
  assumes len: "44 + off \<le> raw_len raw"
    and buff: "buff = swap_words (raw_buff raw) (nat (6 + off)) 8"
  shows
   "(getbitu E buff 1 1 = 1 \<or> getbitu E (drop 16 buff) 1 1 = 1 \<longrightarrow>
       decode_enav E raw sat off = (0, raw)) \<and>
    (getbitu E buff 1 1 \<noteq> 1 \<and> getbitu E (drop 16 buff) 1 1 \<noteq> 1 \<and>
     (getbitu E buff 0 1 \<noteq> 0 \<or> getbitu E (drop 16 buff) 0 1 \<noteq> 1) \<longrightarrow>
       decode_enav E raw sat off = (-1, raw)) \<and>
    (getbitu E buff 1 1 \<noteq> 1 \<and> getbitu E (drop 16 buff) 1 1 \<noteq> 1 \<and>
     getbitu E buff 0 1 = 0 \<and> getbitu E (drop 16 buff) 0 1 = 1 \<and>
     rtk_crc24q E (enav_crc_buff E buff) 25 \<noteq> getbitu E (drop 16 buff) 82 24 \<longrightarrow>
       decode_enav E raw sat off = (-1, raw))"
  using len by (simp add: decode_enav_def Let_def buff)


theorem enav_page_checks_witness:
  "decode_enav rtk_demo (enav_raw 0x40 0x80 0 0) 60 8 = (0, enav_raw 0x40 0x80 0 0) \<and>
   decode_enav rtk_demo (enav_raw 0x80 0x80 0 0) 60 8 = (-1, enav_raw 0x80 0x80 0 0) \<and>
   decode_enav rtk_demo (enav_raw 0x00 0x80 0x20 0) 60 8 = (-1, enav_raw 0x00 0x80 0x20 0)"
proof (intro conjI)
  have l: "44 + 8 \<le> raw_len (enav_raw 0x40 0x80 0 0)" by (simp add: enav_raw_def)
  have p: "getbitu rtk_demo (swap_words (raw_buff (enav_raw 0x40 0x80 0 0)) (nat (6 + 8)) 8) 1 1 = 1"
    by code_simp
  from enav_page_checks [OF l refl, of rtk_demo 60] p
  show "decode_enav rtk_demo (enav_raw 0x40 0x80 0 0) 60 8 = (0, enav_raw 0x40 0x80 0 0)"
    by blast
next
  have l: "44 + 8 \<le> raw_len (enav_raw 0x80 0x80 0 0)" by (simp add: enav_raw_def)
  have p: "getbitu rtk_demo (swap_words (raw_buff (enav_raw 0x80 0x80 0 0)) (nat (6 + 8)) 8) 1 1 \<noteq> 1 \<and>
      getbitu rtk_demo (drop 16 (swap_words (raw_buff (enav_raw 0x80 0x80 0 0)) (nat (6 + 8)) 8)) 1 1 \<noteq> 1 \<and>
      getbitu rtk_demo (swap_words (raw_buff (enav_raw 0x80 0x80 0 0)) (nat (6 + 8)) 8) 0 1 \<noteq> 0"
    by code_simp
  from enav_page_checks [OF l refl, of rtk_demo 60] p
  show "decode_enav rtk_demo (enav_raw 0x80 0x80 0 0) 60 8 = (-1, enav_raw 0x80 0x80 0 0)"
    by blast
next
  define r where "r = enav_raw 0x00 0x80 0x20 0"
  have l: "44 + 8 \<le> raw_len r" by (simp add: r_def enav_raw_def)
  have p: "getbitu rtk_demo (swap_words (raw_buff r) (nat (6 + 8)) 8) 1 1 \<noteq> 1 \<and>
      getbitu rtk_demo (drop 16 (swap_words (raw_buff r) (nat (6 + 8)) 8)) 1 1 \<noteq> 1 \<and>
      getbitu rtk_demo (swap_words (raw_buff r) (nat (6 + 8)) 8) 0 1 = 0 \<and>
      getbitu rtk_demo (drop 16 (swap_words (raw_buff r) (nat (6 + 8)) 8)) 0 1 = 1 \<and>
      getbitu rtk_demo (drop 16 (swap_words (raw_buff r) (nat (6 + 8)) 8)) 82 24 \<noteq> 0"
    unfolding r_def by code_simp
  have c: "rtk_crc24q rtk_demo (enav_crc_buff rtk_demo (swap_words (raw_buff r) (nat (6 + 8)) 8)) 25 = 0"
    by (simp add: rtk_demo_def)
  from enav_page_checks [OF l refl, of rtk_demo 60] p c
  have "decode_enav rtk_demo r 60 8 = (-1, r)" by metis
  then show "decode_enav rtk_demo (enav_raw 0x00 0x80 0x20 0) 60 8 = (-1, enav_raw 0x00 0x80 0x20 0)"
    by (simp add: r_def)
qed

text \<open>
  Claim C9.  For a GLONASS string that \<^verbatim>\<open>decode_gnav\<close> accepts (length sufficient,
  Hamming test passed, string number \<open>m\<close> in 1..15), with \<open>sf\<close> the frame buffer of
  the satellite before and \<open>sf'\<close> after: if bytes 12-13 of the string differ from the
  frame id at offsets 150-151, then offsets 0..39 hold zeros except where the incoming
  string was stored and the new frame id is at 150-151; if the frame id is the same,
  every byte outside the slot of the incoming string is as before.  In both cases the
  ten bytes of the string are at offset \<open>(m-1)*10\<close> and the bytes from 40 on, the id
  and the slot apart, are as before.
\<close>

theorem gnav_frame_id:
  assumes len: "24 + off \<le> raw_len raw"
    and buff: "buff = swap_words (raw_buff raw) (nat (6 + off)) 4"
    and ham: "test_glostr E buff \<noteq> 0"
    and m: "m = sint (getbitu E buff 1 4)" "1 \<le> m" "m \<le> 15"
    and sf: "sf = raw_subfrm raw (nat (sat - 1))" "152 \<le> length sf"
    and sf': "sf' = raw_subfrm (snd (decode_gnav E raw sat off frq)) (nat (sat - 1))"
    and k: "k = nat ((m - 1) * 10)"
  shows
   "(sf ! 150 \<noteq> buff ! 12 \<or> sf ! 151 \<noteq> buff ! 13 \<longrightarrow>
       (\<forall>i<40. sf' ! i = (if k \<le> i \<and> i < k + 10 then buff ! (i - k) else 0)) \<and>
       sf' ! 150 = buff ! 12 \<and> sf' ! 151 = buff ! 13) \<and>
    (sf ! 150 = buff ! 12 \<and> sf ! 151 = buff ! 13 \<longrightarrow>
       (\<forall>i<length sf. \<not> (k \<le> i \<and> i < k + 10) \<longrightarrow> sf' ! i = sf ! i)) \<and>
    (\<forall>i<10. sf' ! (k + i) = buff ! i) \<and>
    (\<forall>i<length sf. 40 \<le> i \<and> \<not> (k \<le> i \<and> i < k + 10) \<and> i \<noteq> 150 \<and> i \<noteq> 151 \<longrightarrow>
       sf' ! i = sf ! i)"
proof -
  have lb: "length buff = 16" by (simp add: buff length_swap_words)
  have e: "sf' = gnav_save sf m buff"
    using decode_gnav_subfrm [of off raw E sat frq] len ham m
    by (simp add: sf' sf buff)
  have kk: "k + 10 \<le> 150" using m by (simp add: k)
  note n = gnav_save_nth [OF sf(2) lb m(2,3), folded k]
  have a: "sf ! 150 \<noteq> buff ! 12 \<or> sf ! 151 \<noteq> buff ! 13 \<longrightarrow>
       (\<forall>i<40. sf' ! i = (if k \<le> i \<and> i < k + 10 then buff ! (i - k) else 0)) \<and>
       sf' ! 150 = buff ! 12 \<and> sf' ! 151 = buff ! 13"
    using n sf(2) kk unfolding e by auto
  have b: "sf ! 150 = buff ! 12 \<and> sf ! 151 = buff ! 13 \<longrightarrow>
       (\<forall>i<length sf. \<not> (k \<le> i \<and> i < k + 10) \<longrightarrow> sf' ! i = sf ! i)"
    using n unfolding e by auto
  have c: "\<forall>i<10. sf' ! (k + i) = buff ! i"
    using n sf(2) kk unfolding e by auto
  have d: "\<forall>i<length sf. 40 \<le> i \<and> \<not> (k \<le> i \<and> i < k + 10) \<and> i \<noteq> 150 \<and> i \<noteq> 151 \<longrightarrow>
       sf' ! i = sf ! i"
    using n unfolding e by auto
  from a b c d show ?thesis by blast
qed

theorem gnav_frame_id_witness:
  "raw_subfrm (snd (decode_gnav rtk_demo (gnav_raw 0xCC 0xDD) 33 8 7)) (nat (33 - 1)) ! 15 = 0 \<and>
   raw_subfrm (snd (decode_gnav rtk_demo (gnav_raw 0xCC 0xDD) 33 8 7)) (nat (33 - 1)) ! 150 = 0xCC \<and>
   raw_subfrm (snd (decode_gnav rtk_demo (gnav_raw 0xCC 0xDD) 33 8 7)) (nat (33 - 1)) ! 151 = 0xDD \<and>
   raw_subfrm (snd (decode_gnav rtk_demo (gnav_raw 0xCC 0xDD) 33 8 7)) (nat (33 - 1)) ! 0 = 0x08 \<and>
   raw_subfrm (snd (decode_gnav rtk_demo (gnav_raw 0xAA 0xBB) 33 8 7)) (nat (33 - 1)) ! 15 = 1"
proof -
  define r where "r = gnav_raw 0xCC 0xDD"
  define b where "b = swap_words (raw_buff r) (nat (6 + 8)) 4"
  have bv: "b = [0x08, 0, 0, 0, 0, 0, 0, 0, 0, 0, 0, 0, 0xCC, 0xDD, 0, 0]"
    unfolding b_def r_def by code_simp
  have l: "24 + 8 \<le> raw_len r" by (simp add: r_def gnav_raw_def)
  have h: "test_glostr rtk_demo b \<noteq> 0" by (simp add: rtk_demo_def)
  have m: "1 = sint (getbitu rtk_demo b 1 4)" unfolding bv by code_simp
  have s: "152 \<le> length (raw_subfrm r (nat (33 - 1)))" by (simp add: r_def gnav_raw_def)
  have d: "raw_subfrm r (nat (33 - 1)) ! 150 \<noteq> b ! 12" by (simp add: r_def gnav_raw_def bv)
  note t = gnav_frame_id [where E = rtk_demo and raw = r and off = 8 and buff = b and m = 1
      and sat = 33 and frq = 7, OF l b_def h m _ _ refl s refl refl]
  from t d
  have 1: "(\<forall>i<40. raw_subfrm (snd (decode_gnav rtk_demo r 33 8 7)) (nat (33 - 1)) ! i =
        (if nat ((1 - 1) * 10) \<le> i \<and> i < nat ((1 - 1) * 10) + 10
         then b ! (i - nat ((1 - 1) * 10)) else 0)) \<and>
      raw_subfrm (snd (decode_gnav rtk_demo r 33 8 7)) (nat (33 - 1)) ! 150 = b ! 12 \<and>
      raw_subfrm (snd (decode_gnav rtk_demo r 33 8 7)) (nat (33 - 1)) ! 151 = b ! 13"
    by simp
  then have 2: "raw_subfrm (snd (decode_gnav rtk_demo r 33 8 7)) (nat (33 - 1)) ! 15 = 0"
    "raw_subfrm (snd (decode_gnav rtk_demo r 33 8 7)) (nat (33 - 1)) ! 0 = b ! 0"
    by simp_all
  define r' where "r' = gnav_raw 0xAA 0xBB"
  define b' where "b' = swap_words (raw_buff r') (nat (6 + 8)) 4"
  have bv': "b' = [0x08, 0, 0, 0, 0, 0, 0, 0, 0, 0, 0, 0, 0xAA, 0xBB, 0, 0]"
    unfolding b'_def r'_def by code_simp
  have l': "24 + 8 \<le> raw_len r'" by (simp add: r'_def gnav_raw_def)
  have h': "test_glostr rtk_demo b' \<noteq> 0" by (simp add: rtk_demo_def)
  have m': "1 = sint (getbitu rtk_demo b' 1 4)" unfolding bv' by code_simp
  have s': "152 \<le> length (raw_subfrm r' (nat (33 - 1)))" by (simp add: r'_def gnav_raw_def)
  have d': "raw_subfrm r' (nat (33 - 1)) ! 150 = b' ! 12 \<and> raw_subfrm r' (nat (33 - 1)) ! 151 = b' ! 13"
    by (simp add: r'_def gnav_raw_def bv')
  have o: "raw_subfrm r' (nat (33 - 1)) ! 15 = 1" "15 < length (raw_subfrm r' (nat (33 - 1)))"
    by (simp_all add: r'_def gnav_raw_def)
  note t' = gnav_frame_id [where E = rtk_demo and raw = r' and off = 8 and buff = b' and m = 1
      and sat = 33 and frq = 7, OF l' b'_def h' m' _ _ refl s' refl refl]
  from t' d'
  have "\<forall>i<length (raw_subfrm r' (nat (33 - 1))).
      \<not> (nat ((1 - 1) * 10) \<le> i \<and> i < nat ((1 - 1) * 10) + 10) \<longrightarrow>
      raw_subfrm (snd (decode_gnav rtk_demo r' 33 8 7)) (nat (33 - 1)) ! i
        = raw_subfrm r' (nat (33 - 1)) ! i"
    by simp
  with o have 3: "raw_subfrm (snd (decode_gnav rtk_demo r' 33 8 7)) (nat (33 - 1)) ! 15 = 1"
    by simp
  from 1 2 3 bv show ?thesis by (simp add: r_def r'_def)
qed

subsection \<open>Tracking decoders\<close>

text \<open>
  Claim C10, as the code has it.  When \<^verbatim>\<open>raw->time.time\<close> is 0, \<^verbatim>\<open>decode_trkmeas\<close>
  and \<^verbatim>\<open>decode_trkd5\<close> return 0 before anything else is read: no observation is
  produced and the state is unchanged, except that the message-type text has been
  rewritten when \<^verbatim>\<open>outtype\<close> is set.
\<close>

theorem trk_no_time:
  "(gt_time (raw_time raw) = 0 \<longrightarrow>
      decode_trkmeas E raw =
        (0, if raw_outtype raw \<noteq> 0 then raw\<lparr>raw_msgtype := MSG_TRKMEAS (raw_len raw)\<rparr> else raw) \<and>
      decode_trkd5 E raw =
        (0, if raw_outtype raw \<noteq> 0 then raw\<lparr>raw_msgtype := MSG_TRKD5 (raw_len raw)\<rparr> else raw) \<and>
      raw_obs (snd (decode_trkmeas E raw)) = raw_obs raw \<and>
      raw_obs (snd (decode_trkd5 E raw)) = raw_obs raw) \<and>
   (gt_time (raw_time raw) = 0 \<and> raw_outtype raw = 0 \<longrightarrow>
      decode_trkmeas E raw = (0, raw) \<and> decode_trkd5 E raw = (0, raw))"
  by (simp add: decode_trkmeas_def decode_trkd5_def Let_def)


theorem trk_no_time_witness:
  "gt_time (raw_time trk_raw) = 0 \<and>
   decode_trkmeas rtk_demo trk_raw = (0, trk_raw\<lparr>raw_msgtype := MSG_TRKMEAS 120\<rparr>) \<and>
   decode_trkd5 rtk_demo trk_raw = (0, trk_raw\<lparr>raw_msgtype := MSG_TRKD5 120\<rparr>) \<and>
   decode_trkmeas rtk_demo (raw_zero 0 0 0 0) = (0, raw_zero 0 0 0 0) \<and>
   decode_trkd5 rtk_demo (raw_zero 0 0 0 0) = (0, raw_zero 0 0 0 0)"
proof -
  have a: "gt_time (raw_time trk_raw) = 0" "raw_outtype trk_raw \<noteq> 0" "raw_len trk_raw = 120"
    by (simp_all add: trk_raw_def raw_zero_def gtime_zero_def)
  have b: "gt_time (raw_time (raw_zero 0 0 0 0)) = 0 \<and> raw_outtype (raw_zero 0 0 0 0) = 0"
    by (simp add: raw_zero_def gtime_zero_def)
  from trk_no_time [of trk_raw rtk_demo] a
  have 1: "decode_trkmeas rtk_demo trk_raw = (0, trk_raw\<lparr>raw_msgtype := MSG_TRKMEAS 120\<rparr>)"
    "decode_trkd5 rtk_demo trk_raw = (0, trk_raw\<lparr>raw_msgtype := MSG_TRKD5 120\<rparr>)"
    by simp_all
  from trk_no_time [of "raw_zero 0 0 0 0" rtk_demo] b
  have 2: "decode_trkmeas rtk_demo (raw_zero 0 0 0 0) = (0, raw_zero 0 0 0 0)"
    "decode_trkd5 rtk_demo (raw_zero 0 0 0 0) = (0, raw_zero 0 0 0 0)"
    by blast+
  from a 1 2 show ?thesis by simp
qed

text \<open>
  The claim as stated fails when \<^verbatim>\<open>outtype\<close> is set: the frame is dropped with status
  0, but the state has changed in \<^verbatim>\<open>msgtype\<close>.
\<close>

theorem trk_no_time_counterexample:
  "gt_time (raw_time trk_raw) = 0 \<and>
   fst (decode_trkmeas rtk_demo trk_raw) = 0 \<and>
   raw_msgtype trk_raw = MSG_EMPTY \<and>
   raw_msgtype (snd (decode_trkmeas rtk_demo trk_raw)) = MSG_TRKMEAS 120 \<and>
   snd (decode_trkmeas rtk_demo trk_raw) \<noteq> trk_raw"
proof -
  have a: "gt_time (raw_time trk_raw) = 0" "raw_msgtype trk_raw = MSG_EMPTY"
    by (simp_all add: trk_raw_def raw_zero_def gtime_zero_def)
  have b: "fst (decode_trkmeas rtk_demo trk_raw) = 0"
    "raw_msgtype (snd (decode_trkmeas rtk_demo trk_raw)) = MSG_TRKMEAS 120"
    by (simp_all add: decode_trkmeas_def Let_def trk_raw_def raw_zero_def gtime_zero_def)
  have "snd (decode_trkmeas rtk_demo trk_raw) \<noteq> trk_raw"
  proof
    assume "snd (decode_trkmeas rtk_demo trk_raw) = trk_raw"
    then have "raw_msgtype (snd (decode_trkmeas rtk_demo trk_raw)) = raw_msgtype trk_raw"
      by simp
    with a b show False by simp
  qed
  with a b show ?thesis by simp
qed

subsection \<open>Outbound generator\<close>

lemma gen_fields_Some:
  "length row = 32 \<Longrightarrow> row ! 31 = F0 \<Longrightarrow> narg \<le> 32 \<Longrightarrow> 1 \<le> j \<Longrightarrow> j \<le> 32 \<Longrightarrow>
   \<exists>j' q'. gen_fields C row args narg j q = Some (j', q') \<and> length q \<le> length q'"
proof (induction C row args narg j q rule: gen_fields.induct)
  case (1 C row args narg j q)
  show ?case
  proof (cases "row ! (j - 1) \<noteq> F0 \<or> j < narg")
    case True
    with "1.prems" have j31: "j + 1 \<le> 32"
      by (cases "j = 32") auto
    have nz: "\<not> (j = 0 \<or> length row < j)" using "1.prems" by simp
    from "1.IH" [OF nz True "1.prems"(1,2,3) _ j31]
    obtain j' q' where r: "gen_fields C row args narg (j + 1)
          (q @ gen_field C (row ! (j - 1)) (if j < narg then Some (args ! j) else None)) = Some (j', q')"
      and l: "length (q @ gen_field C (row ! (j - 1)) (if j < narg then Some (args ! j) else None)) \<le> length q'"
      by auto
    show ?thesis
      apply (subst gen_fields.simps)
      using nz True r l by auto
  next
    case False
    then show ?thesis using "1.prems"
      by (subst gen_fields.simps) auto
  qed
qed

lemma find_cmd_Some:
  "find_cmd cs name k = Some i \<Longrightarrow> k \<le> i \<and> i < k + length cs \<and> cs ! (i - k) = name \<and> name \<noteq> []"
proof (induction cs arbitrary: k)
  case Nil
  then show ?case by simp
next
  case (Cons c cs)
  show ?case
  proof (cases "c = [] \<or> name = c")
    case True
    then show ?thesis using Cons.prems by (auto split: if_splits)
  next
    case False
    with Cons.prems have "find_cmd cs name (k + 1) = Some i" by simp
    from Cons.IH [OF this] have a: "k + 1 \<le> i" "i < k + 1 + length cs"
      "cs ! (i - (k + 1)) = name" "name \<noteq> []" by auto
    from a(1) have "i - k = Suc (i - (k + 1))" by simp
    then have "(c # cs) ! (i - k) = cs ! (i - (k + 1))" by simp
    with a show ?thesis by simp
  qed
qed

lemma find_cmd_None:
  "find_cmd cs name k = None \<longleftrightarrow> name \<notin> set (takeWhile (\<lambda>c. c \<noteq> []) cs)"
  by (induction cs arbitrary: k) auto

lemma prm_rows: "\<forall>row \<in> set prm. length row = 32 \<and> row ! 31 = F0"
  by (simp add: prm_def row32_def)

lemma length_prm: "length prm = 35"
  by (simp add: prm_def)

lemma length_cmd: "length cmd = 36" "cmd ! 35 = []" "cmd ! 34 = ''VALSET''"
  by (simp_all add: cmd_def)

lemma find_cmd_cmd: 
  assumes "find_cmd cmd name 0 = Some i"
  shows  "i < 35"
proof -
  from find_cmd_Some [OF assms] have "i < 36" "cmd ! i = name" "name \<noteq> []"
    by (simp_all add: length_cmd)
  then show ?thesis using length_cmd(2) by (cases "i = 35") auto
qed

lemma find_cmd_VALSET: "find_cmd cmd ''VALSET'' 0 = Some 34"
  by (simp add: cmd_def)

lemma find_cmd_34: "find_cmd cmd name 0 = Some 34 \<Longrightarrow> name = ''VALSET''"
  using find_cmd_Some [of cmd name 0 34] length_cmd by simp



lemma length_setcs: "length (setcs b n) = length b"
  by (simp add: setcs_def)

lemma gen_finish_ok:
  assumes "6 \<le> length q" and "gen_finish q = (n, b)"
  shows "n = int (length b) \<and> 8 \<le> n \<and> checksum b n"
proof -
  define b0 where "b0 = (q @ [0, 0])[4 := setU2 (word_of_int (int (length q) + 2 - 8)) ! 0,
     5 := setU2 (word_of_int (int (length q) + 2 - 8)) ! 1]"
  have e: "gen_finish q = (int (length q) + 2, setcs b0 (int (length q) + 2))"
    unfolding gen_finish_def Let_def b0_def by (rule refl)
  have n: "n = int (length q) + 2" and b: "b = setcs b0 n"
    using assms(2) unfolding e by auto
  have l: "int (length b0) = n" by (simp add: b0_def n)
  have "checksum (setcs b0 n) n"
    by (rule checksum_setcs) (use assms(1) n l in simp_all)
  then show ?thesis using b n l assms(1) by (simp add: length_setcs)
qed

lemma prm_34: "prm ! 34 = row32 [FU1, FU1, FU1, FU1]"
  by (simp add: prm_def)

lemma valset_fields:
  "\<exists>q'. gen_fields C (row32 [FU1, FU1, FU1, FU1]) args 5 1 q = Some (5, q') \<and> length q \<le> length q'"
  by (simp add: gen_fields.simps row32_def)

lemma gen_fields_prm:
  assumes "i < 35" "narg \<le> 32"
  shows "\<exists>j' q'. gen_fields C (prm ! i) args narg 1 q = Some (j', q') \<and> length q \<le> length q'"
proof -
  have "prm ! i \<in> set prm" using assms(1) by (simp add: length_prm)
  with prm_rows have "length (prm ! i) = 32" "prm ! i ! 31 = F0" by auto
  then show ?thesis using assms(2) by (intro gen_fields_Some) simp_all
qed


lemma gen_ubx_args:
  assumes "length (takeWhile (\<lambda>c. c \<noteq> CHR 0x00) msg) < 1024"
    and "args = take 32 (strtok_all [] (takeWhile (\<lambda>c. c \<noteq> CHR 0x00) msg))"
  shows "gen_ubx C msg =
        (if length args < 1 \<or> take 4 (args ! 0) \<noteq> ''CFG-'' then Some (0, [])
        else
          (case find_cmd cmd (drop 4 (args ! 0)) 0 of
             None \<Rightarrow> Some (0, [])
           | Some i \<Rightarrow>
               if i = 34 \<and> length args \<noteq> 7
               then Some (0, take 4 [UBXSYNC1, UBXSYNC2, UBXCFG, id_ubx ! i, 0, 0])
               else
                 (case gen_fields C (prm ! i) args (if i = 34 then length args - 2 else length args) 1
                         [UBXSYNC1, UBXSYNC2, UBXCFG, id_ubx ! i, 0, 0] of
                    None \<Rightarrow> None
                  | Some (j, q1) \<Rightarrow>
                      if i = 34 then
                        (if take 4 (args ! j) \<noteq> ''CFG-'' then Some (0, q1)
                         else
                           (case find_cmd vcmd (drop 4 (args ! j)) 0 of
                              None \<Rightarrow> Some (0, q1)
                            | Some k \<Rightarrow>
                                Some (gen_finish (q1 @ setU4 (vid ! k) @
                                  gen_field C (vprm ! k) (Some (args ! (j + 1)))))))
                      else Some (gen_finish q1))))"
  using assms(1) unfolding gen_ubx_def Let_def assms(2) [symmetric] by simp

lemma gen_ubx_frame:
  assumes "gen_ubx C msg = Some (n, b)" and "n \<noteq> 0"
  shows "n = int (length b) \<and> 8 \<le> n \<and> checksum b n"
proof -
  define args where "args = take 32 (strtok_all [] (takeWhile (\<lambda>c. c \<noteq> CHR 0x00) msg))"
  have len: "length (takeWhile (\<lambda>c. c \<noteq> CHR 0x00) msg) < 1024"
    using assms(1) by (auto simp: gen_ubx_def Let_def split: if_splits)
  have narg: "length args \<le> 32" by (simp add: args_def)
  note u = gen_ubx_args [OF len args_def, of C]
  from assms u obtain i where i: "find_cmd cmd (drop 4 (args ! 0)) 0 = Some i"
    by (auto split: if_splits option.splits)
  then have i35: "i < 35" by (rule find_cmd_cmd)
  define q where "q = [UBXSYNC1, UBXSYNC2, UBXCFG, id_ubx ! i, 0, 0]"
  obtain j q1 where g: "gen_fields C (prm ! i) args (if i = 34 then length args - 2 else length args) 1 q
       = Some (j, q1)" and l: "length q \<le> length q1"
  proof -
    have "(if i = 34 then length args - 2 else length args) \<le> 32" using narg by auto
    from gen_fields_prm [OF i35 this, of C args q] that show ?thesis by blast
  qed
  have l6: "6 \<le> length q1" using l by (simp add: q_def)
  show ?thesis
  proof (cases "i = 34")
    case True
    with assms u i obtain k where
      "gen_finish (q1 @ setU4 (vid ! k) @ gen_field C (vprm ! k) (Some (args ! (j + 1)))) = (n, b)"
      using g [unfolded q_def] by (auto split: if_splits option.splits)
    then show ?thesis by (rule gen_finish_ok [rotated]) (use l6 in simp)
  next
    case False
    with assms u i g [unfolded q_def] have "gen_finish q1 = (n, b)"
      by (auto split: if_splits option.splits)
    then show ?thesis by (rule gen_finish_ok [OF l6])
  qed
qed

lemma cs_step_mod:
  "unat (fst (cs_step buff i (a, b))) = (unat a + unat (buff ! i)) mod 256 \<and>
   unat (snd (cs_step buff i (a, b))) = (unat b + unat (fst (cs_step buff i (a, b)))) mod 256"
  by (simp add: cs_step_def unat_word_ariths)

text \<open>
  Claim C2.  The checksum bytes are computed by the loop over \<open>buff[2 .. len-3]\<close> with
  \<open>a = (a + x) mod 256\<close>, \<open>b = (b + a) mod 256\<close> from \<open>a = b = 0\<close>, and stored by
  \<^verbatim>\<open>setcs\<close> at \<open>len-2\<close> and \<open>len-1\<close>.  For every buffer holding at least
  \<open>len \<ge> 4\<close> bytes, \<^verbatim>\<open>checksum\<close> succeeds on the buffer that \<^verbatim>\<open>setcs\<close> wrote;
  and every frame that \<^verbatim>\<open>gen_ubx\<close> returns with a nonzero length is as long as the
  returned length and passes \<^verbatim>\<open>checksum\<close>.
\<close>

theorem checksum_setcs_gen_ubx:
  "(cs_loop buff len = fold (cs_step buff) [2 ..< nat (len - 2)] (0, 0) \<and>
    unat (fst (cs_step buff i (a, b))) = (unat a + unat (buff ! i)) mod 256 \<and>
    unat (snd (cs_step buff i (a, b))) = (unat b + unat (fst (cs_step buff i (a, b)))) mod 256) \<and>
   (4 \<le> len \<and> len \<le> int (length buff) \<longrightarrow>
      setcs buff len ! nat (len - 2) = fst (cs_loop buff len) \<and>
      setcs buff len ! nat (len - 1) = snd (cs_loop buff len) \<and>
      checksum (setcs buff len) len) \<and>
   (gen_ubx C msg = Some (n, frame) \<and> n \<noteq> 0 \<longrightarrow>
      n = int (length frame) \<and> checksum frame n)"
proof (intro conjI impI)
  show "cs_loop buff len = fold (cs_step buff) [2 ..< nat (len - 2)] (0, 0)"
    by (simp add: cs_loop_def)
  show "unat (fst (cs_step buff i (a, b))) = (unat a + unat (buff ! i)) mod 256"
    "unat (snd (cs_step buff i (a, b))) = (unat b + unat (fst (cs_step buff i (a, b)))) mod 256"
    using cs_step_mod [of buff i a b] by simp_all
next
  assume h: "4 \<le> len \<and> len \<le> int (length buff)"
  then have lt: "nat (len - 2) < length buff" "nat (len - 1) < length buff"
    and ne: "nat (len - 2) \<noteq> nat (len - 1)" by linarith+
  show "setcs buff len ! nat (len - 2) = fst (cs_loop buff len)"
    using lt ne by (simp add: setcs_def)
  show "setcs buff len ! nat (len - 1) = snd (cs_loop buff len)"
    using lt by (simp add: setcs_def)
  show "checksum (setcs buff len) len"
    using h by (intro checksum_setcs) simp_all
next
  assume "gen_ubx C msg = Some (n, frame) \<and> n \<noteq> 0"
  then have "gen_ubx C msg = Some (n, frame)" "n \<noteq> 0" by simp_all
  then have "n = int (length frame) \<and> 8 \<le> n \<and> checksum frame n"
    by (rule gen_ubx_frame)
  then show "n = int (length frame)" "checksum frame n" by blast+
qed

theorem checksum_setcs_gen_ubx_witness:
  "(4 \<le> (8::int) \<and> (8::int) \<le> int (length [0xB5, 0x62, 0x06, 0x00, 0x00, 0x00, 0x55, 0xAA :: byte])) \<and>
   checksum (setcs [0xB5, 0x62, 0x06, 0x00, 0x00, 0x00, 0x55, 0xAA] 8) 8 \<and>
   gen_ubx libc_dec ''CFG-RATE 1000 1 1'' =
     Some (14, [0xB5, 0x62, 0x06, 0x08, 0x06, 0x00, 0xE8, 0x03, 0x01, 0x00, 0x01, 0x00, 0x01, 0x39]) \<and>
   checksum [0xB5, 0x62, 0x06, 0x08, 0x06, 0x00, 0xE8, 0x03, 0x01, 0x00, 0x01, 0x00, 0x01, 0x39] 14"
proof -
  have h: "4 \<le> (8::int) \<and> (8::int) \<le> int (length [0xB5, 0x62, 0x06, 0x00, 0x00, 0x00, 0x55, 0xAA :: byte])"
    by simp
  have g: "gen_ubx libc_dec ''CFG-RATE 1000 1 1'' =
     Some (14, [0xB5, 0x62, 0x06, 0x08, 0x06, 0x00, 0xE8, 0x03, 0x01, 0x00, 0x01, 0x00, 0x01, 0x39])"
    by code_simp
  from checksum_setcs_gen_ubx [of "[0xB5, 0x62, 0x06, 0x00, 0x00, 0x00, 0x55, 0xAA]" 8 0 0 0
      libc_dec "''CFG-RATE 1000 1 1''" 14
      "[0xB5, 0x62, 0x06, 0x08, 0x06, 0x00, 0xE8, 0x03, 0x01, 0x00, 0x01, 0x00, 0x01, 0x39]"] h g
  show ?thesis by simp
qed

text \<open>
  Claim C8, as the code has it.  \<^verbatim>\<open>gen_ubx\<close> returns 0, with nothing written, when there
  is no token, when the first token does not begin with \<^verbatim>\<open>CFG-\<close> or when the name after
  \<^verbatim>\<open>CFG-\<close> is not in the catalog \<^verbatim>\<open>cmd\<close>.  For \<^verbatim>\<open>CFG-VALSET\<close> it returns 0 when
  the token count is not 7, and also when the count is 7 but the sixth token is not
  \<^verbatim>\<open>CFG-\<close> followed by a key of the catalog \<^verbatim>\<open>vcmd\<close>.  For \<^verbatim>\<open>CFG-VALSET\<close> with 7
  tokens and a known key, and for every other command of the catalog, it returns the
  positive number of bytes of the frame it wrote.  (The message fits \<^verbatim>\<open>mbuff\<close>; tokens
  beyond the 32nd are not read.)
\<close>

theorem gen_ubx_status:
  assumes len: "length (takeWhile (\<lambda>c. c \<noteq> CHR 0x00) msg) < 1024"
    and args: "args = take 32 (strtok_all [] (takeWhile (\<lambda>c. c \<noteq> CHR 0x00) msg))"
  shows
   "(args = [] \<or> take 4 (args ! 0) \<noteq> ''CFG-'' \<or>
       drop 4 (args ! 0) \<notin> set (takeWhile (\<lambda>c. c \<noteq> []) cmd)
       \<longrightarrow> gen_ubx C msg = Some (0, [])) \<and>
    (args \<noteq> [] \<and> args ! 0 = ''CFG-VALSET'' \<and> length args \<noteq> 7
       \<longrightarrow> (\<exists>b. gen_ubx C msg = Some (0, b))) \<and>
    (args \<noteq> [] \<and> args ! 0 = ''CFG-VALSET'' \<and> length args = 7 \<and>
       (take 4 (args ! 5) \<noteq> ''CFG-'' \<or>
        drop 4 (args ! 5) \<notin> set (takeWhile (\<lambda>c. c \<noteq> []) vcmd))
       \<longrightarrow> (\<exists>b. gen_ubx C msg = Some (0, b))) \<and>
    (args \<noteq> [] \<and> args ! 0 = ''CFG-VALSET'' \<and> length args = 7 \<and>
       take 4 (args ! 5) = ''CFG-'' \<and>
       drop 4 (args ! 5) \<in> set (takeWhile (\<lambda>c. c \<noteq> []) vcmd)
       \<longrightarrow> (\<exists>n b. gen_ubx C msg = Some (n, b) \<and> 0 < n \<and> n = int (length b))) \<and>
    (args \<noteq> [] \<and> take 4 (args ! 0) = ''CFG-'' \<and>
       drop 4 (args ! 0) \<in> set (takeWhile (\<lambda>c. c \<noteq> []) cmd) \<and> args ! 0 \<noteq> ''CFG-VALSET''
       \<longrightarrow> (\<exists>n b. gen_ubx C msg = Some (n, b) \<and> 0 < n \<and> n = int (length b)))"
proof -
  note u = gen_ubx_args [OF len args, of C]
  have narg: "length args \<le> 32" by (simp add: args)
  have pos: "\<exists>n b. gen_ubx C msg = Some (n, b) \<and> 0 < n \<and> n = int (length b)"
    if "gen_ubx C msg = Some (gen_finish q)" "6 \<le> length q" for q
  proof -
    obtain n b where nb: "gen_finish q = (n, b)" by (cases "gen_finish q")
    from gen_finish_ok [OF that(2) nb] that(1) nb show ?thesis by auto
  qed
  have valset: "\<exists>q1. gen_fields C (prm ! 34) args (length args - 2) 1
       [UBXSYNC1, UBXSYNC2, UBXCFG, id_ubx ! 34, 0, 0] = Some (5, q1) \<and> 6 \<le> length q1"
    if "length args = 7"
    using valset_fields [of C args "[UBXSYNC1, UBXSYNC2, UBXCFG, id_ubx ! 34, 0, 0]"] that
    by (auto simp: prm_34)
  have c1: "args = [] \<or> take 4 (args ! 0) \<noteq> ''CFG-'' \<or>
       drop 4 (args ! 0) \<notin> set (takeWhile (\<lambda>c. c \<noteq> []) cmd)
       \<longrightarrow> gen_ubx C msg = Some (0, [])"
  proof (intro impI)
    assume "args = [] \<or> take 4 (args ! 0) \<noteq> ''CFG-'' \<or>
       drop 4 (args ! 0) \<notin> set (takeWhile (\<lambda>c. c \<noteq> []) cmd)"
    then have "args = [] \<or> take 4 (args ! 0) \<noteq> ''CFG-'' \<or>
       find_cmd cmd (drop 4 (args ! 0)) 0 = None" by (simp add: find_cmd_None)
    then show "gen_ubx C msg = Some (0, [])" using u by auto
  qed
  have vs: "find_cmd cmd (drop 4 (args ! 0)) 0 = Some 34 \<and> take 4 (args ! 0) = ''CFG-''"
    if "args ! 0 = ''CFG-VALSET''"
    using that find_cmd_VALSET by simp
  have c2: "args \<noteq> [] \<and> args ! 0 = ''CFG-VALSET'' \<and> length args \<noteq> 7
       \<longrightarrow> (\<exists>b. gen_ubx C msg = Some (0, b))"
    using u vs by auto
  have c3: "args \<noteq> [] \<and> args ! 0 = ''CFG-VALSET'' \<and> length args = 7 \<and>
       (take 4 (args ! 5) \<noteq> ''CFG-'' \<or>
        drop 4 (args ! 5) \<notin> set (takeWhile (\<lambda>c. c \<noteq> []) vcmd))
       \<longrightarrow> (\<exists>b. gen_ubx C msg = Some (0, b))"
  proof (intro impI, elim conjE)
    assume a: "args \<noteq> []" "args ! 0 = ''CFG-VALSET''" "length args = 7"
      and k: "take 4 (args ! 5) \<noteq> ''CFG-'' \<or>
        drop 4 (args ! 5) \<notin> set (takeWhile (\<lambda>c. c \<noteq> []) vcmd)"
    from valset [OF a(3)] obtain q1 where g: "gen_fields C (prm ! 34) args (length args - 2) 1
       [UBXSYNC1, UBXSYNC2, UBXCFG, id_ubx ! 34, 0, 0] = Some (5, q1)" by blast
    from k have "take 4 (args ! 5) \<noteq> ''CFG-'' \<or> find_cmd vcmd (drop 4 (args ! 5)) 0 = None"
      by (simp add: find_cmd_None)
    then show "\<exists>b. gen_ubx C msg = Some (0, b)"
      using u vs [OF a(2)] a g by auto
  qed
  have c4: "args \<noteq> [] \<and> args ! 0 = ''CFG-VALSET'' \<and> length args = 7 \<and>
       take 4 (args ! 5) = ''CFG-'' \<and>
       drop 4 (args ! 5) \<in> set (takeWhile (\<lambda>c. c \<noteq> []) vcmd)
       \<longrightarrow> (\<exists>n b. gen_ubx C msg = Some (n, b) \<and> 0 < n \<and> n = int (length b))"
  proof (intro impI, elim conjE)
    assume a: "args \<noteq> []" "args ! 0 = ''CFG-VALSET''" "length args = 7"
      and k: "take 4 (args ! 5) = ''CFG-''"
        "drop 4 (args ! 5) \<in> set (takeWhile (\<lambda>c. c \<noteq> []) vcmd)"
    from valset [OF a(3)] obtain q1 where g: "gen_fields C (prm ! 34) args (length args - 2) 1
       [UBXSYNC1, UBXSYNC2, UBXCFG, id_ubx ! 34, 0, 0] = Some (5, q1)" and l: "6 \<le> length q1"
      by blast
    from k(2) obtain kk where kk: "find_cmd vcmd (drop 4 (args ! 5)) 0 = Some kk"
      using find_cmd_None [of vcmd "drop 4 (args ! 5)" 0] by auto
    have "gen_ubx C msg = Some (gen_finish (q1 @ setU4 (vid ! kk) @
         gen_field C (vprm ! kk) (Some (args ! (5 + 1)))))"
      using u vs [OF a(2)] a g k(1) kk by simp
    then show "\<exists>n b. gen_ubx C msg = Some (n, b) \<and> 0 < n \<and> n = int (length b)"
      by (rule pos) (use l in simp)
  qed
  have c5: "args \<noteq> [] \<and> take 4 (args ! 0) = ''CFG-'' \<and>
       drop 4 (args ! 0) \<in> set (takeWhile (\<lambda>c. c \<noteq> []) cmd) \<and> args ! 0 \<noteq> ''CFG-VALSET''
       \<longrightarrow> (\<exists>n b. gen_ubx C msg = Some (n, b) \<and> 0 < n \<and> n = int (length b))"
  proof (intro impI, elim conjE)
    assume a: "args \<noteq> []" "take 4 (args ! 0) = ''CFG-''"
      "drop 4 (args ! 0) \<in> set (takeWhile (\<lambda>c. c \<noteq> []) cmd)" "args ! 0 \<noteq> ''CFG-VALSET''"
    from a(3) obtain i where i: "find_cmd cmd (drop 4 (args ! 0)) 0 = Some i"
      using find_cmd_None [of cmd "drop 4 (args ! 0)" 0] by auto
    have "args ! 0 = take 4 (args ! 0) @ drop 4 (args ! 0)" by simp
    with a(2,4) have "drop 4 (args ! 0) \<noteq> ''VALSET''" by auto
    with i have i34: "i \<noteq> 34" using find_cmd_34 by blast
    from gen_fields_prm [OF find_cmd_cmd [OF i] narg, of C args "[UBXSYNC1, UBXSYNC2, UBXCFG, id_ubx ! i, 0, 0]"]
    obtain j q1 where g: "gen_fields C (prm ! i) args (length args) 1
        [UBXSYNC1, UBXSYNC2, UBXCFG, id_ubx ! i, 0, 0] = Some (j, q1)" and l: "6 \<le> length q1"
      by auto
    have "gen_ubx C msg = Some (gen_finish q1)"
      using u a i i34 g by simp
    then show "\<exists>n b. gen_ubx C msg = Some (n, b) \<and> 0 < n \<and> n = int (length b)"
      by (rule pos) (rule l)
  qed
  from c1 c2 c3 c4 c5 show ?thesis by blast
qed

theorem gen_ubx_status_witness:
  "gen_ubx libc_dec ''NMEA-GGA 1'' = Some (0, []) \<and>
   gen_ubx libc_dec ''CFG-NOSUCH 1'' = Some (0, []) \<and>
   (\<exists>b. gen_ubx libc_dec ''CFG-VALSET 0 1 0 0'' = Some (0, b)) \<and>
   (\<exists>b. gen_ubx libc_dec ''CFG-VALSET 0 1 0 0 RATE-MEAS 1000'' = Some (0, b)) \<and>
   (\<exists>n b. gen_ubx libc_dec ''CFG-VALSET 0 1 0 0 CFG-GEOFENCE-CONFLVL 1'' = Some (n, b) \<and>
      0 < n \<and> n = int (length b)) \<and>
   (\<exists>n b. gen_ubx libc_dec ''CFG-PRT 1 0 0 0 9600 7 3 0'' = Some (n, b) \<and>
      0 < n \<and> n = int (length b))"
proof (intro conjI)
  have l: "length (takeWhile (\<lambda>c. c \<noteq> CHR 0x00) ''NMEA-GGA 1'') < 1024" by simp
  have a: "[''NMEA-GGA'', ''1''] =
      take 32 (strtok_all [] (takeWhile (\<lambda>c. c \<noteq> CHR 0x00) ''NMEA-GGA 1''))"
    by code_simp
  have p: "take 4 ([''NMEA-GGA'', ''1''] ! 0) \<noteq> ''CFG-''" by simp
  from gen_ubx_status [OF l a, of libc_dec] p
  show "gen_ubx libc_dec ''NMEA-GGA 1'' = Some (0, [])" by blast
next
  have l: "length (takeWhile (\<lambda>c. c \<noteq> CHR 0x00) ''CFG-NOSUCH 1'') < 1024" by simp
  have a: "[''CFG-NOSUCH'', ''1''] =
      take 32 (strtok_all [] (takeWhile (\<lambda>c. c \<noteq> CHR 0x00) ''CFG-NOSUCH 1''))"
    by code_simp
  have p: "drop 4 ([''CFG-NOSUCH'', ''1''] ! 0) \<notin> set (takeWhile (\<lambda>c. c \<noteq> []) cmd)"
    by code_simp
  from gen_ubx_status [OF l a, of libc_dec] p
  show "gen_ubx libc_dec ''CFG-NOSUCH 1'' = Some (0, [])" by blast
next
  have l: "length (takeWhile (\<lambda>c. c \<noteq> CHR 0x00) ''CFG-VALSET 0 1 0 0'') < 1024" by simp
  have a: "[''CFG-VALSET'', ''0'', ''1'', ''0'', ''0''] =
      take 32 (strtok_all [] (takeWhile (\<lambda>c. c \<noteq> CHR 0x00) ''CFG-VALSET 0 1 0 0''))"
    by code_simp
  have p: "[''CFG-VALSET'', ''0'', ''1'', ''0'', ''0''] \<noteq> [] \<and>
      [''CFG-VALSET'', ''0'', ''1'', ''0'', ''0''] ! 0 = ''CFG-VALSET'' \<and>
      length [''CFG-VALSET'', ''0'', ''1'', ''0'', ''0''] \<noteq> 7" by simp
  from gen_ubx_status [OF l a, of libc_dec] p
  show "\<exists>b. gen_ubx libc_dec ''CFG-VALSET 0 1 0 0'' = Some (0, b)" by blast
next
  have l: "length (takeWhile (\<lambda>c. c \<noteq> CHR 0x00) ''CFG-VALSET 0 1 0 0 RATE-MEAS 1000'') < 1024"
    by simp
  have a: "[''CFG-VALSET'', ''0'', ''1'', ''0'', ''0'', ''RATE-MEAS'', ''1000''] =
      take 32 (strtok_all [] (takeWhile (\<lambda>c. c \<noteq> CHR 0x00) ''CFG-VALSET 0 1 0 0 RATE-MEAS 1000''))"
    by code_simp
  have p: "[''CFG-VALSET'', ''0'', ''1'', ''0'', ''0'', ''RATE-MEAS'', ''1000''] \<noteq> [] \<and>
      [''CFG-VALSET'', ''0'', ''1'', ''0'', ''0'', ''RATE-MEAS'', ''1000''] ! 0 = ''CFG-VALSET'' \<and>
      length [''CFG-VALSET'', ''0'', ''1'', ''0'', ''0'', ''RATE-MEAS'', ''1000''] = 7 \<and>
      take 4 ([''CFG-VALSET'', ''0'', ''1'', ''0'', ''0'', ''RATE-MEAS'', ''1000''] ! 5) \<noteq> ''CFG-''"
    by simp
  from gen_ubx_status [OF l a, of libc_dec] p
  show "\<exists>b. gen_ubx libc_dec ''CFG-VALSET 0 1 0 0 RATE-MEAS 1000'' = Some (0, b)" by blast
next
  have l: "length (takeWhile (\<lambda>c. c \<noteq> CHR 0x00) ''CFG-VALSET 0 1 0 0 CFG-GEOFENCE-CONFLVL 1'') < 1024"
    by simp
  have a: "[''CFG-VALSET'', ''0'', ''1'', ''0'', ''0'', ''CFG-GEOFENCE-CONFLVL'', ''1''] =
      take 32 (strtok_all []
        (takeWhile (\<lambda>c. c \<noteq> CHR 0x00) ''CFG-VALSET 0 1 0 0 CFG-GEOFENCE-CONFLVL 1''))"
    by code_simp
  obtain rest where v: "vcmd = ''GEOFENCE-CONFLVL'' # rest"
    by (simp add: vcmd_def)
  have k: "drop 4 ([''CFG-VALSET'', ''0'', ''1'', ''0'', ''0'', ''CFG-GEOFENCE-CONFLVL'', ''1''] ! 5)
      \<in> set (takeWhile (\<lambda>c. c \<noteq> []) vcmd)"
    unfolding v by simp
  have p: "[''CFG-VALSET'', ''0'', ''1'', ''0'', ''0'', ''CFG-GEOFENCE-CONFLVL'', ''1''] \<noteq> [] \<and>
      [''CFG-VALSET'', ''0'', ''1'', ''0'', ''0'', ''CFG-GEOFENCE-CONFLVL'', ''1''] ! 0 = ''CFG-VALSET'' \<and>
      length [''CFG-VALSET'', ''0'', ''1'', ''0'', ''0'', ''CFG-GEOFENCE-CONFLVL'', ''1''] = 7 \<and>
      take 4 ([''CFG-VALSET'', ''0'', ''1'', ''0'', ''0'', ''CFG-GEOFENCE-CONFLVL'', ''1''] ! 5) = ''CFG-''"
    by simp
  from gen_ubx_status [OF l a, of libc_dec] p k
  show "\<exists>n b. gen_ubx libc_dec ''CFG-VALSET 0 1 0 0 CFG-GEOFENCE-CONFLVL 1'' = Some (n, b) \<and>
      0 < n \<and> n = int (length b)" by blast
next
  have l: "length (takeWhile (\<lambda>c. c \<noteq> CHR 0x00) ''CFG-PRT 1 0 0 0 9600 7 3 0'') < 1024" by simp
  have a: "[''CFG-PRT'', ''1'', ''0'', ''0'', ''0'', ''9600'', ''7'', ''3'', ''0''] =
      take 32 (strtok_all [] (takeWhile (\<lambda>c. c \<noteq> CHR 0x00) ''CFG-PRT 1 0 0 0 9600 7 3 0''))"
    by code_simp
  have k: "drop 4 ([''CFG-PRT'', ''1'', ''0'', ''0'', ''0'', ''9600'', ''7'', ''3'', ''0''] ! 0)
      \<in> set (takeWhile (\<lambda>c. c \<noteq> []) cmd)"
    by code_simp
  have p: "[''CFG-PRT'', ''1'', ''0'', ''0'', ''0'', ''9600'', ''7'', ''3'', ''0''] \<noteq> [] \<and>
      take 4 ([''CFG-PRT'', ''1'', ''0'', ''0'', ''0'', ''9600'', ''7'', ''3'', ''0''] ! 0) = ''CFG-'' \<and>
      [''CFG-PRT'', ''1'', ''0'', ''0'', ''0'', ''9600'', ''7'', ''3'', ''0''] ! 0 \<noteq> ''CFG-VALSET''"
    by simp
  from gen_ubx_status [OF l a, of libc_dec] p k
  show "\<exists>n b. gen_ubx libc_dec ''CFG-PRT 1 0 0 0 9600 7 3 0'' = Some (n, b) \<and>
      0 < n \<and> n = int (length b)" by blast
qed

text \<open>
  The claim as stated fails: \<^verbatim>\<open>CFG-VALSET\<close> is a command of the catalog and the message
  has 7 tokens, yet the result is 0, because the sixth token is not a \<^verbatim>\<open>CFG-\<close> key.
\<close>

theorem gen_ubx_valset_counterexample:
  "find_cmd cmd ''VALSET'' 0 = Some 34 \<and>
   length (strtok_all [] ''CFG-VALSET 0 1 0 0 RATE-MEAS 1000'') = 7 \<and>
   gen_ubx libc_dec ''CFG-VALSET 0 1 0 0 RATE-MEAS 1000'' =
     Some (0, [0xB5, 0x62, 0x06, 0x8A, 0, 0, 0, 1, 0, 0])"
  by code_simp

subsection \<open>Stream framer\<close>

lemma U2_nonneg: "0 \<le> U2 b p"
  by (simp add: U2_def)

lemma keeps_frame_decode_ubx:
  assumes "\<forall>ty. keeps_frame (other ty)"
  shows "keeps_frame (decode_ubx E other)"
proof -
  have o: "raw_nbyte (snd (other ty r)) = raw_nbyte r \<and> raw_len (snd (other ty r)) = raw_len r \<and>
      length (raw_buff (snd (other ty r))) = length (raw_buff r)" for ty r
    using assms by (simp add: keeps_frame_def)
  have f: "same_frame r r' \<Longrightarrow> raw_nbyte r' = raw_nbyte r \<and> raw_len r' = raw_len r \<and>
      length (raw_buff r') = length (raw_buff r)" for r r' :: raw_t
    by (simp add: same_frame_def)
  have "raw_nbyte (snd (decode_ubx E other r)) = raw_nbyte r \<and>
        raw_len (snd (decode_ubx E other r)) = raw_len r \<and>
        length (raw_buff (snd (decode_ubx E other r))) = length (raw_buff r)" for r
    unfolding decode_ubx_def Let_def
    using f [OF decode_rxmraw_frame [of r E]] f [OF decode_rxmrawx_frame [of r E]]
      f [OF decode_trkmeas_frame [of r E]] f [OF decode_trkd5_frame [of r E]] o [of _ r]
    by simp
  then show ?thesis by (simp add: keeps_frame_def)
qed

lemma keeps_frame_idle:
  assumes "keeps_frame dec" "raw_nbyte r = 0" "int (length (raw_buff r)) = M"
  shows "framer_state M (snd (dec r))"
  using assms by (simp add: framer_state_def keeps_frame_def)

lemma input_ubx_idle:
  assumes "raw_nbyte raw = 0"
  shows "input_ubx E other M raw d =
     Some (0, raw\<lparr>raw_buff := (raw_buff raw)[0 := raw_buff raw ! 1, 1 := d],
                 raw_nbyte := (if ((raw_buff raw)[0 := raw_buff raw ! 1, 1 := d]) ! 0 = 0xB5 \<and>
                                  ((raw_buff raw)[0 := raw_buff raw ! 1, 1 := d]) ! 1 = 0x62
                               then 2 else 0)\<rparr>)"
  using assms by (simp add: input_ubx_def sync_ubx_def Let_def UBXSYNC1_def UBXSYNC2_def)

lemma input_ubx_store:
  assumes "raw_nbyte raw \<noteq> 0" "0 \<le> raw_nbyte raw" "raw_nbyte raw < int (length (raw_buff raw))"
  shows "input_ubx E other M raw d =
     (let b = (raw_buff raw)[nat (raw_nbyte raw) := d];
          n = raw_nbyte raw + 1;
          l = (if n = 6 then U2 b 4 + 8 else raw_len raw);
          raw2 = raw\<lparr>raw_buff := b, raw_nbyte := n, raw_len := l\<rparr>
      in if n = 6 \<and> l > M then Some (-1, raw2\<lparr>raw_nbyte := 0\<rparr>)
         else if n < 6 \<or> n < l then Some (0, raw2)
         else Some (decode_ubx E other (raw2\<lparr>raw_nbyte := 0\<rparr>)))"
  using assms by (simp add: input_ubx_def buff_store_def Let_def)

lemma input_ubx_step:
  assumes M: "6 \<le> M" and dec: "keeps_frame (decode_ubx E other)" and inv: "framer_state M raw"
  shows "\<exists>st raw'. input_ubx E other M raw d = Some (st, raw') \<and> framer_state M raw'"
proof (cases "raw_nbyte raw = 0")
  case True
  then show ?thesis using inv
    by (simp add: input_ubx_idle framer_state_def)
next
  case False
  with inv M have rng: "0 \<le> raw_nbyte raw" "raw_nbyte raw < int (length (raw_buff raw))"
    by (auto simp: framer_state_def)
  define b where "b = (raw_buff raw)[nat (raw_nbyte raw) := d]"
  define n where "n = raw_nbyte raw + 1"
  define l where "l = (if n = 6 then U2 b 4 + 8 else raw_len raw)"
  define raw2 where "raw2 = raw\<lparr>raw_buff := b, raw_nbyte := n, raw_len := l\<rparr>"
  have eq: "input_ubx E other M raw d =
      (if n = 6 \<and> l > M then Some (-1, raw2\<lparr>raw_nbyte := 0\<rparr>)
       else if n < 6 \<or> n < l then Some (0, raw2)
       else Some (decode_ubx E other (raw2\<lparr>raw_nbyte := 0\<rparr>)))"
    using input_ubx_store [OF False rng, of E other M d]
    by (simp add: Let_def b_def n_def l_def raw2_def)
  have lb: "int (length (raw_buff raw2)) = M"
    using inv by (simp add: raw2_def b_def framer_state_def)
  have l8: "n = 6 \<Longrightarrow> 8 \<le> l" using U2_nonneg [of b 4] by (simp add: l_def)
  have n3: "3 \<le> n" using inv False by (auto simp: n_def framer_state_def)
  have big: "6 < n \<Longrightarrow> n \<le> l \<and> l \<le> M"
    using inv by (auto simp: n_def l_def framer_state_def)
  consider (err) "n = 6" "l > M" | (cont) "\<not> (n = 6 \<and> l > M)" "n < 6 \<or> n < l"
    | (complete) "\<not> (n = 6 \<and> l > M)" "\<not> (n < 6 \<or> n < l)" by blast
  then show ?thesis
  proof cases
    case err
    then show ?thesis using eq lb by (simp add: framer_state_def)
  next
    case cont
    have "framer_state M raw2"
      using cont n3 l8 big lb by (auto simp: framer_state_def raw2_def)
    then show ?thesis using eq cont by auto
  next
    case complete
    have "framer_state M (snd (decode_ubx E other (raw2\<lparr>raw_nbyte := 0\<rparr>)))"
      by (rule keeps_frame_idle [OF dec]) (simp_all add: lb)
    then show ?thesis using eq complete
      by (metis prod.collapse)
  qed
qed

lemma input_ubx_seq_ok:
  assumes M: "6 \<le> M" and dec: "keeps_frame (decode_ubx E other)"
  shows "framer_state M raw \<Longrightarrow>
    \<exists>sts raw'. input_ubx_seq E other M raw bs = Some (sts, raw') \<and> framer_state M raw'"
proof (induction bs arbitrary: raw)
  case Nil
  then show ?case by simp
next
  case (Cons d ds)
  from input_ubx_step [OF M dec Cons.prems, of d]
  obtain st r1 where s: "input_ubx E other M raw d = Some (st, r1)" and i: "framer_state M r1"
    by blast
  from Cons.IH [OF i] obtain sts r2 where
    "input_ubx_seq E other M r1 ds = Some (sts, r2)" "framer_state M r2" by blast
  with s show ?case by simp
qed

text \<open>
  Claim C1.  Fed any byte sequence from a framer state, \<^verbatim>\<open>input_ubx\<close> never stores
  outside the frame buffer (the run yields a state, not \<open>None\<close>) and ends in a framer
  state again: idle, in the header (\<open>2 \<le> nbyte < 6\<close>) or in a body with
  \<open>6 \<le> nbyte < len \<le> MAXRAWLEN\<close>.  At \<open>nbyte = 0\<close> the byte is accepted, with
  \<open>nbyte = 2\<close>, exactly when the shifted two-byte window is \<open>0xB5, 0x62\<close>.  The byte
  that completes the header sets \<open>len = U2(buff+4) + 8\<close>; if that exceeds
  \<open>MAXRAWLEN\<close> the status is \<open>-1\<close> and \<open>nbyte\<close> is reset to 0, otherwise
  accumulation goes on with \<open>nbyte = 6\<close>.  Every store is at index \<open>nbyte\<close>, inside
  the buffer, and from the sixth byte on below \<open>len \<le> MAXRAWLEN\<close>.  The decoders that
  \<open>other\<close> stands for are taken to leave \<^verbatim>\<open>nbyte\<close>, \<^verbatim>\<open>len\<close> and \<^verbatim>\<open>buff\<close>
  alone, as the modelled ones are proved to do.
\<close>

theorem input_ubx_framer:
  assumes M: "6 \<le> M" and oth: "\<forall>ty. keeps_frame (other ty)" and inv: "framer_state M raw"
  shows "(\<exists>sts raw'. input_ubx_seq E other M raw bs = Some (sts, raw') \<and> framer_state M raw') \<and>
     (raw_nbyte raw = 0 \<longrightarrow>
        (\<exists>raw'. input_ubx E other M raw d = Some (0, raw') \<and>
           raw_nbyte raw' = (if raw_buff raw ! 1 = 0xB5 \<and> d = 0x62 then 2 else 0))) \<and>
     (raw_nbyte raw = 5 \<longrightarrow>
        (\<exists>st raw'. input_ubx E other M raw d = Some (st, raw') \<and>
           raw_len raw' = U2 ((raw_buff raw)[5 := d]) 4 + 8 \<and>
           (if raw_len raw' > M then st = -1 \<and> raw_nbyte raw' = 0
            else st = 0 \<and> raw_nbyte raw' = 6))) \<and>
     (raw_nbyte raw \<noteq> 0 \<longrightarrow>
        buff_store (raw_buff raw) (raw_nbyte raw) d
          = Some ((raw_buff raw)[nat (raw_nbyte raw) := d]) \<and>
        raw_nbyte raw < M \<and>
        (6 \<le> raw_nbyte raw \<longrightarrow> raw_nbyte raw < raw_len raw \<and> raw_len raw \<le> M))"
proof (intro conjI impI)
  show "\<exists>sts raw'. input_ubx_seq E other M raw bs = Some (sts, raw') \<and> framer_state M raw'"
    by (rule input_ubx_seq_ok [OF M keeps_frame_decode_ubx [OF oth] inv])
next
  assume z: "raw_nbyte raw = 0"
  have l: "0 < length (raw_buff raw)" "Suc 0 < length (raw_buff raw)"
    using inv M by (auto simp: framer_state_def)
  show "\<exists>raw'. input_ubx E other M raw d = Some (0, raw') \<and>
           raw_nbyte raw' = (if raw_buff raw ! 1 = 0xB5 \<and> d = 0x62 then 2 else 0)"
    using l by (simp add: input_ubx_idle [OF z])
next
  assume f: "raw_nbyte raw = 5"
  have l: "raw_nbyte raw < int (length (raw_buff raw))"
    using inv M f by (simp add: framer_state_def)
  have u: "0 \<le> U2 ((raw_buff raw)[5 := d]) 4" by (rule U2_nonneg)
  show "\<exists>st raw'. input_ubx E other M raw d = Some (st, raw') \<and>
           raw_len raw' = U2 ((raw_buff raw)[5 := d]) 4 + 8 \<and>
           (if raw_len raw' > M then st = -1 \<and> raw_nbyte raw' = 0
            else st = 0 \<and> raw_nbyte raw' = 6)"
    using f l u by (simp add: input_ubx_store Let_def)
next
  assume nz: "raw_nbyte raw \<noteq> 0"
  then show "buff_store (raw_buff raw) (raw_nbyte raw) d
          = Some ((raw_buff raw)[nat (raw_nbyte raw) := d])"
    using inv M by (auto simp: framer_state_def buff_store_def)
  show "raw_nbyte raw < M" using nz inv M by (auto simp: framer_state_def)
  show "raw_nbyte raw < raw_len raw" "raw_len raw \<le> M" if "6 \<le> raw_nbyte raw"
    using that inv by (auto simp: framer_state_def)
qed

theorem input_ubx_framer_witness:
  "6 \<le> (16::int) \<and> (\<forall>ty. keeps_frame ((\<lambda>ty r. (0, r)) ty)) \<and>
   framer_state 16 (raw_zero 16 0 0 0) \<and>
   (\<exists>sts raw'. input_ubx_seq rtk_demo (\<lambda>ty r. (0, r)) 16 (raw_zero 16 0 0 0)
        [0x00, 0xB5, 0x62, 0x06, 0x00, 0x00, 0x00, 0x06, 0x18] = Some (sts, raw') \<and>
      framer_state 16 raw')"
proof -
  have h1: "6 \<le> (16::int)" by simp
  have h2: "\<forall>ty. keeps_frame ((\<lambda>ty r. (0, r)) ty)" by (simp add: keeps_frame_def)
  have h3: "framer_state 16 (raw_zero 16 0 0 0)"
    by (simp add: framer_state_def raw_zero_def)
  from input_ubx_framer [OF h1 h2 h3] h1 h2 h3 show ?thesis by blast
qed

end
